theory Spec2Isabelle
  imports Main
begin

section \<open>Errors, effects and asynchronous results\<close>

text \<open>
  Every \<open>throw\<close> and every rejected promise of the TypeScript sources is a value
  \<open>Thrown cls msg\<close>: the class of the error object and its \<open>message\<close>.
  \<open>ExternalError\<close> stands for a failure of a collaborator that is not part of the
  sources (database, RPC transport, GitHub).
\<close>

datatype error_class =
    ErrorC
  | TypeErrorC
  | HiveErrorC
  | GraphQLErrorC
  | GraphQLDocumentStringInvalidErrorC
  | SchemaBuildErrorC
  | ZodErrorC
  | AccessErrorC
  | ExternalErrorC

datatype error = Thrown error_class string

fun error_message :: "error \<Rightarrow> string" where
  "error_message (Thrown c m) = m"

fun error_class_of :: "error \<Rightarrow> error_class" where
  "error_class_of (Thrown c m) = c"

section \<open>Strings as JavaScript uses them\<close>

text \<open>
  A string is the list of its characters. \<open>join\<close> is \<open>Array.prototype.join\<close>,
  \<open>show_nat\<close> the decimal rendering of a number in a template string. What
  \<open>String.prototype.toLowerCase\<close> and \<open>String.prototype.trim\<close> do to a string is
  not decided here: they are parameters (see \<open>env\<close>).
\<close>

fun join :: "string \<Rightarrow> string list \<Rightarrow> string" where
  "join sep [] = []"
| "join sep [x] = x"
| "join sep (x # y # ys) = x @ sep @ join sep (y # ys)"

fun show_nat :: "nat \<Rightarrow> string" where
  "show_nat n =
     (if n < 10 then [char_of (48 + n)]
      else show_nat (n div 10) @ [char_of (48 + n mod 10)])"

declare show_nat.simps [simp del]

text \<open>Truthiness of a \<open>string | null | undefined\<close> value.\<close>

fun truthy :: "string option \<Rightarrow> bool" where
  "truthy None = False"
| "truthy (Some s) = (s \<noteq> [])"

section \<open>Entities (shared/entities.ts)\<close>

text \<open>
  A GraphQL document is the list of its top-level definitions. The four kinds that
  \<open>removeFederationSpec\<close> inspects are kept apart; the directives applied to a schema
  definition are a field of their own, everything else a definition carries is its
  \<open>body\<close>.
\<close>

datatype definition_node =
    SchemaDefinition "string list" string
  | DirectiveDefinition string string
  | EnumTypeDefinition string string
  | ScalarTypeDefinition string string
  | OtherDefinition string string

type_synonym document = "definition_node list"

datatype ProjectType = FEDERATION | STITCHING | SINGLE | CUSTOM

fun ProjectType_string :: "ProjectType \<Rightarrow> string" where
  "ProjectType_string FEDERATION = ''FEDERATION''"
| "ProjectType_string STITCHING = ''STITCHING''"
| "ProjectType_string SINGLE = ''SINGLE''"
| "ProjectType_string CUSTOM = ''CUSTOM''"

record ExternalComposition =
  enabled :: bool
  endpoint :: "string option"
  encryptedSecret :: "string option"

record Project =
  project_id :: string
  cleanId :: string
  orgId :: string
  project_type :: ProjectType
  gitRepository :: "string option"
  isUsingLegacyRegistryModel :: bool
  externalComposition :: ExternalComposition

record Target =
  target_id :: string
  target_cleanId :: string

record Organization =
  organization_id :: string
  organization_cleanId :: string

record TargetSelector =
  organization :: string
  project :: string
  target :: string

datatype action = ADD | MODIFY | DELETE | NA

text \<open>
  \<open>Schema\<close> is the union \<open>SingleSchema | AddedCompositeSchema |
  ModifiedCompositeSchema\<close> (and the deleted variant the storage knows): one record,
  the members a variant does not have are \<open>None\<close>. The union is discriminated by
  \<open>action\<close>: a schema of action \<open>'N/A'\<close> is a \<open>SingleSchema\<close>, which has no
  \<open>service_name\<close> and no \<open>service_url\<close> member; a composite schema has both, and
  their value may be \<open>null\<close> or \<open>undefined\<close> (\<open>None\<close>). \<open>metadata\<close> is the parsed
  JSON value, kept as text.

  The \<open>source\<close> of a \<open>SchemaObject\<close> is declared a string; it is \<open>undefined\<close>
  (\<open>None\<close>) when the schema it is made from has a \<open>service_name\<close> member without a
  value.
\<close>

record Schema =
  schema_id :: string
  author :: string
  date :: nat
  commit :: string
  schema_target :: string
  sdl :: "string option"
  service_name :: "string option"
  service_url :: "string option"
  schema_action :: action
  metadata :: "string option"

record SchemaObject =
  document :: document
  source :: "string option"
  url :: "string option"
  raw :: string

record SchemaError =
  message :: string
  path :: "string list option"

datatype CriticalityLevel = Breaking | Dangerous | Safe

record SchemaChange =
  criticality :: CriticalityLevel
  change_message :: string
  change_path :: "string list option"

definition emptySource :: string where
  "emptySource = ''*''"

section \<open>Collaborators that are not part of the sources\<close>

text \<open>
  The \<open>graphql\<close> library (\<open>parse\<close>, \<open>print\<close>), \<open>shared/schema\<close>
  (\<open>sortDocumentNode\<close>, \<open>buildSchema\<close>), Node's MD5, the \<open>Inspector\<close> differ,
  \<open>String.prototype.localeCompare\<close>, \<open>toLowerCase\<close> and \<open>trim\<close>, \<open>JSON.parse\<close> and
  the truthiness of the value it returns, the message of a \<open>ZodError\<close> (the list of the
  issues \<open>zod\<close> found in an object), \<open>Date.now\<close>, the constant
  \<open>temp\<close> of \<open>models/shared\<close>, \<open>bolderize\<close> of \<open>shared/markdown\<close> and the message
  that \<open>SchemaBuildError\<close> (\<open>orchestrators/errors\<close>) gives to the error it wraps are
  parameters of the model. \<open>parse\<close> returns the message of the \<open>GraphQLError\<close> it
  throws and the line and column of its first location, if it has one.
  \<open>leftSettlesFirst\<close> is the scheduling of two promises that run in parallel.
\<close>

type_synonym GraphQLSchema = document

record env =
  parse :: "string \<Rightarrow> (string \<times> (nat \<times> nat) option) + document"
  print :: "document \<Rightarrow> string"
  sortDocumentNode :: "document \<Rightarrow> document"
  md5 :: "string \<Rightarrow> string"
  buildSchema :: "SchemaObject option \<Rightarrow> error + GraphQLSchema"
  diff :: "GraphQLSchema \<Rightarrow> GraphQLSchema \<Rightarrow> TargetSelector \<Rightarrow> error + SchemaChange list"
  localeCompare :: "string \<Rightarrow> string \<Rightarrow> int"
  toLowerCase :: "string \<Rightarrow> string"
  trim :: "string \<Rightarrow> string"
  JSON_parse :: "string \<Rightarrow> string + string"
  JSON_truthy :: "string \<Rightarrow> bool"
  zodIssues :: "Schema \<Rightarrow> string"
  now :: nat
  temp :: string
  bolderize :: "string \<Rightarrow> string"
  schemaBuildErrorMessage :: "string \<Rightarrow> string"
  leftSettlesFirst :: bool

text \<open>
  An orchestrator (\<open>interface Orchestrator\<close>): the outcome of each of its three
  asynchronous operations. \<open>build\<close> may resolve to a falsy value, which
  \<open>SchemaValidator.validate\<close> tests for.
\<close>

record Orchestrator =
  orchestrator_type :: ProjectType
  validate :: "SchemaObject list \<Rightarrow> Project \<Rightarrow> error + SchemaError list"
  build :: "SchemaObject list \<Rightarrow> Project \<Rightarrow> error + SchemaObject option"
  supergraph :: "SchemaObject list \<Rightarrow> Project \<Rightarrow> error + string option"

text \<open>
  What a run does to the outside world, in the order it does it: calls of an
  orchestrator, writes to the storage, uploads to the CDN, check-runs on GitHub,
  notifications, the acquisition of an idempotency key.
\<close>

datatype GetStartedStep = publishingSchema | checkingSchema

datatype OrchestratorOperation = Validate | Build | Supergraph

datatype CdnResource =
    CdnSchemaList "Schema list"
  | CdnSchemaSingle Schema
  | CdnMetadataList "string list"
  | CdnMetadataSingle string
  | CdnSupergraph string

record CreateVersionInput =
  cv_isComposable :: bool
  cv_organization :: string
  cv_project :: string
  cv_target :: string
  cv_sdl :: string
  cv_serviceName :: "string option"
  cv_commit :: string
  cv_author :: string
  cv_serviceUrl :: "string option"
  cv_metadata :: "string option"
  cv_base_schema :: "string option"

record DeleteSchemaInput =
  ds_serviceName :: string
  ds_isComposable :: bool
  ds_baseSchema :: "string option"
  ds_selector :: TargetSelector
  ds_author :: string
  ds_commit :: string

record CheckRun =
  cr_name :: string
  cr_conclusion :: string
  cr_sha :: string
  cr_organization :: string
  cr_repositoryOwner :: string
  cr_repositoryName :: "string option"
  cr_title :: string
  cr_summary :: string

datatype effect =
    OrchestratorCall ProjectType OrchestratorOperation "SchemaObject list"
  | StorageCompleteGetStartedStep string GetStartedStep
  | StorageCreateVersion CreateVersionInput
  | StorageDeleteSchema DeleteSchemaInput
  | CdnPublish string CdnResource
  | GitHubCreateCheckRun CheckRun
  | TriggerSchemaChangeNotifications
  | IdempotentRun string nat

text \<open>
  An asynchronous computation: the effects it had, then the value it resolved to or
  the error it rejected with.
\<close>

type_synonym 'a io = "effect list \<times> (error + 'a)"

definition ret :: "'a \<Rightarrow> 'a io" where
  "ret x = ([], Inr x)"

definition throw :: "error \<Rightarrow> 'a io" where
  "throw e = ([], Inl e)"

definition lift :: "error + 'a \<Rightarrow> 'a io" where
  "lift r = ([], r)"

definition call :: "effect \<Rightarrow> error + 'a \<Rightarrow> 'a io" where
  "call eff r = ([eff], r)"

definition io_bind :: "'a io \<Rightarrow> ('a \<Rightarrow> 'b io) \<Rightarrow> 'b io" where
  "io_bind m f =
     (case m of
        (es, Inl e) \<Rightarrow> (es, Inl e)
      | (es, Inr x) \<Rightarrow> (case f x of (es', r) \<Rightarrow> (es @ es', r)))"

definition try_catch :: "'a io \<Rightarrow> (error \<Rightarrow> 'a io) \<Rightarrow> 'a io" where
  "try_catch m h =
     (case m of
        (es, Inl e) \<Rightarrow> (case h e of (es', r) \<Rightarrow> (es @ es', r))
      | (es, Inr x) \<Rightarrow> (es, Inr x))"

text \<open>
  \<open>Promise.all\<close> of two promises that were both started: both have their effects; it
  rejects as soon as one of them rejects. When both reject, the one that settles first
  wins; \<open>leftFirst\<close> says which.
\<close>

definition Promise_all2 :: "bool \<Rightarrow> 'a io \<Rightarrow> 'b io \<Rightarrow> ('a \<times> 'b) io" where
  "Promise_all2 leftFirst a b =
     (fst a @ fst b,
      case (snd a, snd b) of
        (Inr x, Inr y) \<Rightarrow> Inr (x, y)
      | (Inl e, Inr y) \<Rightarrow> Inl e
      | (Inr x, Inl e) \<Rightarrow> Inl e
      | (Inl e1, Inl e2) \<Rightarrow> Inl (if leftFirst then e1 else e2))"

section \<open>Schema objects and the schema helper (shared/entities.ts, schema-helper.ts)\<close>

definition locationString :: "(nat \<times> nat) option \<Rightarrow> string" where
  "locationString location =
     (case location of
        None \<Rightarrow> []
      | Some (line, column) \<Rightarrow>
          '' at line '' @ show_nat line @ '', column '' @ show_nat column)"

definition GraphQLDocumentStringInvalidError :: "string \<Rightarrow> (nat \<times> nat) option \<Rightarrow> error" where
  "GraphQLDocumentStringInvalidError msg location =
     Thrown GraphQLDocumentStringInvalidErrorC
       (''The provided SDL is not valid'' @ locationString location @ [CHR 0x0A] @ '': '' @ msg)"

text \<open>
  \<open>createSchemaObject\<close>. Its argument type has an \<open>sdl\<close>; for a schema without one
  \<open>parse\<close> throws a plain \<open>Error\<close>, which is rethrown as it is. \<open>'service_name' in
  schema\<close> and \<open>'service_url' in schema\<close> hold for the composite members of the union
  and not for a \<open>SingleSchema\<close>.
\<close>

definition createSchemaObject :: "env \<Rightarrow> Schema \<Rightarrow> error + SchemaObject" where
  "createSchemaObject E schema =
     (case sdl schema of
        None \<Rightarrow> Inl (Thrown ErrorC ''Body must be a string. Received: undefined.'')
      | Some text \<Rightarrow>
          (case parse E text of
             Inl (msg, location) \<Rightarrow> Inl (GraphQLDocumentStringInvalidError msg location)
           | Inr doc \<Rightarrow>
               Inr \<lparr> document = doc,
                     source = (if schema_action schema \<noteq> NA then service_name schema
                               else Some emptySource),
                     url = (if schema_action schema \<noteq> NA then service_url schema else None),
                     raw = text \<rparr>))"

text \<open>\<open>xs.map(f)\<close> for an \<open>f\<close> that may throw: the first failure, in order.\<close>

fun mapM :: "('a \<Rightarrow> error + 'b) \<Rightarrow> 'a list \<Rightarrow> error + 'b list" where
  "mapM f [] = Inr []"
| "mapM f (x # xs) =
     (case f x of
        Inl e \<Rightarrow> Inl e
      | Inr y \<Rightarrow> (case mapM f xs of Inl e \<Rightarrow> Inl e | Inr ys \<Rightarrow> Inr (y # ys)))"

definition isModified :: "Schema \<Rightarrow> bool" where
  "isModified schema = (schema_action schema = MODIFY)"

definition isAdded :: "Schema \<Rightarrow> bool" where
  "isAdded schema = (schema_action schema = ADD)"

definition isAddedOrModified :: "Schema \<Rightarrow> bool" where
  "isAddedOrModified schema = (isAdded schema \<or> isModified schema)"

definition isSchemaWithSDL :: "Schema \<Rightarrow> bool" where
  "isSchemaWithSDL schema = (sdl schema \<noteq> None)"

text \<open>
  \<open>CompositeSchemaModel.parse\<close> and \<open>SingleSchemaModel.parse\<close> (zod): the object, cut
  down to the members of the model, or a \<open>ZodError\<close> whose message lists the issues.
\<close>

definition CompositeSchemaModel_parse :: "env \<Rightarrow> Schema \<Rightarrow> error + Schema" where
  "CompositeSchemaModel_parse E schema =
     (if (schema_action schema = ADD \<or> schema_action schema = MODIFY)
         \<and> sdl schema \<noteq> None \<and> service_name schema \<noteq> None
      then Inr schema
      else Inl (Thrown ZodErrorC (zodIssues E schema)))"

definition SingleSchemaModel_parse :: "env \<Rightarrow> Schema \<Rightarrow> error + Schema" where
  "SingleSchemaModel_parse E schema =
     (if schema_action schema = NA \<and> sdl schema \<noteq> None
      then Inr (schema\<lparr>service_name := None, service_url := None\<rparr>)
      else Inl (Thrown ZodErrorC (zodIssues E schema)))"

definition ensureCompositeSchemas :: "env \<Rightarrow> Schema list \<Rightarrow> error + Schema list" where
  "ensureCompositeSchemas E schemas = mapM (CompositeSchemaModel_parse E) schemas"

definition ensureSchemaWithSDL :: "Schema \<Rightarrow> error + Schema" where
  "ensureSchemaWithSDL schema =
     (if isSchemaWithSDL schema then Inr schema
      else Inl (Thrown ErrorC ''Schema does not have SDL''))"

definition onlySchemasWithSDL :: "Schema list \<Rightarrow> Schema list" where
  "onlySchemasWithSDL schemas = filter isSchemaWithSDL schemas"

text \<open>
  \<open>serviceExists\<close>: \<open>===\<close> between the service name of a schema and the one asked
  for, which a caller passes as it got it (\<open>input.service!\<close>).
\<close>

definition serviceExists :: "Schema list \<Rightarrow> string option \<Rightarrow> bool" where
  "serviceExists schemas serviceName =
     list_ex (\<lambda>s. service_name s = serviceName) schemas"

text \<open>
  \<open>swapServices\<close>: every schema of the same service name is replaced; \<open>swapped\<close> is
  assigned at each of them, so the last one stays.
\<close>

definition swapServices :: "Schema list \<Rightarrow> Schema \<Rightarrow> Schema list \<times> Schema option" where
  "swapServices schemas newSchema =
     (let same = (\<lambda>existing. service_name existing = service_name newSchema);
          swapped = (case filter same schemas of [] \<Rightarrow> None | m # ms \<Rightarrow> Some (last (m # ms)));
          output = map (\<lambda>existing. if same existing then newSchema else existing) schemas
      in (if swapped = None then output @ [newSchema] else output, swapped))"

text \<open>
  \<open>Array.prototype.sort\<close> with a comparator is stable: an insertion sort in which an
  element stays in front of the later ones it does not compare greater than.
\<close>

fun insert_sorted :: "('a \<Rightarrow> 'a \<Rightarrow> int) \<Rightarrow> 'a \<Rightarrow> 'a list \<Rightarrow> 'a list" where
  "insert_sorted cmp x [] = [x]"
| "insert_sorted cmp x (y # ys) =
     (if cmp x y \<le> 0 then x # y # ys else y # insert_sorted cmp x ys)"

definition sort_with :: "('a \<Rightarrow> 'a \<Rightarrow> int) \<Rightarrow> 'a list \<Rightarrow> 'a list" where
  "sort_with cmp xs = foldr (insert_sorted cmp) xs []"

definition sortSchemas :: "env \<Rightarrow> Schema list \<Rightarrow> Schema list" where
  "sortSchemas E schemas =
     sort_with
       (\<lambda>a b. localeCompare E (case service_name a of Some n \<Rightarrow> n | None \<Rightarrow> [])
                              (case service_name b of Some n \<Rightarrow> n | None \<Rightarrow> []))
       schemas"

definition createChecksum :: "env \<Rightarrow> Schema \<Rightarrow> error + string" where
  "createChecksum E schema =
     (case createSchemaObject E schema of
        Inl e \<Rightarrow> Inl e
      | Inr obj \<Rightarrow> Inr (md5 E (print E (sortDocumentNode E (document obj)))))"

definition ensureJSONMetadata :: "env \<Rightarrow> string option \<Rightarrow> error + string option" where
  "ensureJSONMetadata E meta =
     (if truthy meta then
        (case JSON_parse E (case meta of Some m \<Rightarrow> m | None \<Rightarrow> []) of
           Inl m \<Rightarrow> Inl (Thrown ErrorC (''Failed to parse schema metadata JSON: '' @ m))
         | Inr v \<Rightarrow> Inr (Some v))
      else Inr None)"

text \<open>
  Modelled from the spec: \<open>hashSchema\<close> of \<open>shared/schema\<close> is not part of the sources.
  Section 4.2: the document nodes are sorted canonically and hashed with MD5 to detect
  identical schemas.
\<close>

definition hashSchema :: "env \<Rightarrow> SchemaObject \<Rightarrow> string" where
  "hashSchema E schema = md5 E (print E (sortDocumentNode E (document schema)))"

section \<open>The validation pipeline (schema-validator.ts)\<close>

record ValidationResult =
  isComposable :: bool
  hasBreakingChanges :: bool
  errors :: "SchemaError list"
  changes :: "SchemaChange list"

record Compare =
  incoming :: SchemaObject
  existing :: "SchemaObject option"

text \<open>
  The base schema goes in front of the first member of \<open>after\<close> only; \<open>parse\<close> of the
  base schema runs when there is a first member, and its \<open>GraphQLError\<close> is not
  caught.
\<close>

definition afterWithBase :: "env \<Rightarrow> string option \<Rightarrow> SchemaObject list \<Rightarrow> error + SchemaObject list" where
  "afterWithBase E baseSchema after =
     (if truthy baseSchema then
        (case after of
           [] \<Rightarrow> Inr []
         | schema # rest \<Rightarrow>
             (let base = (case baseSchema of Some b \<Rightarrow> b | None \<Rightarrow> []) in
              case parse E base of
                Inl (msg, location) \<Rightarrow> Inl (Thrown GraphQLErrorC msg)
              | Inr baseDocument \<Rightarrow>
                  Inr (schema\<lparr> raw := base @ raw schema,
                               document := baseDocument @ document schema \<rparr> # rest)))
      else Inr after)"

definition areIdentical :: "env \<Rightarrow> Compare option \<Rightarrow> bool" where
  "areIdentical E compare =
     (case compare of
        None \<Rightarrow> False
      | Some c \<Rightarrow>
          (case existing c of
             None \<Rightarrow> False
           | Some ex \<Rightarrow> hashSchema E ex = hashSchema E (incoming c)))"

definition breakingChangeErrors :: "SchemaChange list \<Rightarrow> SchemaError list" where
  "breakingChangeErrors chs =
     map (\<lambda>change. \<lparr> message = ''Breaking Change: '' @ change_message change,
                      path = change_path change \<rparr>)
         (filter (\<lambda>change. criticality change = Breaking) chs)"

text \<open>
  The body of the \<open>try\<close> block: the two builds in parallel, then the diff. It yields
  the errors, the changes and \<open>hasBreakingChanges\<close> as the block leaves them.
\<close>

definition compareSchemas ::
  "env \<Rightarrow> Orchestrator \<Rightarrow> TargetSelector \<Rightarrow> SchemaObject list \<Rightarrow> SchemaObject list \<Rightarrow> bool
     \<Rightarrow> Project \<Rightarrow> SchemaError list \<Rightarrow> (SchemaError list \<times> SchemaChange list \<times> bool) io" where
  "compareSchemas E orchestrator selector before after acceptBreakingChanges proj compositionErrors =
     io_bind
       (Promise_all2 (leftSettlesFirst E)
          (call (OrchestratorCall (orchestrator_type orchestrator) Build before)
             (build orchestrator before proj))
          (call (OrchestratorCall (orchestrator_type orchestrator) Build after)
             (build orchestrator after proj)))
       (\<lambda>(existingSchema, incomingSchema).
          case existingSchema of
            None \<Rightarrow> ret (compositionErrors, [], False)
          | Some ex \<Rightarrow>
              io_bind (lift (buildSchema E existingSchema)) (\<lambda>builtExisting.
              io_bind (lift (buildSchema E incomingSchema)) (\<lambda>builtIncoming.
              io_bind (lift (diff E builtExisting builtIncoming selector)) (\<lambda>chs.
                if list_ex (\<lambda>change. criticality change = Breaking) chs then
                  (if acceptBreakingChanges then ret (compositionErrors, chs, False)
                   else ret (compositionErrors @ breakingChangeErrors chs, chs, True))
                else ret (compositionErrors, chs, False)))))"

definition SchemaValidator_validate ::
  "env \<Rightarrow> Orchestrator \<Rightarrow> TargetSelector \<Rightarrow> Compare option \<Rightarrow> bool
     \<Rightarrow> string option \<Rightarrow> SchemaObject list \<Rightarrow> SchemaObject list \<Rightarrow> bool \<Rightarrow> Project
     \<Rightarrow> ValidationResult io" where
  "SchemaValidator_validate E orchestrator selector compare isInitial
       baseSchema before after acceptBreakingChanges proj =
     io_bind (lift (afterWithBase E baseSchema after)) (\<lambda>withBase.
       if areIdentical E compare then
         ret \<lparr> isComposable = True, hasBreakingChanges = False, errors = [], changes = [] \<rparr>
       else
         io_bind
           (call (OrchestratorCall (orchestrator_type orchestrator) Validate withBase)
              (validate orchestrator withBase proj))
           (\<lambda>compositionErrors.
              if isInitial then
                ret \<lparr> isComposable = (compositionErrors = []), hasBreakingChanges = False,
                      errors = compositionErrors, changes = [] \<rparr>
              else
                io_bind
                  (try_catch
                     (compareSchemas E orchestrator selector before after
                        acceptBreakingChanges proj compositionErrors)
                     (\<lambda>error.
                        ret (compositionErrors @
                               [\<lparr> message = ''Failed to compare schemas: '' @ error_message error,
                                   path = None \<rparr>],
                             [], False)))
                  (\<lambda>(errs, chs, breaking).
                     ret \<lparr> isComposable = (compositionErrors = []), hasBreakingChanges = breaking,
                           errors = errs, changes = chs \<rparr>)))"

section \<open>The federation orchestrator (orchestrators/federation.ts)\<close>

definition federationV1_directives :: "string list" where
  "federationV1_directives =
     [''join__graph'', ''join__field'', ''join__owner'', ''join__type'', ''core'']"

definition federationV1_enums :: "string list" where
  "federationV1_enums = [''join__Graph'', ''core__Purpose'']"

definition federationV1_scalars :: "string list" where
  "federationV1_scalars = [''join__FieldSet'']"

text \<open>
  The visitor of \<open>removeFederationSpec\<close> at one definition: \<open>None\<close> is the
  \<open>return null\<close> that deletes the node. The four kinds occur at the top level of a
  document only.
\<close>

fun visit_definition :: "definition_node \<Rightarrow> definition_node option" where
  "visit_definition (SchemaDefinition directives body) = Some (SchemaDefinition [] body)"
| "visit_definition (DirectiveDefinition name body) =
     (if name \<in> set federationV1_directives then None
      else Some (DirectiveDefinition name body))"
| "visit_definition (EnumTypeDefinition name body) =
     (if name \<in> set federationV1_enums then None
      else Some (EnumTypeDefinition name body))"
| "visit_definition (ScalarTypeDefinition name body) =
     (if name \<in> set federationV1_scalars then None
      else Some (ScalarTypeDefinition name body))"
| "visit_definition (OtherDefinition kind body) = Some (OtherDefinition kind body)"

definition removeFederationSpec :: "env \<Rightarrow> string \<Rightarrow> error + document" where
  "removeFederationSpec E text =
     (case parse E text of
        Inl (msg, location) \<Rightarrow> Inl (Thrown GraphQLErrorC msg)
      | Inr doc \<Rightarrow> Inr (List.map_filter visit_definition doc))"

record Config =
  config_externalComposition :: "ExternalComposition option"
  config_isUsingLegacyRegistryModel :: bool

text \<open>
  \<open>ensureConfig\<close>. The tests for a missing project and for a non-boolean
  \<open>isUsingLegacyRegistryModel\<close> cannot fail on a value of type \<open>Project\<close>.
\<close>

definition ensureConfig :: "Project \<Rightarrow> error + Config" where
  "ensureConfig proj =
     (let ec = externalComposition proj in
      if enabled ec \<and> \<not> truthy (endpoint ec) then
        Inl (Thrown ErrorC ''External composition error: endpoint is missing'')
      else if enabled ec \<and> \<not> truthy (encryptedSecret ec) then
        Inl (Thrown ErrorC ''External composition error: encryptedSecret is missing'')
      else
        Inr \<lparr> config_externalComposition = (if enabled ec then Some ec else None),
              config_isUsingLegacyRegistryModel = isUsingLegacyRegistryModel proj \<rparr>)"

definition externalCompositionFromConfig :: "Config \<Rightarrow> ExternalComposition option" where
  "externalCompositionFromConfig config =
     (case config_externalComposition config of
        None \<Rightarrow> None
      | Some ec \<Rightarrow> if enabled ec then Some ec else None)"

text \<open>
  The composition service behind the tRPC client: what each mutation resolves to.
  A request carries \<open>type: 'federation'\<close>, the schemas and the external composition.
\<close>

datatype ServiceSchema =
    RawSource string "string option"
  | RawSourceUrl string "string option" "string option"

record ServiceRequest =
  request_schemas :: "ServiceSchema list"
  request_external :: "ExternalComposition option"

record SchemaService =
  mutation_validate :: "ServiceRequest \<Rightarrow> error + SchemaError list"
  mutation_build :: "ServiceRequest \<Rightarrow> error + string \<times> string option"
  mutation_supergraph :: "ServiceRequest \<Rightarrow> error + string option"

definition SchemaBuildError :: "env \<Rightarrow> error \<Rightarrow> error" where
  "SchemaBuildError E e = Thrown SchemaBuildErrorC (schemaBuildErrorMessage E (error_message e))"

definition FederationOrchestrator_validate ::
  "SchemaService \<Rightarrow> SchemaObject list \<Rightarrow> Project \<Rightarrow> error + SchemaError list" where
  "FederationOrchestrator_validate service schemas proj =
     (case ensureConfig proj of
        Inl e \<Rightarrow> Inl e
      | Inr config \<Rightarrow>
          mutation_validate service
            \<lparr> request_schemas = map (\<lambda>s. RawSource (raw s) (source s)) schemas,
              request_external = externalCompositionFromConfig config \<rparr>)"

definition FederationOrchestrator_build ::
  "env \<Rightarrow> SchemaService \<Rightarrow> SchemaObject list \<Rightarrow> Project \<Rightarrow> error + SchemaObject" where
  "FederationOrchestrator_build E service schemas proj =
     (case ensureConfig proj of
        Inl e \<Rightarrow> Inl e
      | Inr config \<Rightarrow>
          (case mutation_build service
                  \<lparr> request_schemas = map (\<lambda>s. RawSource (raw s) (source s)) schemas,
                    request_external = externalCompositionFromConfig config \<rparr> of
             Inl e \<Rightarrow> Inl (SchemaBuildError E e)
           | Inr (resultRaw, resultSource) \<Rightarrow>
               if config_isUsingLegacyRegistryModel config then
                 (case parse E resultRaw of
                    Inl (msg, location) \<Rightarrow> Inl (SchemaBuildError E (Thrown GraphQLErrorC msg))
                  | Inr doc \<Rightarrow>
                      Inr \<lparr> document = doc, source = resultSource, url = None,
                            raw = resultRaw \<rparr>)
               else
                 (case removeFederationSpec E resultRaw of
                    Inl e \<Rightarrow> Inl (SchemaBuildError E e)
                  | Inr parsed \<Rightarrow>
                      Inr \<lparr> document = parsed, source = resultSource, url = None,
                            raw = print E parsed \<rparr>)))"

definition FederationOrchestrator_supergraph ::
  "SchemaService \<Rightarrow> SchemaObject list \<Rightarrow> Project \<Rightarrow> error + string option" where
  "FederationOrchestrator_supergraph service schemas proj =
     (case ensureConfig proj of
        Inl e \<Rightarrow> Inl e
      | Inr config \<Rightarrow>
          mutation_supergraph service
            \<lparr> request_schemas = map (\<lambda>s. RawSourceUrl (raw s) (source s) (url s)) schemas,
              request_external = externalCompositionFromConfig config \<rparr>)"

definition FederationOrchestrator :: "env \<Rightarrow> SchemaService \<Rightarrow> Orchestrator" where
  "FederationOrchestrator E service =
     \<lparr> orchestrator_type = FEDERATION,
       validate = FederationOrchestrator_validate service,
       build = (\<lambda>schemas proj. map_sum (\<lambda>e. e) Some (FederationOrchestrator_build E service schemas proj)),
       supergraph = FederationOrchestrator_supergraph service \<rparr>"

section \<open>The world of one request\<close>

text \<open>
  The collaborators that hold state or decide access (\<open>AuthManager\<close>,
  \<open>ProjectManager\<close>, \<open>TargetManager\<close>, \<open>OrganizationManager\<close>, \<open>Storage\<close>,
  \<open>CdnProvider\<close>, \<open>GitHubIntegrationManager\<close>, the module configuration) are not part
  of the sources. \<open>world\<close> gives what each of them answers for the selector of the
  request at hand; the calls that change something outside are recorded as effects.
\<close>

datatype TargetAccessScope = REGISTRY_READ | REGISTRY_WRITE

record RegistryVersion =
  version_id :: string
  version_isComposable :: bool
  version_date :: nat
  version_base_schema :: "string option"

record LinkInput =
  link_organization :: string
  link_project :: string
  link_target :: string
  link_version :: "string option"

record world =
  ensureTargetAccess :: "TargetAccessScope \<Rightarrow> error + unit"
  getProject :: "error + Project"
  getTarget :: "error + Target"
  getOrganization :: "error + Organization"
  storage_getLatestSchemas :: "error + Schema list \<times> string option"
  storage_getBaseSchema :: "error + string option"
  storage_completeGetStartedStep :: "string \<Rightarrow> GetStartedStep \<Rightarrow> error + unit"
  storage_createVersion :: "CreateVersionInput \<Rightarrow> error + RegistryVersion"
  storage_deleteSchema :: "DeleteSchemaInput \<Rightarrow> error + RegistryVersion"
  cdn_publish :: "string \<Rightarrow> CdnResource \<Rightarrow> error + unit"
  createCheckRun :: "CheckRun \<Rightarrow> error + unit"
  schemaPublishLink :: "(LinkInput \<Rightarrow> string) option"

section \<open>The schema manager (schema-manager.ts)\<close>

definition SchemaManager_getLatestSchemas :: "world \<Rightarrow> (Schema list \<times> string option) io" where
  "SchemaManager_getLatestSchemas W =
     io_bind (lift (ensureTargetAccess W REGISTRY_READ)) (\<lambda>_.
       lift (storage_getLatestSchemas W))"

definition SchemaManager_getBaseSchema :: "world \<Rightarrow> string option io" where
  "SchemaManager_getBaseSchema W =
     io_bind (lift (ensureTargetAccess W REGISTRY_READ)) (\<lambda>_.
       lift (storage_getBaseSchema W))"

definition SchemaManager_completeGetStartedCheck :: "world \<Rightarrow> string \<Rightarrow> GetStartedStep \<Rightarrow> unit io" where
  "SchemaManager_completeGetStartedCheck W org step =
     call (StorageCompleteGetStartedStep org step) (storage_completeGetStartedStep W org step)"

text \<open>
  The input of \<open>createVersion\<close>: \<open>commits\<close> and \<open>action\<close> are accepted and not
  passed on to the storage.
\<close>

record CreateVersionArgs =
  arg_commit :: string
  arg_schema :: string
  arg_author :: string
  arg_isComposable :: bool
  arg_service :: "string option"
  arg_commits :: "string list"
  arg_url :: "string option"
  arg_base_schema :: "string option"
  arg_metadata :: "string option"
  arg_action :: action
  arg_selector :: TargetSelector

definition SchemaManager_createVersion ::
  "env \<Rightarrow> world \<Rightarrow> CreateVersionArgs \<Rightarrow> RegistryVersion io" where
  "SchemaManager_createVersion E W input =
     io_bind (lift (ensureTargetAccess W REGISTRY_WRITE)) (\<lambda>_.
     io_bind (lift (getProject W)) (\<lambda>proj.
       let service =
             (if isUsingLegacyRegistryModel proj \<and> truthy (arg_service input)
              then map_option (toLowerCase E) (arg_service input)
              else arg_service input);
           row = \<lparr> cv_isComposable = arg_isComposable input,
                   cv_organization = organization (arg_selector input),
                   cv_project = project (arg_selector input),
                   cv_target = target (arg_selector input),
                   cv_sdl = arg_schema input,
                   cv_serviceName = service,
                   cv_commit = arg_commit input,
                   cv_author = arg_author input,
                   cv_serviceUrl = arg_url input,
                   cv_metadata = arg_metadata input,
                   cv_base_schema = arg_base_schema input \<rparr>
       in call (StorageCreateVersion row) (storage_createVersion W row)))"

definition SchemaManager_deleteSchema ::
  "world \<Rightarrow> string \<Rightarrow> bool \<Rightarrow> string option \<Rightarrow> TargetSelector \<Rightarrow> RegistryVersion io" where
  "SchemaManager_deleteSchema W serviceName composable baseSchema selector =
     io_bind (lift (ensureTargetAccess W REGISTRY_WRITE)) (\<lambda>_.
       let row = \<lparr> ds_serviceName = serviceName, ds_isComposable = composable,
                   ds_baseSchema = baseSchema, ds_selector = selector,
                   ds_author = ''unknown'', ds_commit = ''unknown'' \<rparr>
       in call (StorageDeleteSchema row) (storage_deleteSchema W row))"

section \<open>Inputs and results of the project-type models\<close>

text \<open>
  \<open>CheckInput\<close>, \<open>PublishInput\<close> and \<open>DeleteInput\<close> of \<open>schema-publisher.ts\<close>. An
  optional member that is \<open>null\<close> or \<open>undefined\<close> is \<open>None\<close>; \<open>check_github\<close> is
  the commit of \<open>github: {commit}\<close>.
\<close>

record CheckInput =
  check_service :: "string option"
  check_sdl :: string
  check_github :: "string option"
  check_selector :: TargetSelector

record PublishInput =
  input_service :: "string option"
  input_url :: "string option"
  input_sdl :: string
  input_author :: string
  input_commit :: string
  input_force :: "bool option"
  input_experimental_acceptBreakingChanges :: "bool option"
  input_metadata :: "string option"
  input_github :: "bool option"
  input_checksum :: string
  input_selector :: TargetSelector

record DeleteInput =
  delete_serviceName :: string
  delete_force :: "bool option"
  delete_selector :: TargetSelector

datatype Conclusion = Publish | Reject | Neutral

record CompositeCheck =
  validationResult :: ValidationResult
  isInitial :: bool
  previousService :: "Schema option"
  schemaObjects_before :: "SchemaObject list"
  schemaObjects_after :: "SchemaObject list"
  schemas_before :: "Schema list"
  schemas_after :: "Schema list"

record SingleCheck =
  single_validationResult :: ValidationResult
  single_isInitial :: bool
  single_schema_before :: "Schema option"
  single_schema_after :: Schema

text \<open>
  What \<open>publish\<close> of a model returns: the missing-input error, the no-op, or the
  decision with its conclusion.
\<close>

record PublishDecision =
  typename :: string
  conclusion :: Conclusion
  decision_isComposable :: bool
  decision_changes :: "SchemaChange list"
  decision_errors :: "SchemaError list"
  updates :: "string list"
  decision_schema_before :: "Schema option"
  decision_schema_after :: Schema
  decision_schemas_before :: "Schema list"
  decision_schemas_after :: "Schema list"
  cdn :: "(Schema list \<times> string option) option"
  decision_isInitial :: bool

record NeutralResult =
  neutral_valid :: bool
  neutral_isComposable :: "bool option"
  neutral_isInitial :: bool
  neutral_isModified :: bool

datatype PublishResult =
    MissingInput string string
  | NoOp NeutralResult
  | Decision PublishDecision


definition typename_of :: "Conclusion \<Rightarrow> string" where
  "typename_of c = (if c = Publish then ''SchemaPublishSuccess'' else ''SchemaPublishError'')"

definition show_nullable :: "string option \<Rightarrow> string" where
  "show_nullable v = (case v of None \<Rightarrow> ''null'' | Some s \<Rightarrow> s)"

definition quote :: string where
  "quote = [CHR 0x27]"

section \<open>The composite model (models/composite.ts)\<close>

definition supportsMetadata :: "Project \<Rightarrow> bool" where
  "supportsMetadata proj = (project_type proj \<noteq> FEDERATION)"

definition supportsBaseSchema :: "Project \<Rightarrow> bool" where
  "supportsBaseSchema proj = (project_type proj \<noteq> FEDERATION)"

definition supportsSupergraph :: "Project \<Rightarrow> bool" where
  "supportsSupergraph proj = (project_type proj = FEDERATION)"

definition requiresServiceUrl :: "Project \<Rightarrow> bool" where
  "requiresServiceUrl proj = (project_type proj = FEDERATION)"

definition fetchBaseSchema :: "world \<Rightarrow> Project \<Rightarrow> string option io" where
  "fetchBaseSchema W proj =
     (if supportsBaseSchema proj then SchemaManager_getBaseSchema W else ret None)"

text \<open>
  \<open>CompositeModel.check\<close>. A check that comes without a service name gives the
  incoming schema the service name \<open>undefined\<close>; its schema object then has the source
  \<open>undefined\<close>.
\<close>

definition checkIncoming :: "env \<Rightarrow> CheckInput \<Rightarrow> Schema list \<Rightarrow> Schema" where
  "checkIncoming E input schemas =
     \<lparr> schema_id = temp E, author = temp E, date = now E, commit = temp E,
       schema_target = target (check_selector input), sdl = Some (check_sdl input),
       service_name = check_service input, service_url = Some (temp E),
       schema_action = (if serviceExists schemas (check_service input) then MODIFY else ADD),
       metadata = None \<rparr>"

definition CompositeModel_check ::
  "env \<Rightarrow> world \<Rightarrow> Orchestrator \<Rightarrow> Orchestrator \<Rightarrow> CheckInput \<Rightarrow> bool \<Rightarrow> Project
     \<Rightarrow> Schema list \<Rightarrow> CompositeCheck io" where
  "CompositeModel_check E W federation stitching input acceptBreakingChanges proj currentSchemas =
     (let orchestrator = (if project_type proj = FEDERATION then federation else stitching) in
      io_bind (lift (ensureCompositeSchemas E currentSchemas)) (\<lambda>schemas.
      let incomingSchema = checkIncoming E input schemas in
      io_bind (fetchBaseSchema W proj) (\<lambda>baseSchema.
      case swapServices schemas incomingSchema of (afterSchemas, existingSchema) \<Rightarrow>
      io_bind (lift (mapM (createSchemaObject E) (filter isAddedOrModified schemas))) (\<lambda>before.
      io_bind (lift (mapM (createSchemaObject E) (filter isAddedOrModified afterSchemas))) (\<lambda>after.
      io_bind (lift (createSchemaObject E incomingSchema)) (\<lambda>incomingObject.
      io_bind (lift (case existingSchema of
                       None \<Rightarrow> Inr None
                     | Some ex \<Rightarrow> map_sum (\<lambda>e. e) Some (createSchemaObject E ex)))
        (\<lambda>existingObject.
      io_bind (SchemaValidator_validate E orchestrator (check_selector input)
                 (Some \<lparr> incoming = incomingObject, existing = existingObject \<rparr>)
                 (schemas = []) baseSchema before after acceptBreakingChanges proj)
        (\<lambda>result.
      ret \<lparr> validationResult = result, isInitial = (schemas = []),
            previousService = existingSchema,
            schemaObjects_before = before, schemaObjects_after = after,
            schemas_before = schemas, schemas_after = afterSchemas \<rparr>))))))))"

definition missingMessage :: "env \<Rightarrow> Project \<Rightarrow> string \<Rightarrow> string" where
  "missingMessage E proj what =
     ''Can not publish schema for a '' @ quote
       @ toLowerCase E (ProjectType_string (project_type proj))
       @ quote @ '' project without a service '' @ what @ ''.''"

text \<open>
  \<open>!v || typeof v !== 'string' || v.trim() === \<^verbatim>\<open>''\<close>\<close> for the service name and the
  service URL of the input.
\<close>

definition blank :: "env \<Rightarrow> string option \<Rightarrow> bool" where
  "blank E v = (case v of None \<Rightarrow> True | Some s \<Rightarrow> s = [] \<or> trim E s = [])"

definition joinedChecksums :: "env \<Rightarrow> Schema list \<Rightarrow> error + string" where
  "joinedChecksums E schemas =
     map_sum (\<lambda>e. e) (join '','') (mapM (createChecksum E) (sortSchemas E schemas))"

text \<open>
  The \<open>cdn\<close> member of a decision: the live schemas and, for a federation project,
  the supergraph the orchestrator is asked for.
\<close>

definition cdnBundle ::
  "Orchestrator \<Rightarrow> Project \<Rightarrow> Schema list \<Rightarrow> SchemaObject list
     \<Rightarrow> ((Schema list \<times> string option) option) io" where
  "cdnBundle orchestrator proj after objectsAfter =
     io_bind
       (if supportsSupergraph proj then
          call (OrchestratorCall (orchestrator_type orchestrator) Supergraph objectsAfter)
            (supergraph orchestrator objectsAfter proj)
        else ret None)
       (\<lambda>sg. ret (Some (filter isAddedOrModified after, sg)))"

text \<open>
  \<open>CompositeModel.publish\<close>, in the order of the source: the check it runs (a
  \<open>GraphQLDocumentStringInvalidError\<close> becomes a \<open>HiveError\<close>), the incoming schema,
  the next set of schemas, the four reasons for a modification.
\<close>

definition acceptsBreakingChanges :: "PublishInput \<Rightarrow> Project \<Rightarrow> bool" where
  "acceptsBreakingChanges input proj =
     (input_experimental_acceptBreakingChanges input = Some True
        \<or> \<not> isUsingLegacyRegistryModel proj)"

definition asHiveError :: "error \<Rightarrow> 'a io" where
  "asHiveError error =
     (if error_class_of error = GraphQLDocumentStringInvalidErrorC
      then throw (Thrown HiveErrorC (error_message error))
      else throw error)"

definition CompositeModel_publishCheck ::
  "env \<Rightarrow> world \<Rightarrow> Orchestrator \<Rightarrow> Orchestrator \<Rightarrow> PublishInput \<Rightarrow> Project \<Rightarrow> Schema list
     \<Rightarrow> CompositeCheck io" where
  "CompositeModel_publishCheck E W federation stitching input proj currentSchemas =
     try_catch
       (CompositeModel_check E W federation stitching
          \<lparr> check_service = input_service input, check_sdl = input_sdl input,
            check_github = None, check_selector = input_selector input \<rparr>
          (acceptsBreakingChanges input proj) proj currentSchemas)
       asHiveError"

definition compositeIncoming ::
  "env \<Rightarrow> PublishInput \<Rightarrow> Target \<Rightarrow> Schema option \<Rightarrow> string option \<Rightarrow> Schema" where
  "compositeIncoming E input tgt previous meta =
     \<lparr> schema_id = temp E, author = input_author input, date = now E,
       commit = input_commit input, schema_target = target_id tgt,
       sdl = Some (input_sdl input), service_name = input_service input,
       service_url = input_url input,
       schema_action = (if previous \<noteq> None then MODIFY else ADD), metadata = meta \<rparr>"

definition withIncoming :: "Schema \<Rightarrow> Schema list \<Rightarrow> Schema list" where
  "withIncoming incomingSchema schemas =
     map (\<lambda>s. if schema_id s = schema_id incomingSchema then incomingSchema else s) schemas"

definition hasNewUrl :: "string option \<Rightarrow> Schema option \<Rightarrow> Schema \<Rightarrow> bool" where
  "hasNewUrl version previous incomingSchema =
     (truthy version \<and>
      (case previous of
         None \<Rightarrow> False
       | Some p \<Rightarrow> service_url p \<noteq> service_url incomingSchema))"

text \<open>
  \<open>hasDifferentChecksum\<close>: computed when there are a version and a previous service.
  \<open>sortSchemas\<close> sorts in place, so \<open>schemas.before\<close> and \<open>schemas.after\<close> are in
  sorted order from then on (\<open>afterComparison\<close>).
\<close>

definition compositeHasDifferentChecksum ::
  "env \<Rightarrow> string option \<Rightarrow> Schema option \<Rightarrow> Schema list \<Rightarrow> Schema list \<Rightarrow> bool io" where
  "compositeHasDifferentChecksum E version previous before after =
     (if truthy version \<and> previous \<noteq> None then
        io_bind (lift (joinedChecksums E before)) (\<lambda>checksumsBefore.
        io_bind (lift (joinedChecksums E after)) (\<lambda>checksumsAfter.
          ret (checksumsBefore \<noteq> checksumsAfter)))
      else ret False)"

definition afterComparison ::
  "env \<Rightarrow> string option \<Rightarrow> Schema option \<Rightarrow> Schema list \<Rightarrow> Schema list" where
  "afterComparison E version previous schemas =
     (if truthy version \<and> previous \<noteq> None then sortSchemas E schemas else schemas)"

definition urlUpdates :: "bool \<Rightarrow> Schema option \<Rightarrow> Schema \<Rightarrow> string list" where
  "urlUpdates newUrl previous incomingSchema =
     (if newUrl then
        [''Updated: New service url: '' @ show_nullable (service_url incomingSchema)
           @ '' (previously: ''
           @ show_nullable (case previous of None \<Rightarrow> None | Some p \<Rightarrow> service_url p)
           @ '')'']
      else [])"

text \<open>
  The end of \<open>publish\<close>, from \<open>const updates\<close> on: the conclusion of the legacy model
  and the one of the modern model.
\<close>

definition CompositeModel_conclude ::
  "Orchestrator \<Rightarrow> PublishInput \<Rightarrow> Project \<Rightarrow> CompositeCheck \<Rightarrow> Schema \<Rightarrow> Schema list
     \<Rightarrow> Schema list \<Rightarrow> SchemaObject list \<Rightarrow> bool \<Rightarrow> PublishResult io" where
  "CompositeModel_conclude orchestrator input proj chk incomingSchema before after objectsAfter newUrl =
     (let result = validationResult chk;
          previous = previousService chk;
          isForced = (input_force input = Some True)
      in
      if isUsingLegacyRegistryModel proj then
        (let valid = (isComposable result \<and> \<not> hasBreakingChanges result);
             concl = (if valid \<or> isForced then Publish else Reject)
         in
         io_bind (if valid then cdnBundle orchestrator proj after objectsAfter else ret None)
           (\<lambda>bundle.
         ret (Decision
           \<lparr> typename = typename_of concl, conclusion = concl, decision_isComposable = valid,
             decision_changes = changes result, decision_errors = errors result,
             updates = urlUpdates newUrl previous incomingSchema,
             decision_schema_before = previous,
             decision_schema_after = incomingSchema,
             decision_schemas_before = filter isAddedOrModified before,
             decision_schemas_after = filter isAddedOrModified after,
             cdn = bundle, decision_isInitial = isInitial chk \<rparr>)))
      else
        (let concl = (if isComposable result then Publish else Reject) in
         io_bind (if concl = Publish then cdnBundle orchestrator proj after objectsAfter
                  else ret None)
           (\<lambda>bundle.
         ret (Decision
           \<lparr> typename = typename_of concl, conclusion = concl,
             decision_isComposable = isComposable result,
             decision_changes = changes result, decision_errors = errors result,
             updates = urlUpdates newUrl previous incomingSchema,
             decision_schema_before = previous,
             decision_schema_after = incomingSchema,
             decision_schemas_before = filter isAddedOrModified before,
             decision_schemas_after = filter isAddedOrModified after,
             cdn = bundle, decision_isInitial = isInitial chk \<rparr>))))"

text \<open>
  The middle of \<open>publish\<close>, from \<open>const schemas\<close> to the no-op: the next set of
  schemas, \<open>isModified\<close>, and \<open>Conclusion.Neutral\<close> for a publish that modifies nothing
  and is not the initial one.
\<close>

definition CompositeModel_decide ::
  "env \<Rightarrow> Orchestrator \<Rightarrow> PublishInput \<Rightarrow> Project \<Rightarrow> string option \<Rightarrow> CompositeCheck
     \<Rightarrow> Schema \<Rightarrow> PublishResult io" where
  "CompositeModel_decide E orchestrator input proj version chk incomingSchema =
     (let previous = previousService chk;
          before = schemas_before chk;
          after = withIncoming incomingSchema (schemas_after chk);
          result = validationResult chk
      in
      io_bind (lift (mapM (createSchemaObject E) (filter isAddedOrModified after))) (\<lambda>objectsAfter.
      io_bind (compositeHasDifferentChecksum E version previous before after)
        (\<lambda>hasDifferentChecksum.
      let newUrl = hasNewUrl version previous incomingSchema;
          hasSchemaChanges = (changes result \<noteq> []);
          hasErrors = (errors result \<noteq> []);
          modified = (newUrl \<or> hasSchemaChanges \<or> hasErrors \<or> hasDifferentChecksum)
      in
      if \<not> modified \<and> \<not> isInitial chk then
        ret (NoOp \<lparr> neutral_valid = True, neutral_isComposable = None,
                    neutral_isInitial = isInitial chk, neutral_isModified = modified \<rparr>)
      else
        CompositeModel_conclude orchestrator input proj chk incomingSchema
          (afterComparison E version previous before)
          (afterComparison E version previous after) objectsAfter newUrl)))"

definition CompositeModel_publish ::
  "env \<Rightarrow> world \<Rightarrow> Orchestrator \<Rightarrow> Orchestrator \<Rightarrow> PublishInput \<Rightarrow> Project \<Rightarrow> Target
     \<Rightarrow> Schema list \<Rightarrow> string option \<Rightarrow> PublishResult io" where
  "CompositeModel_publish E W federation stitching input proj tgt currentSchemas version =
     (if blank E (input_service input) then
        ret (MissingInput ''MISSING_SERVICE_NAME'' (missingMessage E proj ''name''))
      else if requiresServiceUrl proj \<and> blank E (input_url input) then
        ret (MissingInput ''MISSING_SERVICE_URL'' (missingMessage E proj ''url''))
      else
        io_bind (CompositeModel_publishCheck E W federation stitching input proj currentSchemas)
          (\<lambda>chk.
        io_bind (lift (if supportsMetadata proj then ensureJSONMetadata E (input_metadata input)
                       else Inr None))
          (\<lambda>meta.
        CompositeModel_decide E
          (if project_type proj = FEDERATION then federation else stitching)
          input proj version chk
          (compositeIncoming E input tgt (previousService chk) meta))))"

text \<open>
  What \<open>CompositeModel.delete\<close> returns: the rejection for a service that is not
  there (\<open>conclusion: Reject\<close> and the errors), or the decision.
\<close>

record DeleteDecision =
  delete_conclusion :: Conclusion
  delete_isComposable :: bool
  delete_hasBreakingChanges :: bool
  delete_errors :: "SchemaError list"
  delete_service :: Schema
  delete_baseSchema :: "string option"

datatype DeleteOutcome =
    ServiceNotFound Conclusion "SchemaError list"
  | Deletion DeleteDecision

fun deletion_conclusion :: "DeleteOutcome \<Rightarrow> Conclusion" where
  "deletion_conclusion (ServiceNotFound c errs) = c"
| "deletion_conclusion (Deletion d) = delete_conclusion d"

fun deletion_errors :: "DeleteOutcome \<Rightarrow> SchemaError list" where
  "deletion_errors (ServiceNotFound c errs) = errs"
| "deletion_errors (Deletion d) = delete_errors d"

text \<open>
  \<open>CompositeModel.delete\<close>, with its local constants: the live services, the one to
  delete (the first of that name), the ones that stay (all with another id), and the
  validation of what stays against what was there, with \<open>compare: false\<close>.
\<close>

definition allActiveServices :: "Schema list \<Rightarrow> Schema list" where
  "allActiveServices currentSchemas = filter isAddedOrModified currentSchemas"

definition serviceToDelete :: "DeleteInput \<Rightarrow> Schema list \<Rightarrow> Schema option" where
  "serviceToDelete input currentSchemas =
     find (\<lambda>s. service_name s = Some (delete_serviceName input)) (allActiveServices currentSchemas)"

definition futureServices :: "Schema \<Rightarrow> Schema list \<Rightarrow> Schema list" where
  "futureServices deleted currentSchemas =
     filter (\<lambda>service. schema_id service \<noteq> schema_id deleted) (allActiveServices currentSchemas)"

definition revalidate ::
  "env \<Rightarrow> world \<Rightarrow> Orchestrator \<Rightarrow> DeleteInput \<Rightarrow> Project \<Rightarrow> Schema list \<Rightarrow> Schema
     \<Rightarrow> (string option \<times> ValidationResult) io" where
  "revalidate E W orchestrator input proj currentSchemas deleted =
     io_bind (fetchBaseSchema W proj) (\<lambda>baseSchema.
     io_bind (lift (mapM (createSchemaObject E)
                      (filter isAddedOrModified (allActiveServices currentSchemas))))
       (\<lambda>before.
     io_bind (lift (mapM (createSchemaObject E)
                      (filter isAddedOrModified (futureServices deleted currentSchemas))))
       (\<lambda>after.
     io_bind (SchemaValidator_validate E orchestrator (delete_selector input) None False
                baseSchema before after (delete_force input = Some True) proj)
       (\<lambda>result. ret (baseSchema, result)))))"

definition CompositeModel_delete ::
  "env \<Rightarrow> world \<Rightarrow> Orchestrator \<Rightarrow> Orchestrator \<Rightarrow> DeleteInput \<Rightarrow> Project \<Rightarrow> Schema list
     \<Rightarrow> DeleteOutcome io" where
  "CompositeModel_delete E W federation stitching input proj currentSchemas =
     (case serviceToDelete input currentSchemas of
        None \<Rightarrow>
          ret (ServiceNotFound Reject
                 [\<lparr> message = ''Service '' @ quote @ delete_serviceName input @ quote
                               @ '' not found.'',
                     path = None \<rparr>])
      | Some deleted \<Rightarrow>
          io_bind (revalidate E W (if project_type proj = FEDERATION then federation else stitching)
                     input proj currentSchemas deleted)
            (\<lambda>(baseSchema, result).
          ret (Deletion
            \<lparr> delete_conclusion =
                (if delete_force input = Some True
                      \<or> (isComposable result \<and> \<not> hasBreakingChanges result)
                 then Publish else Reject),
              delete_isComposable = isComposable result,
              delete_hasBreakingChanges = hasBreakingChanges result,
              delete_errors = errors result,
              delete_service = deleted,
              delete_baseSchema = baseSchema \<rparr>)))"

section \<open>The single model (models/single.ts)\<close>

text \<open>\<open>check\<close>, then \<open>publish\<close> in the same three stages as in the composite model.\<close>

definition SingleModel_check ::
  "env \<Rightarrow> world \<Rightarrow> Orchestrator \<Rightarrow> CheckInput \<Rightarrow> Project \<Rightarrow> Schema list \<Rightarrow> bool
     \<Rightarrow> SingleCheck io" where
  "SingleModel_check E W orchestrator input proj currentSchemas acceptBreakingChanges =
     io_bind (SchemaManager_getBaseSchema W) (\<lambda>baseSchema.
     if length currentSchemas > 1 then
       throw (Thrown ErrorC ''Single-schema project can only have a single schema'')
     else
     io_bind (lift (case currentSchemas of
                      [s] \<Rightarrow> map_sum (\<lambda>e. e) Some (ensureSchemaWithSDL s)
                    | _ \<Rightarrow> Inr None))
       (\<lambda>existingSchema.
     io_bind (lift (case existingSchema of
                      None \<Rightarrow> Inr None
                    | Some ex \<Rightarrow>
                        (case SingleSchemaModel_parse E ex of
                           Inl e \<Rightarrow> Inl e
                         | Inr parsed \<Rightarrow> map_sum (\<lambda>e. e) Some (createSchemaObject E parsed))))
       (\<lambda>existingObject.
     let incomingSchema =
           \<lparr> schema_id = temp E, author = temp E, date = now E, commit = temp E,
             schema_target = target (check_selector input), sdl = Some (check_sdl input),
             service_name = None, service_url = None, schema_action = NA, metadata = None \<rparr>
     in
     io_bind (lift (createSchemaObject E incomingSchema)) (\<lambda>incomingObject.
     io_bind (SchemaValidator_validate E orchestrator (check_selector input)
                (Some \<lparr> incoming = incomingObject, existing = existingObject \<rparr>)
                (existingSchema = None) baseSchema
                (case existingObject of None \<Rightarrow> [] | Some obj \<Rightarrow> [obj])
                [incomingObject] acceptBreakingChanges proj)
       (\<lambda>result.
     ret \<lparr> single_validationResult = result, single_isInitial = (existingSchema = None),
           single_schema_before = existingSchema, single_schema_after = incomingSchema \<rparr>)))))"

definition SingleModel_publishCheck ::
  "env \<Rightarrow> world \<Rightarrow> Orchestrator \<Rightarrow> PublishInput \<Rightarrow> Project \<Rightarrow> Schema list \<Rightarrow> SingleCheck io" where
  "SingleModel_publishCheck E W orchestrator input proj currentSchemas =
     try_catch
       (SingleModel_check E W orchestrator
          \<lparr> check_service = None, check_sdl = input_sdl input,
            check_github = None, check_selector = input_selector input \<rparr>
          proj currentSchemas (acceptsBreakingChanges input proj))
       asHiveError"

definition singleIncoming :: "env \<Rightarrow> PublishInput \<Rightarrow> Target \<Rightarrow> string option \<Rightarrow> Schema" where
  "singleIncoming E input tgt meta =
     \<lparr> schema_id = temp E, author = input_author input, date = now E,
       commit = input_commit input, schema_target = target_id tgt,
       sdl = Some (input_sdl input), service_name = None, service_url = None,
       schema_action = NA, metadata = meta \<rparr>"

definition singleHasDifferentChecksum ::
  "env \<Rightarrow> string option \<Rightarrow> Schema option \<Rightarrow> Schema \<Rightarrow> bool io" where
  "singleHasDifferentChecksum E version before incomingSchema =
     (case before of
        Some b \<Rightarrow>
          if truthy version then
            io_bind (lift (createChecksum E b)) (\<lambda>checksumBefore.
            io_bind (lift (createChecksum E incomingSchema)) (\<lambda>checksumIncoming.
              ret (checksumBefore \<noteq> checksumIncoming)))
          else ret False
      | None \<Rightarrow> ret False)"

definition SingleModel_conclude ::
  "PublishInput \<Rightarrow> Project \<Rightarrow> SingleCheck \<Rightarrow> Schema \<Rightarrow> PublishResult io" where
  "SingleModel_conclude input proj chk incomingSchema =
     (let result = single_validationResult chk;
          before = single_schema_before chk;
          isForced = (input_force input = Some True)
      in
      if isUsingLegacyRegistryModel proj then
        (let valid = (isComposable result \<and> \<not> hasBreakingChanges result);
             concl = (if valid \<or> isForced then Publish else Reject)
         in
         ret (Decision
           \<lparr> typename = typename_of concl, conclusion = concl, decision_isComposable = valid,
             decision_changes = changes result, decision_errors = errors result,
             updates = [], decision_schema_before = before,
             decision_schema_after = incomingSchema,
             decision_schemas_before = (case before of None \<Rightarrow> [] | Some b \<Rightarrow> [b]),
             decision_schemas_after = [incomingSchema],
             cdn = (if valid then Some ([incomingSchema], None) else None),
             decision_isInitial = single_isInitial chk \<rparr>))
      else
        (let concl = (if isComposable result then Publish else Reject) in
         ret (Decision
           \<lparr> typename = typename_of concl, conclusion = concl,
             decision_isComposable = isComposable result,
             decision_changes = changes result, decision_errors = errors result,
             updates = [], decision_schema_before = before,
             decision_schema_after = incomingSchema,
             decision_schemas_before = (case before of None \<Rightarrow> [] | Some b \<Rightarrow> [b]),
             decision_schemas_after = [incomingSchema],
             cdn = (if concl = Publish then Some ([incomingSchema], None) else None),
             decision_isInitial = single_isInitial chk \<rparr>)))"

definition SingleModel_decide ::
  "env \<Rightarrow> PublishInput \<Rightarrow> Project \<Rightarrow> string option \<Rightarrow> SingleCheck \<Rightarrow> Schema
     \<Rightarrow> PublishResult io" where
  "SingleModel_decide E input proj version chk incomingSchema =
     (let before = single_schema_before chk;
          result = single_validationResult chk
      in
      io_bind (singleHasDifferentChecksum E version before incomingSchema)
        (\<lambda>hasDifferentChecksum.
      let newUrl = False;
          hasSchemaChanges = (changes result \<noteq> []);
          hasErrors = (errors result \<noteq> []);
          modified = (newUrl \<or> hasSchemaChanges \<or> hasErrors \<or> hasDifferentChecksum)
      in
      if \<not> modified \<and> \<not> single_isInitial chk then
        ret (NoOp \<lparr> neutral_valid = isComposable result,
                    neutral_isComposable = Some (isComposable result),
                    neutral_isInitial = single_isInitial chk, neutral_isModified = modified \<rparr>)
      else SingleModel_conclude input proj chk incomingSchema))"

definition SingleModel_publish ::
  "env \<Rightarrow> world \<Rightarrow> Orchestrator \<Rightarrow> PublishInput \<Rightarrow> Project \<Rightarrow> Target \<Rightarrow> Schema list
     \<Rightarrow> string option \<Rightarrow> PublishResult io" where
  "SingleModel_publish E W orchestrator input proj tgt currentSchemas version =
     io_bind (SingleModel_publishCheck E W orchestrator input proj currentSchemas) (\<lambda>chk.
     io_bind (lift (ensureJSONMetadata E (input_metadata input))) (\<lambda>meta.
       SingleModel_decide E input proj version chk (singleIncoming E input tgt meta)))"

definition SingleModel_delete :: "DeleteInput \<Rightarrow> Project \<Rightarrow> Schema list \<Rightarrow> DeleteOutcome io" where
  "SingleModel_delete input proj currentSchemas =
     throw (Thrown HiveErrorC ''Deleting schemas is not supported for single-schema projects'')"

section \<open>The schema publisher (schema-publisher.ts)\<close>

fun split_on :: "char \<Rightarrow> string \<Rightarrow> string list" where
  "split_on c [] = [[]]"
| "split_on c (x # xs) =
     (if x = c then [] # split_on c xs
      else (case split_on c xs of [] \<Rightarrow> [[x]] | w # ws \<Rightarrow> (x # w) # ws))"

definition newline :: string where
  "newline = [CHR 0x0A]"

definition errorsToMarkdown :: "env \<Rightarrow> SchemaError list \<Rightarrow> string" where
  "errorsToMarkdown E errs =
     join newline ([] # map (\<lambda>error. ''- '' @ bolderize E (message error)) errs)"

definition writeChanges :: "env \<Rightarrow> string \<Rightarrow> SchemaChange list \<Rightarrow> string list" where
  "writeChanges E level chs =
     [[], ''### '' @ level @ '' changes'']
       @ map (\<lambda>change. '' - '' @ bolderize E (change_message change)) chs"

definition changesToMarkdown :: "env \<Rightarrow> SchemaChange list \<Rightarrow> string" where
  "changesToMarkdown E chs =
     (let breakingChanges = filter (\<lambda>c. criticality c = Breaking) chs;
          dangerousChanges = filter (\<lambda>c. criticality c = Dangerous) chs;
          safeChanges = filter (\<lambda>c. criticality c = Safe) chs
      in join newline
           ([''## Found '' @ show_nat (length chs) @ '' change''
               @ (if length chs > 1 then ''s'' else []), []]
            @ (if breakingChanges \<noteq> [] then [''Breaking: '' @ show_nat (length breakingChanges)] else [])
            @ (if dangerousChanges \<noteq> [] then [''Dangerous: '' @ show_nat (length dangerousChanges)] else [])
            @ (if safeChanges \<noteq> [] then [''Safe: '' @ show_nat (length safeChanges)] else [])
            @ (if breakingChanges \<noteq> [] then writeChanges E ''Breaking'' breakingChanges else [])
            @ (if dangerousChanges \<noteq> [] then writeChanges E ''Dangerous'' dangerousChanges else [])
            @ (if safeChanges \<noteq> [] then writeChanges E ''Safe'' safeChanges else [])))"

definition detectedErrors :: "env \<Rightarrow> SchemaError list \<Rightarrow> SchemaChange list \<Rightarrow> string \<times> string" where
  "detectedErrors E errs chs =
     (''Detected '' @ show_nat (length errs) @ '' error'' @ (if length errs = 1 then [] else ''s''),
      join (newline @ newline)
        (filter (\<lambda>s. s \<noteq> []) [errorsToMarkdown E errs, changesToMarkdown E chs]))"

datatype CheckResponse =
    GitHubSchemaCheckError string
  | GitHubSchemaCheckSuccess string
  | SchemaCheckResult ValidationResult bool bool

definition repositoryOf :: "Project \<Rightarrow> string \<times> string option" where
  "repositoryOf proj =
     (case split_on CHR ''/'' (case gitRepository proj of Some r \<Rightarrow> r | None \<Rightarrow> []) of
        [] \<Rightarrow> ([], None)
      | [owner] \<Rightarrow> (owner, None)
      | owner # name # rest \<Rightarrow> (owner, Some name))"

text \<open>
  \<open>SchemaPublisher.check\<close>. \<open>federation\<close>, \<open>stitching\<close> and \<open>single\<close> are the
  orchestrators injected into the models; \<open>dispatchCheck\<close> is the choice of the model,
  \<open>respondToCheck\<close> what follows it.
\<close>

definition dispatchCheck ::
  "env \<Rightarrow> world \<Rightarrow> Orchestrator \<Rightarrow> Orchestrator \<Rightarrow> Orchestrator \<Rightarrow> CheckInput \<Rightarrow> Project
     \<Rightarrow> Schema list \<Rightarrow> (ValidationResult \<times> bool) io" where
  "dispatchCheck E W federation stitching single input proj currentSchemas =
     (if project_type proj = FEDERATION \<or> project_type proj = STITCHING then
        io_bind (CompositeModel_check E W federation stitching input False proj currentSchemas)
          (\<lambda>c. ret (validationResult c, isInitial c))
      else if project_type proj = SINGLE then
        io_bind (SingleModel_check E W single input proj currentSchemas False)
          (\<lambda>c. ret (single_validationResult c, single_isInitial c))
      else throw (Thrown ErrorC (''Not implemented: '' @ ProjectType_string (project_type proj))))"

definition respondToCheck ::
  "env \<Rightarrow> world \<Rightarrow> CheckInput \<Rightarrow> Project \<Rightarrow> ValidationResult \<Rightarrow> bool \<Rightarrow> CheckResponse io" where
  "respondToCheck E W input proj result initial =
     (case check_github input of
        Some sha \<Rightarrow>
          if \<not> truthy (gitRepository proj) then
            ret (GitHubSchemaCheckError ''Git repository is not configured for this project'')
          else
            (let ok = (isComposable result \<and> \<not> hasBreakingChanges result);
                 output =
                   (if ok then
                      (if changes result = [] then (''No changes'', ''No changes detected'')
                       else (''No breaking changes'', changesToMarkdown E (changes result)))
                    else detectedErrors E (errors result) (changes result));
                 run = \<lparr> cr_name = ''GraphQL Hive - schema:check'',
                         cr_conclusion = (if ok then ''success'' else ''failure''),
                         cr_sha = sha,
                         cr_organization = organization (check_selector input),
                         cr_repositoryOwner = fst (repositoryOf proj),
                         cr_repositoryName = snd (repositoryOf proj),
                         cr_title = fst output, cr_summary = snd output \<rparr>
             in try_catch
                  (io_bind (call (GitHubCreateCheckRun run) (createCheckRun W run)) (\<lambda>_.
                     ret (GitHubSchemaCheckSuccess ''Check-run created'')))
                  (\<lambda>error.
                     ret (GitHubSchemaCheckError
                            (''Failed to create the check-run: '' @ error_message error))))
      | None \<Rightarrow>
          ret (SchemaCheckResult result
                 (isComposable result \<and> \<not> hasBreakingChanges result) initial))"

definition SchemaPublisher_check ::
  "env \<Rightarrow> world \<Rightarrow> Orchestrator \<Rightarrow> Orchestrator \<Rightarrow> Orchestrator \<Rightarrow> CheckInput
     \<Rightarrow> CheckResponse io" where
  "SchemaPublisher_check E W federation stitching single input =
     io_bind (lift (ensureTargetAccess W REGISTRY_READ)) (\<lambda>_.
     io_bind (Promise_all2 (leftSettlesFirst E) (lift (getProject W))
                (SchemaManager_getLatestSchemas W))
       (\<lambda>(proj, latestSchemas).
     io_bind (SchemaManager_completeGetStartedCheck W (orgId proj) checkingSchema) (\<lambda>_.
     io_bind (dispatchCheck E W federation stitching single input proj (fst latestSchemas))
       (\<lambda>(result, initial). respondToCheck E W input proj result initial))))"

datatype DeleteResponse =
    DeleteErrors "SchemaError list"
  | DeleteOk Schema

text \<open>
  \<open>SchemaPublisher.delete\<close>. The service that was found has a service name; the
  empty name stands where the record has none.
\<close>

definition SchemaPublisher_delete ::
  "env \<Rightarrow> world \<Rightarrow> Orchestrator \<Rightarrow> Orchestrator \<Rightarrow> DeleteInput \<Rightarrow> DeleteResponse io" where
  "SchemaPublisher_delete E W federation stitching input =
     io_bind (lift (ensureTargetAccess W REGISTRY_WRITE)) (\<lambda>_.
     io_bind (Promise_all2 (leftSettlesFirst E) (lift (getProject W))
                (SchemaManager_getLatestSchemas W))
       (\<lambda>(proj, latestSchemas).
     if \<not> (project_type proj = FEDERATION \<or> project_type proj = STITCHING) then
       throw (Thrown HiveErrorC
                (''Deleting schemas is not available for '' @ ProjectType_string (project_type proj)
                   @ ''-type projects''))
     else if isUsingLegacyRegistryModel proj then
       throw (Thrown HiveErrorC ''Deleting schemas is not available for the legacy registry model'')
     else
     io_bind (CompositeModel_delete E W federation stitching input proj (fst latestSchemas))
       (\<lambda>deletion.
     if deletion_conclusion deletion = Reject then ret (DeleteErrors (deletion_errors deletion))
     else
     case deletion of
       ServiceNotFound c errs \<Rightarrow> throw (Thrown TypeErrorC ''Cannot read properties of undefined'')
     | Deletion d \<Rightarrow>
           io_bind (SchemaManager_deleteSchema W
                      (case service_name (delete_service d) of Some n \<Rightarrow> n | None \<Rightarrow> [])
                      (delete_isComposable d) (delete_baseSchema d) (delete_selector input))
             (\<lambda>_. ret (DeleteOk (delete_service d))))))"

record PublishPayload =
  payload_typename :: string
  payload_initial :: bool
  payload_valid :: bool
  payload_isComposable :: bool
  payload_errors :: "SchemaError list"
  payload_changes :: "SchemaChange list"
  payload_message :: "string option"
  payload_linkToWebsite :: "string option"

datatype PublishResponse =
    SchemaPublishMissingServiceError string
  | SchemaPublishMissingUrlError string
  | GitHubSchemaPublishSuccess string
  | GitHubSchemaPublishError string
  | SchemaPublishPayload PublishPayload

definition createPublishCheckRun ::
  "env \<Rightarrow> world \<Rightarrow> bool \<Rightarrow> bool option \<Rightarrow> PublishInput \<Rightarrow> Project \<Rightarrow> bool
     \<Rightarrow> SchemaChange list \<Rightarrow> SchemaError list \<Rightarrow> string list \<Rightarrow> PublishResponse io" where
  "createPublishCheckRun E W initial force input proj composable chs errs upd =
     (if \<not> truthy (gitRepository proj) then
        ret (GitHubSchemaPublishError ''Git repository is not configured for this project'')
      else
        (let output =
               (if composable then
                  (if initial then (''Schema published'', ''Initial Schema published'')
                   else if chs = [] then (''No changes'', ''No changes detected'')
                   else (''No breaking changes'', changesToMarkdown E chs))
                else detectedErrors E errs chs);
             summary =
               snd output
                 @ (if upd \<noteq> [] then
                      newline @ newline @ join newline (map (\<lambda>val. ''- '' @ val) upd)
                    else []);
             title = fst output @ (if \<not> composable \<and> force = Some True then '' (forced)'' else []);
             run = \<lparr> cr_name = ''GraphQL Hive - schema:publish'',
                     cr_conclusion =
                       (if composable then ''success''
                        else if force = Some True then ''neutral'' else ''failure''),
                     cr_sha = input_commit input,
                     cr_organization = organization (input_selector input),
                     cr_repositoryOwner = fst (repositoryOf proj),
                     cr_repositoryName = snd (repositoryOf proj),
                     cr_title = title, cr_summary = summary \<rparr>
         in try_catch
              (io_bind (call (GitHubCreateCheckRun run) (createCheckRun W run)) (\<lambda>_.
                 ret (GitHubSchemaPublishSuccess title)))
              (\<lambda>error.
                 ret (GitHubSchemaPublishError
                        (''Failed to create the check-run: '' @ error_message error)))))"

text \<open>
  \<open>updateCDN\<close>: the schema resource, the metadata when there is some, the supergraph
  when there is one; the three uploads run in parallel. The metadata of a schema is
  uploaded when it is there and truthy.
\<close>

definition updateCDN ::
  "env \<Rightarrow> world \<Rightarrow> Target \<Rightarrow> Project \<Rightarrow> Schema list \<Rightarrow> string option \<Rightarrow> unit io" where
  "updateCDN E W tgt proj schemas sg =
     (let metas = List.map_filter
                     (\<lambda>schema. case metadata schema of
                                  None \<Rightarrow> None
                                | Some m \<Rightarrow> if JSON_truthy E m then Some m else None)
                     schemas;
          composite = (project_type proj = FEDERATION \<or> project_type proj = STITCHING)
      in
      io_bind
        (lift (if length schemas > 1 \<or> composite then Inr (CdnSchemaList schemas)
               else (case schemas of
                       [] \<Rightarrow> Inl (Thrown TypeErrorC ''Cannot read properties of undefined'')
                     | s # rest \<Rightarrow> Inr (CdnSchemaSingle s))))
        (\<lambda>schemaResource.
      io_bind
        (Promise_all2 (leftSettlesFirst E)
           (call (CdnPublish (target_id tgt) schemaResource)
              (cdn_publish W (target_id tgt) schemaResource))
           (Promise_all2 (leftSettlesFirst E)
              (case metas of
                 [] \<Rightarrow> ret ()
               | [m] \<Rightarrow> call (CdnPublish (target_id tgt) (CdnMetadataSingle m))
                          (cdn_publish W (target_id tgt) (CdnMetadataSingle m))
               | _ \<Rightarrow> call (CdnPublish (target_id tgt) (CdnMetadataList metas))
                        (cdn_publish W (target_id tgt) (CdnMetadataList metas)))
              (if truthy sg then
                 call (CdnPublish (target_id tgt) (CdnSupergraph (show_nullable sg)))
                   (cdn_publish W (target_id tgt) (CdnSupergraph (show_nullable sg)))
               else ret ())))
        (\<lambda>_. ret ())))"

definition publishNewVersion ::
  "env \<Rightarrow> world \<Rightarrow> bool \<Rightarrow> PublishInput \<Rightarrow> Target \<Rightarrow> Project \<Rightarrow> string \<Rightarrow> Schema
     \<Rightarrow> Schema list \<Rightarrow> action \<Rightarrow> (Schema list \<times> string option) option \<Rightarrow> RegistryVersion io" where
  "publishNewVersion E W composable input tgt proj organizationId newSchema schemas act bundle =
     (let commits = map schema_id (filter (\<lambda>s. schema_id s \<noteq> schema_id newSchema) schemas) in
      io_bind (SchemaManager_getBaseSchema W) (\<lambda>baseSchema.
      io_bind
        (Promise_all2 (leftSettlesFirst E)
           (SchemaManager_createVersion E W
              \<lparr> arg_commit = input_commit input, arg_schema = input_sdl input,
                arg_author = input_author input, arg_isComposable = composable,
                arg_service = input_service input, arg_commits = commits,
                arg_url = input_url input, arg_base_schema = baseSchema,
                arg_metadata = input_metadata input, arg_action = act,
                arg_selector = \<lparr> organization = organizationId, project = project_id proj,
                                 target = target_id tgt \<rparr> \<rparr>)
           (lift (getOrganization W)))
        (\<lambda>(schemaVersion, org).
      io_bind
        (case bundle of
           None \<Rightarrow> ret ()
         | Some (cdnSchemas, sg) \<Rightarrow>
             try_catch (updateCDN E W tgt proj cdnSchemas sg) (\<lambda>e. ret ()))
        (\<lambda>_.
      io_bind (call TriggerSchemaChangeNotifications (Inr ())) (\<lambda>_.
        ret schemaVersion)))))"

text \<open>
  \<open>internalPublish\<close>: the answer to what the model returned (\<open>respond\<close>), after the
  loading and the dispatch to the model.
\<close>

definition respond ::
  "env \<Rightarrow> world \<Rightarrow> PublishInput \<Rightarrow> Organization \<Rightarrow> Project \<Rightarrow> Target \<Rightarrow> PublishResult
     \<Rightarrow> PublishResponse io" where
  "respond E W input org proj tgt publishResult =
     (case publishResult of
        MissingInput code msg \<Rightarrow>
          if input_github input = Some True then
            createPublishCheckRun E W False (Some False) input proj False []
              [\<lparr> message = msg, path = None \<rparr>] []
          else if code = ''MISSING_SERVICE_NAME'' then ret (SchemaPublishMissingServiceError msg)
          else ret (SchemaPublishMissingUrlError msg)
      | NoOp n \<Rightarrow>
          if input_github input = Some True then
            createPublishCheckRun E W (neutral_isInitial n) (input_force input) input proj True
              [] [] []
          else
            ret (SchemaPublishPayload
                   \<lparr> payload_typename = ''SchemaPublishSuccess'',
                     payload_initial = neutral_isInitial n, payload_valid = True,
                     payload_isComposable = True, payload_errors = [], payload_changes = [],
                     payload_message = None, payload_linkToWebsite = None \<rparr>)
      | Decision d \<Rightarrow>
          io_bind
            (if conclusion d = Publish then
               io_bind
                 (publishNewVersion E W (decision_isComposable d) input tgt proj
                    (organization (input_selector input)) (decision_schema_after d)
                    (decision_schemas_after d) (schema_action (decision_schema_after d)) (cdn d))
                 (\<lambda>newVersion. ret (Some (version_id newVersion)))
             else ret None)
            (\<lambda>newVersionId.
          if input_github input = Some True then
            createPublishCheckRun E W (decision_isInitial d) (input_force input) input proj
              (decision_isComposable d) (decision_changes d) (decision_errors d) (updates d)
          else
            ret (SchemaPublishPayload
                   \<lparr> payload_typename = typename d,
                     payload_initial = decision_isInitial d,
                     payload_valid = decision_isComposable d,
                     payload_isComposable = decision_isComposable d,
                     payload_errors = decision_errors d,
                     payload_changes = decision_changes d,
                     payload_message =
                       (if updates d \<noteq> [] then Some (join newline (updates d)) else None),
                     payload_linkToWebsite =
                       (case (schemaPublishLink W, newVersionId) of
                          (Some link, Some newId) \<Rightarrow>
                            Some (link \<lparr> link_organization = organization_cleanId org,
                                         link_project = cleanId proj,
                                         link_target = target_cleanId tgt,
                                         link_version =
                                           (if decision_isInitial d then None else Some newId) \<rparr>)
                        | _ \<Rightarrow> None) \<rparr>)))"

definition dispatchPublish ::
  "env \<Rightarrow> world \<Rightarrow> Orchestrator \<Rightarrow> Orchestrator \<Rightarrow> Orchestrator \<Rightarrow> PublishInput \<Rightarrow> Project
     \<Rightarrow> Target \<Rightarrow> Schema list \<Rightarrow> string option \<Rightarrow> PublishResult io" where
  "dispatchPublish E W federation stitching single input proj tgt currentSchemas version =
     (if project_type proj = FEDERATION \<or> project_type proj = STITCHING then
        CompositeModel_publish E W federation stitching input proj tgt currentSchemas version
      else if project_type proj = SINGLE then
        SingleModel_publish E W single input proj tgt currentSchemas version
      else throw (Thrown ErrorC (''Not implemented: '' @ ProjectType_string (project_type proj))))"

definition SchemaPublisher_internalPublish ::
  "env \<Rightarrow> world \<Rightarrow> Orchestrator \<Rightarrow> Orchestrator \<Rightarrow> Orchestrator \<Rightarrow> PublishInput
     \<Rightarrow> PublishResponse io" where
  "SchemaPublisher_internalPublish E W federation stitching single input =
     io_bind (lift (ensureTargetAccess W REGISTRY_WRITE)) (\<lambda>_.
     io_bind
       (Promise_all2 (leftSettlesFirst E) (lift (getOrganization W))
          (Promise_all2 (leftSettlesFirst E) (lift (getProject W))
             (Promise_all2 (leftSettlesFirst E) (lift (getTarget W))
                (SchemaManager_getLatestSchemas W))))
       (\<lambda>(org, proj, tgt, latest).
     io_bind (SchemaManager_completeGetStartedCheck W (orgId proj) publishingSchema) (\<lambda>_.
     io_bind (dispatchPublish E W federation stitching single input proj tgt (fst latest)
                (snd latest))
       (\<lambda>publishResult. respond E W input org proj tgt publishResult))))"

text \<open>
  Modelled from the spec: \<open>IdempotentRunner\<close> is not part of the sources. Section 4.8:
  \<open>run(identifier, executor, ttl)\<close>; a caller that finds no run of the identifier in
  flight or completed within the TTL acquires the key and runs the executor. That
  caller is the one modelled.
\<close>

definition SchemaPublisher_publish ::
  "env \<Rightarrow> world \<Rightarrow> Orchestrator \<Rightarrow> Orchestrator \<Rightarrow> Orchestrator \<Rightarrow> PublishInput
     \<Rightarrow> PublishResponse io" where
  "SchemaPublisher_publish E W federation stitching single input =
     io_bind (call (IdempotentRun (''schema:publish:'' @ input_checksum input) 60) (Inr ()))
       (\<lambda>_. SchemaPublisher_internalPublish E W federation stitching single input)"

section \<open>The specification's words, as definitions\<close>

text \<open>
  Section 4.3.2, steps 5 and 6 of \<open>publish\<close>: the legacy model publishes iff
  (\<open>isComposable\<close> and not \<open>hasBreakingChanges\<close>) or \<open>force\<close>; the modern model publishes
  iff \<open>isComposable\<close>.
\<close>

definition legacyConclusion :: "ValidationResult \<Rightarrow> bool \<Rightarrow> Conclusion" where
  "legacyConclusion result force =
     (if (isComposable result \<and> \<not> hasBreakingChanges result) \<or> force then Publish else Reject)"

definition modernConclusion :: "ValidationResult \<Rightarrow> Conclusion" where
  "modernConclusion result = (if isComposable result then Publish else Reject)"

definition specConclusion :: "Project \<Rightarrow> PublishInput \<Rightarrow> ValidationResult \<Rightarrow> Conclusion" where
  "specConclusion proj input result =
     (if isUsingLegacyRegistryModel proj
      then legacyConclusion result (input_force input = Some True)
      else modernConclusion result)"



text \<open>
  \<open>isModified\<close> as \<open>publish\<close> computes it (the checksums are compared when there are
  a version and a previous schema), the schema objects \<open>publish\<close> makes of the next set
  of schemas, and whether the decision asks the orchestrator for a supergraph: on a
  federation project, when the CDN is to be updated.
\<close>

definition compositeIsModified :: "env \<Rightarrow> string option \<Rightarrow> CompositeCheck \<Rightarrow> Schema \<Rightarrow> bool" where
  "compositeIsModified E version chk incomingSchema =
     (hasNewUrl version (previousService chk) incomingSchema
        \<or> changes (validationResult chk) \<noteq> []
        \<or> errors (validationResult chk) \<noteq> []
        \<or> (truthy version \<and> previousService chk \<noteq> None
             \<and> joinedChecksums E (schemas_before chk)
                 \<noteq> joinedChecksums E (withIncoming incomingSchema (schemas_after chk))))"

definition singleIsModified :: "env \<Rightarrow> string option \<Rightarrow> SingleCheck \<Rightarrow> Schema \<Rightarrow> bool" where
  "singleIsModified E version chk incomingSchema =
     (changes (single_validationResult chk) \<noteq> []
        \<or> errors (single_validationResult chk) \<noteq> []
        \<or> (truthy version
             \<and> (case single_schema_before chk of
                    None \<Rightarrow> False
                  | Some b \<Rightarrow> createChecksum E b \<noteq> createChecksum E incomingSchema)))"

definition nextObjects :: "env \<Rightarrow> CompositeCheck \<Rightarrow> Schema \<Rightarrow> SchemaObject list" where
  "nextObjects E chk incomingSchema =
     (case mapM (createSchemaObject E)
             (filter isAddedOrModified (withIncoming incomingSchema (schemas_after chk))) of
        Inr objs \<Rightarrow> objs
      | Inl e \<Rightarrow> [])"

definition asksSupergraph :: "Project \<Rightarrow> ValidationResult \<Rightarrow> bool" where
  "asksSupergraph proj result =
     (project_type proj = FEDERATION
        \<and> (if isUsingLegacyRegistryModel proj
             then isComposable result \<and> \<not> hasBreakingChanges result
             else isComposable result))"

text \<open>The no-op of a \<open>CompositeModel.publish\<close> that is not the initial one.\<close>

definition neutral :: PublishResult where
  "neutral =
     NoOp \<lparr> neutral_valid = True, neutral_isComposable = None, neutral_isInitial = False,
            neutral_isModified = False \<rparr>"

text \<open>The no-op of a \<open>SingleModel.publish\<close> that is not the initial one.\<close>

definition neutralSingle :: "ValidationResult \<Rightarrow> PublishResult" where
  "neutralSingle result =
     NoOp \<lparr> neutral_valid = isComposable result, neutral_isComposable = Some (isComposable result),
            neutral_isInitial = False, neutral_isModified = False \<rparr>"

text \<open>Section 4.3.2, \<open>delete\<close>, steps 2 and 4.\<close>

definition serviceNotFound :: "string \<Rightarrow> SchemaError" where
  "serviceNotFound serviceName =
     \<lparr> message = ''Service '' @ quote @ serviceName @ quote @ '' not found.'', path = None \<rparr>"

definition deleteConclusion :: "bool \<Rightarrow> ValidationResult \<Rightarrow> Conclusion" where
  "deleteConclusion force result =
     (if force \<or> (isComposable result \<and> \<not> hasBreakingChanges result) then Publish else Reject)"

definition deletion ::
  "DeleteInput \<Rightarrow> Schema \<Rightarrow> string option \<Rightarrow> ValidationResult \<Rightarrow> DeleteDecision" where
  "deletion input deleted baseSchema result =
     \<lparr> delete_conclusion = deleteConclusion (delete_force input = Some True) result,
       delete_isComposable = isComposable result,
       delete_hasBreakingChanges = hasBreakingChanges result,
       delete_errors = errors result,
       delete_service = deleted,
       delete_baseSchema = baseSchema \<rparr>"

text \<open>
  Section 4.3.2, \<open>delete\<close>: a live service is a schema of action \<open>ADD\<close> or \<open>MODIFY\<close>;
  the service asked for is a live service of the given name; what remains are the live
  services of another id.
\<close>

definition liveServices :: "Schema list \<Rightarrow> Schema list" where
  "liveServices schemas =
     filter (\<lambda>s. schema_action s = ADD \<or> schema_action s = MODIFY) schemas"

definition liveService :: "string \<Rightarrow> Schema \<Rightarrow> bool" where
  "liveService name s =
     ((schema_action s = ADD \<or> schema_action s = MODIFY) \<and> service_name s = Some name)"

definition remaining :: "Schema \<Rightarrow> Schema list \<Rightarrow> Schema list" where
  "remaining deleted schemas =
     filter (\<lambda>s. schema_id s \<noteq> schema_id deleted) (liveServices schemas)"

text \<open>Section 4.4, step 2: the result of the short circuit.\<close>

definition shortCircuit :: ValidationResult where
  "shortCircuit =
     \<lparr> isComposable = True, hasBreakingChanges = False, errors = [], changes = [] \<rparr>"

definition baseSchemaParses :: "env \<Rightarrow> string option \<Rightarrow> bool" where
  "baseSchemaParses E baseSchema =
     (case baseSchema of None \<Rightarrow> True | Some b \<Rightarrow> b = [] \<or> \<not> isl (parse E b))"

text \<open>
  Section 4.4: a failure raised while building the schema of \<open>before\<close> or of \<open>after\<close>
  or while diffing them, and the one synthetic error it becomes.
\<close>

definition comparisonFails ::
  "env \<Rightarrow> Orchestrator \<Rightarrow> TargetSelector \<Rightarrow> SchemaObject list \<Rightarrow> SchemaObject list
     \<Rightarrow> Project \<Rightarrow> bool" where
  "comparisonFails E orchestrator selector before after proj =
     (case build orchestrator before proj of
        Inl e \<Rightarrow> True
      | Inr existingSchema \<Rightarrow>
          (case build orchestrator after proj of
             Inl e \<Rightarrow> True
           | Inr incomingSchema \<Rightarrow>
               (case existingSchema of
                  None \<Rightarrow> False
                | Some ex \<Rightarrow>
                    (case buildSchema E (Some ex) of
                       Inl e \<Rightarrow> True
                     | Inr a \<Rightarrow>
                         (case buildSchema E incomingSchema of
                            Inl e \<Rightarrow> True
                          | Inr b \<Rightarrow> isl (diff E a b selector))))))"

definition failedToCompare :: "string \<Rightarrow> SchemaError" where
  "failedToCompare msg = \<lparr> message = ''Failed to compare schemas: '' @ msg, path = None \<rparr>"

text \<open>
  Section 4.1: the definitions Federation injects (the directive definitions
  \<open>join__graph\<close>, \<open>join__field\<close>, \<open>join__owner\<close>, \<open>join__type\<close>, \<open>core\<close>, the enums
  \<open>join__Graph\<close> and \<open>core__Purpose\<close>, the scalar \<open>join__FieldSet\<close>) and the directives
  on the schema definition.
\<close>

fun federation_injected :: "definition_node \<Rightarrow> bool" where
  "federation_injected (DirectiveDefinition name body) =
     (name \<in> {''join__graph'', ''join__field'', ''join__owner'', ''join__type'', ''core''})"
| "federation_injected (EnumTypeDefinition name body) =
     (name \<in> {''join__Graph'', ''core__Purpose''})"
| "federation_injected (ScalarTypeDefinition name body) = (name = ''join__FieldSet'')"
| "federation_injected (SchemaDefinition directives body) = False"
| "federation_injected (OtherDefinition kind body) = False"

fun without_schema_directives :: "definition_node \<Rightarrow> definition_node" where
  "without_schema_directives (SchemaDefinition directives body) = SchemaDefinition [] body"
| "without_schema_directives d = d"

fun schema_directives :: "definition_node \<Rightarrow> string list" where
  "schema_directives (SchemaDefinition directives body) = directives"
| "schema_directives d = []"

definition stripped :: "document \<Rightarrow> document" where
  "stripped doc = map without_schema_directives (filter (\<lambda>d. \<not> federation_injected d) doc)"

definition buildRequest :: "SchemaObject list \<Rightarrow> Config \<Rightarrow> ServiceRequest" where
  "buildRequest schemas config =
     \<lparr> request_schemas = map (\<lambda>s. RawSource (raw s) (source s)) schemas,
       request_external = externalCompositionFromConfig config \<rparr>"

definition supergraphRequest :: "SchemaObject list \<Rightarrow> Config \<Rightarrow> ServiceRequest" where
  "supergraphRequest schemas config =
     \<lparr> request_schemas = map (\<lambda>s. RawSourceUrl (raw s) (source s) (url s)) schemas,
       request_external = externalCompositionFromConfig config \<rparr>"

text \<open>
  Section 4.7: what a run writes. A storage write is one of the three calls that
  change the storage; the version store changes with \<open>createVersion\<close> and
  \<open>deleteSchema\<close> only.
\<close>

fun isStorageWrite :: "effect \<Rightarrow> bool" where
  "isStorageWrite (StorageCompleteGetStartedStep org step) = True"
| "isStorageWrite (StorageCreateVersion row) = True"
| "isStorageWrite (StorageDeleteSchema row) = True"
| "isStorageWrite eff = False"

fun isVersionWrite :: "effect \<Rightarrow> bool" where
  "isVersionWrite (StorageCreateVersion row) = True"
| "isVersionWrite (StorageDeleteSchema row) = True"
| "isVersionWrite eff = False"

fun isCdnPublish :: "effect \<Rightarrow> bool" where
  "isCdnPublish (CdnPublish targetId resource) = True"
| "isCdnPublish eff = False"

fun isIdempotentRun :: "effect \<Rightarrow> bool" where
  "isIdempotentRun (IdempotentRun identifier ttl) = True"
| "isIdempotentRun eff = False"

fun isOrchestratorCall :: "effect \<Rightarrow> bool" where
  "isOrchestratorCall (OrchestratorCall t operation schemas) = True"
| "isOrchestratorCall eff = False"

fun isCheckRun :: "effect \<Rightarrow> bool" where
  "isCheckRun (GitHubCreateCheckRun run) = True"
| "isCheckRun eff = False"

definition readOnly :: "effect list \<Rightarrow> bool" where
  "readOnly effs =
     (\<not> list_ex isStorageWrite effs \<and> \<not> list_ex isCdnPublish effs
        \<and> \<not> list_ex isIdempotentRun effs)"

text \<open>
  What a check may do: call an orchestrator, complete the \<open>checkingSchema\<close> step,
  create a check-run.
\<close>

fun checkEffect :: "effect \<Rightarrow> bool" where
  "checkEffect (OrchestratorCall t operation schemas) = True"
| "checkEffect (GitHubCreateCheckRun run) = True"
| "checkEffect (StorageCompleteGetStartedStep org step) = (step = checkingSchema)"
| "checkEffect eff = False"

text \<open>The names a version is created with.\<close>

fun createdServiceNames :: "effect list \<Rightarrow> string option list" where
  "createdServiceNames [] = []"
| "createdServiceNames (StorageCreateVersion row # effs) =
     cv_serviceName row # createdServiceNames effs"
| "createdServiceNames (eff # effs) = createdServiceNames effs"

section \<open>A small world to run the model in\<close>

text \<open>
  A toy GraphQL library: an SDL is one definition holding its text, \<open>!\<close> does not
  parse, \<open>supergraph\<close> parses to what a composed federation schema looks like; the
  hash of a text is the text.
\<close>

definition federatedDocument :: document where
  "federatedDocument =
     [SchemaDefinition [''core'', ''join''] ''query: Query'',
      DirectiveDefinition ''join__graph'' ''name url'',
      DirectiveDefinition ''tag'' ''name'',
      EnumTypeDefinition ''join__Graph'' ''PING PONG'',
      EnumTypeDefinition ''Color'' ''RED'',
      ScalarTypeDefinition ''join__FieldSet'' [],
      OtherDefinition ''ObjectTypeDefinition'' ''Query'']"

fun toyPrintDefinition :: "definition_node \<Rightarrow> string" where
  "toyPrintDefinition (SchemaDefinition directives body) = ''schema '' @ concat directives @ body"
| "toyPrintDefinition (DirectiveDefinition name body) = ''directive '' @ name"
| "toyPrintDefinition (EnumTypeDefinition name body) = ''enum '' @ name"
| "toyPrintDefinition (ScalarTypeDefinition name body) = ''scalar '' @ name"
| "toyPrintDefinition (OtherDefinition kind body) = body"

text \<open>
  A toy \<open>toLowerCase\<close> and a toy \<open>trim\<close>, for the letters \<open>A\<close> to \<open>Z\<close> and the
  white space of ASCII.
\<close>

definition toyLowerCase :: "string \<Rightarrow> string" where
  "toyLowerCase s =
     map (\<lambda>c. let n = of_char c :: nat in if 65 \<le> n \<and> n \<le> 90 then char_of (n + 32) else c) s"

definition toyTrim :: "string \<Rightarrow> string" where
  "toyTrim s =
     (let space = (\<lambda>c. of_char c \<in> {9, 10, 11, 12, 13, 32 :: nat})
      in rev (dropWhile space (rev (dropWhile space s))))"

definition toyEnv :: env where
  "toyEnv =
     \<lparr> parse = (\<lambda>text.
         if text = ''!'' then Inl (''Syntax Error'', Some (1, 1))
         else if text = ''supergraph'' then Inr federatedDocument
         else Inr [OtherDefinition ''ObjectTypeDefinition'' text]),
       print = (\<lambda>doc. concat (map toyPrintDefinition doc)),
       sortDocumentNode = (\<lambda>doc. doc),
       md5 = (\<lambda>text. text),
       buildSchema = (\<lambda>obj. case obj of
                        None \<Rightarrow> Inl (Thrown TypeErrorC ''Cannot read properties of null'')
                      | Some s \<Rightarrow> Inr (document s)),
       diff = (\<lambda>a b selector.
         if a = b then Inr []
         else Inr [\<lparr> criticality = Breaking, change_message = ''Schema changed'',
                     change_path = None \<rparr>]),
       localeCompare = (\<lambda>a b. int (length a) - int (length b)),
       toLowerCase = toyLowerCase,
       trim = toyTrim,
       JSON_parse = (\<lambda>text. if text = ''{'' then Inl ''Unexpected end of JSON input'' else Inr text),
       JSON_truthy = (\<lambda>v. v \<notin> {''null'', ''false'', ''0'', [CHR 0x22, CHR 0x22]}),
       zodIssues = (\<lambda>schema. ''Invalid input''),
       now = 0,
       temp = ''temp'',
       bolderize = (\<lambda>text. text),
       schemaBuildErrorMessage = (\<lambda>text. ''Failed to build schema: '' @ text),
       leftSettlesFirst = True \<rparr>"

text \<open>
  A toy orchestrator: an SDL \<open>invalid\<close> does not compose, a set that holds the SDL
  \<open>unbuildable\<close> cannot be built, a build joins the documents.
\<close>

definition toyOrchestrator :: "ProjectType \<Rightarrow> Orchestrator" where
  "toyOrchestrator t =
     \<lparr> orchestrator_type = t,
       validate = (\<lambda>schemas proj.
         if list_ex (\<lambda>s. raw s = ''invalid'') schemas
         then Inr [\<lparr> message = ''Composition failed'', path = None \<rparr>]
         else Inr []),
       build = (\<lambda>schemas proj.
         if list_ex (\<lambda>s. raw s = ''unbuildable'') schemas
         then Inl (Thrown SchemaBuildErrorC ''Failed to build schema'')
         else Inr (Some \<lparr> document = concat (map document schemas), source = Some emptySource,
                          url = None, raw = concat (map raw schemas) \<rparr>)),
       supergraph = (\<lambda>schemas proj. Inr (Some (concat (map raw schemas)))) \<rparr>"

definition toyService :: SchemaService where
  "toyService =
     \<lparr> mutation_validate = (\<lambda>request. Inr []),
       mutation_build = (\<lambda>request. Inr (''supergraph'', Some emptySource)),
       mutation_supergraph = (\<lambda>request. Inr (Some ''supergraph'')) \<rparr>"

definition toyProject :: "ProjectType \<Rightarrow> bool \<Rightarrow> Project" where
  "toyProject t legacy =
     \<lparr> project_id = ''p1'', cleanId = ''shop'', orgId = ''o1'', project_type = t,
       gitRepository = None, isUsingLegacyRegistryModel = legacy,
       externalComposition = \<lparr> enabled = False, endpoint = None, encryptedSecret = None \<rparr> \<rparr>"

definition toySelector :: TargetSelector where
  "toySelector = \<lparr> organization = ''o1'', project = ''p1'', target = ''t1'' \<rparr>"

definition toyTarget :: Target where
  "toyTarget = \<lparr> target_id = ''t1'', target_cleanId = ''production'' \<rparr>"

definition toySchema :: "string \<Rightarrow> string \<Rightarrow> string \<Rightarrow> string option \<Rightarrow> action \<Rightarrow> Schema" where
  "toySchema ident name text u act =
     \<lparr> schema_id = ident, author = ''Kamil'', date = 1, commit = ''c1'', schema_target = ''t1'',
       sdl = Some text, service_name = (if act = NA then None else Some name),
       service_url = u, schema_action = act, metadata = None \<rparr>"

text \<open>
  A toy world: every access is granted, the project and the latest schemas are the
  ones given, every write succeeds.
\<close>

definition toyWorld :: "Project \<Rightarrow> Schema list \<Rightarrow> string option \<Rightarrow> string option \<Rightarrow> world" where
  "toyWorld proj schemas version baseSchema =
     \<lparr> ensureTargetAccess = (\<lambda>scope. Inr ()),
       getProject = Inr proj,
       getTarget = Inr toyTarget,
       getOrganization = Inr \<lparr> organization_id = ''o1'', organization_cleanId = ''acme'' \<rparr>,
       storage_getLatestSchemas = Inr (schemas, version),
       storage_getBaseSchema = Inr baseSchema,
       storage_completeGetStartedStep = (\<lambda>org step. Inr ()),
       storage_createVersion = (\<lambda>row.
         Inr \<lparr> version_id = ''v2'', version_isComposable = cv_isComposable row,
               version_date = 2, version_base_schema = cv_base_schema row \<rparr>),
       storage_deleteSchema = (\<lambda>row.
         Inr \<lparr> version_id = ''v2'', version_isComposable = ds_isComposable row,
               version_date = 2, version_base_schema = ds_baseSchema row \<rparr>),
       cdn_publish = (\<lambda>targetId resource. Inr ()),
       createCheckRun = (\<lambda>run. Inr ()),
       schemaPublishLink = None \<rparr>"

definition toyPublishInput :: "string option \<Rightarrow> string option \<Rightarrow> string \<Rightarrow> bool option \<Rightarrow> PublishInput" where
  "toyPublishInput service u text force =
     \<lparr> input_service = service, input_url = u, input_sdl = text, input_author = ''Kamil'',
       input_commit = ''c2'', input_force = force,
       input_experimental_acceptBreakingChanges = None, input_metadata = None,
       input_github = None, input_checksum = ''abc'', input_selector = toySelector \<rparr>"

definition toyObject :: "string \<Rightarrow> string \<Rightarrow> SchemaObject" where
  "toyObject name text =
     \<lparr> document = [OtherDefinition ''ObjectTypeDefinition'' text], source = Some name,
       url = None, raw = text \<rparr>"

definition toyCreateVersionArgs :: "string option \<Rightarrow> CreateVersionArgs" where
  "toyCreateVersionArgs service =
     \<lparr> arg_commit = ''c2'', arg_schema = ''type Ping'', arg_author = ''Kamil'',
       arg_isComposable = True, arg_service = service, arg_commits = [],
       arg_url = Some ''https://ping.com'', arg_base_schema = None, arg_metadata = None,
       arg_action = ADD, arg_selector = toySelector \<rparr>"

definition singleDeleteMessage :: string where
  "singleDeleteMessage = ''Deleting schemas is not supported for single-schema projects''"

definition toyDeleteInput :: "string \<Rightarrow> bool option \<Rightarrow> DeleteInput" where
  "toyDeleteInput name force =
     \<lparr> delete_serviceName = name, delete_force = force, delete_selector = toySelector \<rparr>"

definition toyPing :: Schema where
  "toyPing = toySchema ''a1'' ''ping'' ''type Ping'' (Some ''https://ping.com'') ADD"

definition toyPong :: Schema where
  "toyPong = toySchema ''a2'' ''pong'' ''type Pong'' (Some ''https://pong.com'') ADD"

definition toySingle :: Schema where
  "toySingle = toySchema ''a0'' [] ''type Query'' None NA"

definition toyCheckInput :: "string option \<Rightarrow> string \<Rightarrow> CheckInput" where
  "toyCheckInput service text =
     \<lparr> check_service = service, check_sdl = text, check_github = None,
       check_selector = toySelector \<rparr>"

text \<open>
  Invariant I1, the state a publish that was accepted leaves behind: the live schemas
  are composite schemas whose SDL parses, under ids of the storage (not the placeholder
  \<open>temp\<close>), and the service of the input is among them, with the SDL and the URL of
  the input. For a single project: the one live schema has the SDL of the input.
\<close>

definition parses :: "env \<Rightarrow> string option \<Rightarrow> bool" where
  "parses E text = (case text of None \<Rightarrow> False | Some t \<Rightarrow> \<not> isl (parse E t))"




text \<open>
  Two targets that hold what is published to them again, and what the check of that
  publish returns.
\<close>

definition toyFederation :: world where
  "toyFederation = toyWorld (toyProject FEDERATION False) [toyPing, toyPong] (Some ''v1'') None"

definition toyAgain :: PublishInput where
  "toyAgain = toyPublishInput (Some ''ping'') (Some ''https://ping.com'') ''type Ping'' None"


definition toySingleWorld :: world where
  "toySingleWorld = toyWorld (toyProject SINGLE False) [toySingle] (Some ''v1'') None"

definition toySingleAgain :: PublishInput where
  "toySingleAgain = toyPublishInput None None ''type Query'' None"




text \<open>
  Publishes that reach a conclusion: a change of \<open>ping\<close> on a legacy federation project
  (the toy differ calls every change breaking), a new service on a modern federation
  project, a change of the schema of a single project, and an orchestrator that fails
  to give the supergraph.
\<close>

definition toyLegacy :: world where
  "toyLegacy = toyWorld (toyProject FEDERATION True) [toyPing, toyPong] (Some ''v1'') None"

definition toyBreaking :: "bool option \<Rightarrow> PublishInput" where
  "toyBreaking force =
     toyPublishInput (Some ''ping'') (Some ''https://ping.com'') ''type Ping2'' force"

definition toyModern :: world where
  "toyModern = toyWorld (toyProject FEDERATION False) [toyPing] (Some ''v1'') None"

definition toyNewService :: PublishInput where
  "toyNewService = toyPublishInput (Some ''pong'') (Some ''https://pong.com'') ''type Pong'' None"

definition toySingleLegacy :: world where
  "toySingleLegacy = toyWorld (toyProject SINGLE True) [toySingle] (Some ''v1'') None"

definition toySingleChange :: PublishInput where
  "toySingleChange = toyPublishInput None None ''type Query2'' None"

definition toyFailing :: Orchestrator where
  "toyFailing =
     (toyOrchestrator FEDERATION)
       \<lparr> supergraph :=
           (\<lambda>schemas proj. Inl (Thrown ExternalErrorC ''unavailable'')) \<rparr>"

text \<open>A live set with a modified service, and a base schema that does not parse.\<close>

definition toyPongModified :: Schema where
  "toyPongModified = toySchema ''a3'' ''pong'' ''type Pong2'' (Some ''https://pong.com'') MODIFY"

definition toyStitching :: "string option \<Rightarrow> world" where
  "toyStitching baseSchema =
     toyWorld (toyProject STITCHING False) [toyPing, toyPongModified] (Some ''v1'') baseSchema"


section \<open>Asynchronous computations: results and effects\<close>

lemma snd_io_bind:
  "snd (io_bind m f) = (case snd m of Inl e \<Rightarrow> Inl e | Inr x \<Rightarrow> snd (f x))"
  by (cases m) (auto simp: io_bind_def split: sum.splits prod.splits)

lemma fst_io_bind:
  "fst (io_bind m f) = fst m @ (case snd m of Inl e \<Rightarrow> [] | Inr x \<Rightarrow> fst (f x))"
  by (cases m) (auto simp: io_bind_def split: sum.splits prod.splits)

lemma snd_try_catch:
  "snd (try_catch m h) = (case snd m of Inl e \<Rightarrow> snd (h e) | Inr x \<Rightarrow> Inr x)"
  by (cases m) (auto simp: try_catch_def split: sum.splits prod.splits)

lemma fst_try_catch:
  "fst (try_catch m h) = fst m @ (case snd m of Inl e \<Rightarrow> fst (h e) | Inr x \<Rightarrow> [])"
  by (cases m) (auto simp: try_catch_def split: sum.splits prod.splits)

lemma io_simps [simp]:
  "fst (ret x) = []" "snd (ret x) = Inr x"
  "fst (throw e) = []" "snd (throw e) = Inl e"
  "fst (lift r) = []" "snd (lift r) = r"
  "fst (call eff r) = [eff]" "snd (call eff r) = r"
  by (simp_all add: ret_def throw_def lift_def call_def)

lemma fst_Promise_all2: "fst (Promise_all2 b m n) = fst m @ fst n"
  by (simp add: Promise_all2_def)

lemma snd_Promise_all2_Inr:
  "snd (Promise_all2 b m n) = Inr r \<longleftrightarrow> (\<exists>x y. snd m = Inr x \<and> snd n = Inr y \<and> r = (x, y))"
  by (auto simp: Promise_all2_def split: sum.splits)

lemma snd_io_bind_Inr:
  "snd (io_bind m f) = Inr y \<longleftrightarrow> (\<exists>x. snd m = Inr x \<and> snd (f x) = Inr y)"
  by (auto simp: snd_io_bind split: sum.splits)

lemma io_bind_Inr:
  "snd m = Inr x \<Longrightarrow> snd (io_bind m f) = snd (f x)"
  by (simp add: snd_io_bind)

lemma io_bind_Inl:
  "snd m = Inl e \<Longrightarrow> snd (io_bind m f) = Inl e"
  by (simp add: snd_io_bind)


lemma snd_asHiveError:
  "snd (asHiveError e) =
     Inl (if error_class_of e = GraphQLDocumentStringInvalidErrorC
          then Thrown HiveErrorC (error_message e) else e)"
  by (simp add: asHiveError_def)

lemma fst_asHiveError: "fst (asHiveError e) = []"
  by (simp add: asHiveError_def)

lemma try_asHiveError_Inr:
  "snd (try_catch m asHiveError) = Inr x \<longleftrightarrow> snd m = Inr x"
  by (auto simp: snd_try_catch snd_asHiveError split: sum.splits)

lemma fst_try_asHiveError: "fst (try_catch m asHiveError) = fst m"
  by (auto simp: fst_try_catch fst_asHiveError split: sum.splits)

text \<open>Effects of a sequence: a property of every effect is kept by \<open>io_bind\<close>.\<close>

lemma effects_io_bind:
  assumes "list_all P (fst m)"
    and "\<And>x. snd m = Inr x \<Longrightarrow> list_all P (fst (f x))"
  shows "list_all P (fst (io_bind m f))"
  using assms by (auto simp: fst_io_bind split: sum.splits)

lemma effects_try_catch:
  assumes "list_all P (fst m)"
    and "\<And>e. snd m = Inl e \<Longrightarrow> list_all P (fst (h e))"
  shows "list_all P (fst (try_catch m h))"
  using assms by (auto simp: fst_try_catch split: sum.splits)

lemma effects_Promise_all2:
  "list_all P (fst m) \<Longrightarrow> list_all P (fst n) \<Longrightarrow> list_all P (fst (Promise_all2 b m n))"
  by (simp add: fst_Promise_all2)

lemma mapM_Inr_iff:
  "(\<exists>ys. mapM f xs = Inr ys) \<longleftrightarrow> (\<forall>x \<in> set xs. \<exists>y. f x = Inr y)"
  by (induction xs) (auto split: sum.splits)


section \<open>The federation orchestrator strips the build result, not the supergraph\<close>

lemma visit_definition_eq:
  "visit_definition d =
     (if federation_injected d then None else Some (without_schema_directives d))"
  by (cases d)
     (auto simp: federationV1_directives_def federationV1_enums_def federationV1_scalars_def)

lemma map_filter_visit: "List.map_filter visit_definition doc = stripped doc"
  by (induction doc) (auto simp: stripped_def List.map_filter_simps visit_definition_eq)

lemma without_schema_directives_clean:
  "\<not> federation_injected x \<Longrightarrow>
     \<not> federation_injected (without_schema_directives x)
       \<and> schema_directives (without_schema_directives x) = []"
  by (cases x) auto

lemma stripped_clean:
  "list_all (\<lambda>d. \<not> federation_injected d \<and> schema_directives d = []) (stripped doc)"
  unfolding stripped_def list_all_iff using without_schema_directives_clean by auto

lemma modern_config:
  "ensureConfig proj = Inr config \<Longrightarrow>
     config_isUsingLegacyRegistryModel config = isUsingLegacyRegistryModel proj"
  by (auto simp: ensureConfig_def Let_def split: if_splits)

lemma modern_build_result:
  assumes "\<not> isUsingLegacyRegistryModel proj"
    and "FederationOrchestrator_build E service schemas proj = Inr obj"
  shows "\<exists>config resultRaw doc.
           ensureConfig proj = Inr config
             \<and> mutation_build service (buildRequest schemas config) = Inr (resultRaw, source obj)
             \<and> parse E resultRaw = Inr doc
             \<and> obj = \<lparr> document = stripped doc, source = source obj, url = None,
                       raw = print E (stripped doc) \<rparr>"
proof -
  obtain config where config: "ensureConfig proj = Inr config"
    using assms(2) by (auto simp: FederationOrchestrator_build_def split: sum.splits)
  have modern: "\<not> config_isUsingLegacyRegistryModel config"
    using modern_config [OF config] assms(1) by simp
  obtain resultRaw resultSource where
    built: "mutation_build service (buildRequest schemas config) = Inr (resultRaw, resultSource)"
    using assms(2) config
    by (auto simp: FederationOrchestrator_build_def buildRequest_def split: sum.splits)
  obtain doc where doc: "parse E resultRaw = Inr doc"
    using assms(2) config built modern
    by (auto simp: FederationOrchestrator_build_def buildRequest_def removeFederationSpec_def
        split: sum.splits)
  have "obj = \<lparr> document = stripped doc, source = resultSource, url = None,
               raw = print E (stripped doc) \<rparr>"
    using assms(2) config built modern doc
    by (auto simp: FederationOrchestrator_build_def buildRequest_def removeFederationSpec_def
        map_filter_visit)
  then show ?thesis
    using config built doc by auto
qed

text \<open>
  Claim C6. On a project of the modern registry model, whenever the composition
  service answers a build with a supergraph SDL that parses, \<open>build\<close> returns the
  parsed document without the definitions Federation injects and with no directive on
  the schema definition, printed again as its \<open>raw\<close>; every result \<open>build\<close> returns on
  such a project is of that form. \<open>supergraph\<close> returns what the composition service
  answers, as it is.
\<close>

theorem federation_build_strips_supergraph_untouched:
  assumes "\<not> isUsingLegacyRegistryModel proj"
    and "ensureConfig proj = Inr config"
  shows "(mutation_build service (buildRequest schemas config) = Inr (resultRaw, resultSource)
            \<and> parse E resultRaw = Inr doc \<longrightarrow>
          FederationOrchestrator_build E service schemas proj =
            Inr \<lparr> document = stripped doc, source = resultSource, url = None,
                  raw = print E (stripped doc) \<rparr>)
       \<and> (\<forall>obj. FederationOrchestrator_build E service schemas proj = Inr obj \<longrightarrow>
            list_all (\<lambda>d. \<not> federation_injected d \<and> schema_directives d = []) (document obj)
              \<and> raw obj = print E (document obj))
       \<and> FederationOrchestrator_supergraph service schemas proj =
            mutation_supergraph service (supergraphRequest schemas config)"
proof (intro conjI allI impI)
  have modern: "\<not> config_isUsingLegacyRegistryModel config"
    using modern_config [OF assms(2)] assms(1) by simp
  show "FederationOrchestrator_build E service schemas proj =
          Inr \<lparr> document = stripped doc, source = resultSource, url = None,
                raw = print E (stripped doc) \<rparr>"
    if "mutation_build service (buildRequest schemas config) = Inr (resultRaw, resultSource)
          \<and> parse E resultRaw = Inr doc"
    using that assms(2) modern
    by (auto simp: FederationOrchestrator_build_def buildRequest_def removeFederationSpec_def
        map_filter_visit)
  show "FederationOrchestrator_supergraph service schemas proj =
          mutation_supergraph service (supergraphRequest schemas config)"
    using assms(2) by (simp add: FederationOrchestrator_supergraph_def supergraphRequest_def)
next
  fix obj
  assume obj: "FederationOrchestrator_build E service schemas proj = Inr obj"
  obtain doc where "obj = \<lparr> document = stripped doc, source = source obj, url = None,
                            raw = print E (stripped doc) \<rparr>"
    using modern_build_result [OF assms(1) obj] by blast
  then have shape: "document obj = stripped doc" "raw obj = print E (stripped doc)"
    by (metis SchemaObject.select_convs(1), metis SchemaObject.select_convs(4))
  show "list_all (\<lambda>d. \<not> federation_injected d \<and> schema_directives d = []) (document obj)"
    using shape stripped_clean by simp
  show "raw obj = print E (document obj)"
    using shape by simp
qed

lemma toy_federation_build:
  "FederationOrchestrator_build toyEnv toyService [] (toyProject FEDERATION False) =
     Inr \<lparr> document = [SchemaDefinition [] ''query: Query'',
                        DirectiveDefinition ''tag'' ''name'',
                        EnumTypeDefinition ''Color'' ''RED'',
                        OtherDefinition ''ObjectTypeDefinition'' ''Query''],
           source = Some ''*'', url = None,
           raw = ''schema query: Querydirective tagenum ColorQuery'' \<rparr>"
  by code_simp

theorem federation_build_strips_supergraph_untouched_witness:
  "\<not> isUsingLegacyRegistryModel (toyProject FEDERATION False)
   \<and> ensureConfig (toyProject FEDERATION False) =
       Inr \<lparr> config_externalComposition = None, config_isUsingLegacyRegistryModel = False \<rparr>
   \<and> parse toyEnv ''supergraph'' = Inr federatedDocument
   \<and> list_ex federation_injected federatedDocument
   \<and> list_all (\<lambda>d. \<not> federation_injected d \<and> schema_directives d = [])
        [SchemaDefinition [] ''query: Query'', DirectiveDefinition ''tag'' ''name'',
         EnumTypeDefinition ''Color'' ''RED'', OtherDefinition ''ObjectTypeDefinition'' ''Query'']
   \<and> FederationOrchestrator_supergraph toyService [] (toyProject FEDERATION False) =
       Inr (Some ''supergraph'')"
proof -
  let ?config = "\<lparr> config_externalComposition = None, config_isUsingLegacyRegistryModel = False \<rparr>"
  have modern: "\<not> isUsingLegacyRegistryModel (toyProject FEDERATION False)"
    by code_simp
  have config: "ensureConfig (toyProject FEDERATION False) = Inr ?config"
    by code_simp
  have parsed: "parse toyEnv ''supergraph'' = Inr federatedDocument"
    by (simp add: toyEnv_def)
  have injected: "list_ex federation_injected federatedDocument"
    by code_simp
  have answer: "mutation_supergraph toyService (supergraphRequest [] ?config) = Inr (Some ''supergraph'')"
    by (simp add: toyService_def)
  note claim = federation_build_strips_supergraph_untouched [OF modern config,
      of toyService "[]" "''supergraph''" "Some emptySource" toyEnv federatedDocument]
  have clean: "list_all (\<lambda>d. \<not> federation_injected d \<and> schema_directives d = [])
                 [SchemaDefinition [] ''query: Query'', DirectiveDefinition ''tag'' ''name'',
                  EnumTypeDefinition ''Color'' ''RED'', OtherDefinition ''ObjectTypeDefinition'' ''Query'']"
    using claim toy_federation_build by simp
  have "FederationOrchestrator_supergraph toyService [] (toyProject FEDERATION False) =
          Inr (Some ''supergraph'')"
    using claim answer by simp
  then show ?thesis
    using modern config parsed injected clean by blast
qed

section \<open>The validator: identical schemas\<close>

lemma afterWithBase_cases:
  "(baseSchemaParses E baseSchema \<or> after = [] \<longrightarrow> (\<exists>w. afterWithBase E baseSchema after = Inr w))
   \<and> (\<not> (baseSchemaParses E baseSchema \<or> after = []) \<longrightarrow>
        (\<exists>msg. afterWithBase E baseSchema after = Inl (Thrown GraphQLErrorC msg)))"
  by (cases baseSchema; cases after)
     (auto simp: afterWithBase_def baseSchemaParses_def Let_def isl_def split: sum.splits)

text \<open>
  Claim C4, amended. When \<open>compare\<close> has an existing schema whose hash is the hash of
  the incoming one, \<open>validate\<close> calls no orchestrator. It returns exactly
  \<open>{isComposable: true, hasBreakingChanges: false, errors: [], changes: []}\<close>
  provided the base schema is absent, empty or parses, or \<open>after\<close> is empty; otherwise
  the \<open>GraphQLError\<close> of parsing the base schema rejects the call before the schemas
  are compared. The composability of the stored version is no input of \<open>validate\<close>.
\<close>

theorem validate_identical_short_circuit:
  assumes "existing c = Some ex"
    and "hashSchema E ex = hashSchema E (incoming c)"
  shows "(baseSchemaParses E baseSchema \<or> after = [] \<longrightarrow>
            SchemaValidator_validate E orchestrator selector (Some c) initial baseSchema
              before after acceptBreakingChanges proj = ([], Inr shortCircuit))
       \<and> (\<not> (baseSchemaParses E baseSchema \<or> after = []) \<longrightarrow>
            (\<exists>msg. SchemaValidator_validate E orchestrator selector (Some c) initial baseSchema
                      before after acceptBreakingChanges proj
                    = ([], Inl (Thrown GraphQLErrorC msg))))"
proof -
  have identical: "areIdentical E (Some c)"
    using assms by (simp add: areIdentical_def)
  show ?thesis
  proof (intro conjI impI)
    assume "baseSchemaParses E baseSchema \<or> after = []"
    then obtain w where "afterWithBase E baseSchema after = Inr w"
      using afterWithBase_cases [of E baseSchema after] by blast
    then show "SchemaValidator_validate E orchestrator selector (Some c) initial baseSchema
                 before after acceptBreakingChanges proj = ([], Inr shortCircuit)"
      using identical
      by (simp add: SchemaValidator_validate_def io_bind_def lift_def ret_def shortCircuit_def)
  next
    assume "\<not> (baseSchemaParses E baseSchema \<or> after = [])"
    then obtain msg where "afterWithBase E baseSchema after = Inl (Thrown GraphQLErrorC msg)"
      using afterWithBase_cases [of E baseSchema after] by blast
    then show "\<exists>msg. SchemaValidator_validate E orchestrator selector (Some c) initial baseSchema
                       before after acceptBreakingChanges proj
                     = ([], Inl (Thrown GraphQLErrorC msg))"
      by (simp add: SchemaValidator_validate_def io_bind_def lift_def)
  qed
qed

theorem validate_identical_short_circuit_witness:
  "existing \<lparr> incoming = toyObject ''ping'' ''type Ping'',
              existing = Some (toyObject ''ping'' ''type Ping'') \<rparr>
     = Some (toyObject ''ping'' ''type Ping'')
   \<and> hashSchema toyEnv (toyObject ''ping'' ''type Ping'')
       = hashSchema toyEnv (toyObject ''ping'' ''type Ping'')
   \<and> baseSchemaParses toyEnv (Some ''scalar Date'')
   \<and> SchemaValidator_validate toyEnv (toyOrchestrator STITCHING) toySelector
        (Some \<lparr> incoming = toyObject ''ping'' ''type Ping'',
                 existing = Some (toyObject ''ping'' ''type Ping'') \<rparr>)
        False (Some ''scalar Date'') [toyObject ''ping'' ''type Ping'']
        [toyObject ''ping'' ''type Ping''] False (toyProject STITCHING False)
       = ([], Inr shortCircuit)"
proof -
  let ?obj = "toyObject ''ping'' ''type Ping''"
  let ?c = "\<lparr> incoming = ?obj, existing = Some ?obj \<rparr>"
  have ex: "existing ?c = Some ?obj"
    by simp
  have hash: "hashSchema toyEnv ?obj = hashSchema toyEnv (incoming ?c)"
    by simp
  have parses: "baseSchemaParses toyEnv (Some ''scalar Date'')"
    by code_simp
  show ?thesis
    using ex parses
      validate_identical_short_circuit [OF ex hash, of "Some ''scalar Date''" "[?obj]"
        "toyOrchestrator STITCHING" toySelector False "[?obj]" False "toyProject STITCHING False"]
    by simp
qed

text \<open>
  The claim as it was stated fails for a target whose base schema does not parse: the
  schemas are identical, and the call rejects.
\<close>

theorem validate_identical_counterexample:
  "existing \<lparr> incoming = toyObject ''ping'' ''type Ping'',
              existing = Some (toyObject ''ping'' ''type Ping'') \<rparr>
     = Some (toyObject ''ping'' ''type Ping'')
   \<and> hashSchema toyEnv (toyObject ''ping'' ''type Ping'')
       = hashSchema toyEnv (toyObject ''ping'' ''type Ping'')
   \<and> SchemaValidator_validate toyEnv (toyOrchestrator STITCHING) toySelector
        (Some \<lparr> incoming = toyObject ''ping'' ''type Ping'',
                 existing = Some (toyObject ''ping'' ''type Ping'') \<rparr>)
        False (Some ''!'') [toyObject ''ping'' ''type Ping'']
        [toyObject ''ping'' ''type Ping''] False (toyProject STITCHING False)
       = ([], Inl (Thrown GraphQLErrorC ''Syntax Error''))"
  by code_simp

section \<open>The validator: a comparison that fails\<close>

lemma compareSchemas_outcome:
  "isl (snd (compareSchemas E orchestrator selector before after accept proj ce))
     = comparisonFails E orchestrator selector before after proj"
proof (cases "build orchestrator before proj")
  case (Inl e)
  then show ?thesis
    by (cases "build orchestrator after proj")
       (simp_all add: comparisonFails_def compareSchemas_def Promise_all2_def snd_io_bind)
next
  case before: (Inr existingSchema)
  show ?thesis
  proof (cases "build orchestrator after proj")
    case (Inl e)
    then show ?thesis
      using before
      by (simp add: comparisonFails_def compareSchemas_def Promise_all2_def snd_io_bind)
  next
    case after: (Inr incomingSchema)
    show ?thesis
    proof (cases existingSchema)
      case None
      then show ?thesis
        using before after
        by (simp add: comparisonFails_def compareSchemas_def Promise_all2_def snd_io_bind)
    next
      case (Some ex)
      show ?thesis
      proof (cases "buildSchema E (Some ex)")
        case (Inl e)
        then show ?thesis
          using before after Some
          by (simp add: comparisonFails_def compareSchemas_def Promise_all2_def snd_io_bind)
      next
        case a: (Inr a)
        show ?thesis
        proof (cases "buildSchema E incomingSchema")
          case (Inl e)
          then show ?thesis
            using before after Some a
            by (simp add: comparisonFails_def compareSchemas_def Promise_all2_def snd_io_bind)
        next
          case b: (Inr b)
          show ?thesis
            using before after Some a b
            by (cases "diff E a b selector")
               (simp_all add: comparisonFails_def compareSchemas_def Promise_all2_def snd_io_bind)
        qed
      qed
    qed
  qed
qed

text \<open>
  Claim C5. A validation that is not the initial one, whose orchestrator returned the
  composition errors, and in which building the schema of \<open>before\<close> or of \<open>after\<close> or
  diffing them fails, returns a result: the composition errors followed by the one
  error \<open>Failed to compare schemas: ...\<close>, no changes, no breaking changes, and
  \<open>isComposable\<close> iff there are no composition errors.
\<close>

theorem validate_compare_failure:
  assumes "afterWithBase E baseSchema after = Inr withBase"
    and "\<not> areIdentical E compare"
    and "validate orchestrator withBase proj = Inr compositionErrors"
    and "comparisonFails E orchestrator selector before after proj"
  shows "\<exists>msg. snd (SchemaValidator_validate E orchestrator selector compare False baseSchema
                     before after acceptBreakingChanges proj) =
           Inr \<lparr> isComposable = (compositionErrors = []), hasBreakingChanges = False,
                 errors = compositionErrors @ [failedToCompare msg], changes = [] \<rparr>"
proof -
  have "isl (snd (compareSchemas E orchestrator selector before after
                    acceptBreakingChanges proj compositionErrors))"
    using compareSchemas_outcome assms(4) by simp
  then obtain e where "snd (compareSchemas E orchestrator selector before after
                              acceptBreakingChanges proj compositionErrors) = Inl e"
    by (auto simp: isl_def)
  then have "snd (SchemaValidator_validate E orchestrator selector compare False baseSchema
                    before after acceptBreakingChanges proj) =
               Inr \<lparr> isComposable = (compositionErrors = []), hasBreakingChanges = False,
                     errors = compositionErrors @ [failedToCompare (error_message e)],
                     changes = [] \<rparr>"
    using assms(1-3)
    by (simp add: SchemaValidator_validate_def snd_io_bind snd_try_catch failedToCompare_def)
  then show ?thesis
    by blast
qed

theorem validate_compare_failure_witness:
  "afterWithBase toyEnv None [toyObject ''ping'' ''unbuildable'']
     = Inr [toyObject ''ping'' ''unbuildable'']
   \<and> \<not> areIdentical toyEnv None
   \<and> validate (toyOrchestrator STITCHING) [toyObject ''ping'' ''unbuildable'']
        (toyProject STITCHING False) = Inr []
   \<and> comparisonFails toyEnv (toyOrchestrator STITCHING) toySelector
        [toyObject ''ping'' ''type Ping''] [toyObject ''ping'' ''unbuildable'']
        (toyProject STITCHING False)
   \<and> snd (SchemaValidator_validate toyEnv (toyOrchestrator STITCHING) toySelector None False None
        [toyObject ''ping'' ''type Ping''] [toyObject ''ping'' ''unbuildable''] False
        (toyProject STITCHING False))
       = Inr \<lparr> isComposable = True, hasBreakingChanges = False,
               errors = [failedToCompare ''Failed to build schema''], changes = [] \<rparr>"
proof -
  let ?before = "[toyObject ''ping'' ''type Ping'']"
  let ?after = "[toyObject ''ping'' ''unbuildable'']"
  have base: "afterWithBase toyEnv None ?after = Inr ?after"
    by code_simp
  have different: "\<not> areIdentical toyEnv None"
    by code_simp
  have composed: "validate (toyOrchestrator STITCHING) ?after (toyProject STITCHING False) = Inr []"
    by code_simp
  have fails: "comparisonFails toyEnv (toyOrchestrator STITCHING) toySelector ?before ?after
                 (toyProject STITCHING False)"
    by code_simp
  have run: "snd (SchemaValidator_validate toyEnv (toyOrchestrator STITCHING) toySelector None False
                    None ?before ?after False (toyProject STITCHING False))
               = Inr \<lparr> isComposable = True, hasBreakingChanges = False,
                       errors = [failedToCompare ''Failed to build schema''], changes = [] \<rparr>"
    by code_simp
  obtain msg where claim:
    "snd (SchemaValidator_validate toyEnv (toyOrchestrator STITCHING) toySelector None False
            None ?before ?after False (toyProject STITCHING False))
       = Inr \<lparr> isComposable = (([] :: SchemaError list) = []), hasBreakingChanges = False,
               errors = [] @ [failedToCompare msg], changes = [] \<rparr>"
    using validate_compare_failure [OF base different composed fails, of False] by blast
  have "failedToCompare msg = failedToCompare ''Failed to build schema''"
    using claim run by simp
  then have "snd (SchemaValidator_validate toyEnv (toyOrchestrator STITCHING) toySelector None False
                    None ?before ?after False (toyProject STITCHING False))
               = Inr \<lparr> isComposable = True, hasBreakingChanges = False,
                       errors = [failedToCompare ''Failed to build schema''], changes = [] \<rparr>"
    using claim by simp
  then show ?thesis
    using base different composed fails by blast
qed

section \<open>The service name a version is created with\<close>

lemma createVersion_effects:
  assumes "ensureTargetAccess W REGISTRY_WRITE = Inr ()"
    and "getProject W = Inr proj"
  shows "createdServiceNames (fst (SchemaManager_createVersion E W input)) =
           [if isUsingLegacyRegistryModel proj \<and> truthy (arg_service input)
            then map_option (toLowerCase E) (arg_service input)
            else arg_service input]"
  using assms
  by (simp add: SchemaManager_createVersion_def fst_io_bind Let_def)

text \<open>
  Claim C10. A \<open>createVersion\<close> call that is authorised and finds its project hands
  one row to the storage. On a project of the legacy registry model and for a service
  name that is not empty, the service name of that row is the lowercased name, that is
  what \<open>String.prototype.toLowerCase\<close> makes of the name supplied; on a project of the
  modern model it is the name as it was supplied.
\<close>

theorem createVersion_service_name:
  assumes "ensureTargetAccess W REGISTRY_WRITE = Inr ()"
    and "getProject W = Inr proj"
  shows "(isUsingLegacyRegistryModel proj \<and> arg_service input = Some name \<and> name \<noteq> [] \<longrightarrow>
            createdServiceNames (fst (SchemaManager_createVersion E W input))
              = [Some (toLowerCase E name)])
       \<and> (\<not> isUsingLegacyRegistryModel proj \<longrightarrow>
            createdServiceNames (fst (SchemaManager_createVersion E W input))
              = [arg_service input])"
  using createVersion_effects [OF assms] by auto

theorem createVersion_service_name_witness:
  "ensureTargetAccess (toyWorld (toyProject FEDERATION True) [] None None) REGISTRY_WRITE = Inr ()
   \<and> getProject (toyWorld (toyProject FEDERATION True) [] None None)
       = Inr (toyProject FEDERATION True)
   \<and> isUsingLegacyRegistryModel (toyProject FEDERATION True)
   \<and> createdServiceNames
        (fst (SchemaManager_createVersion toyEnv (toyWorld (toyProject FEDERATION True) [] None None)
                (toyCreateVersionArgs (Some ''PingService''))))
       = [Some ''pingservice'']
   \<and> ensureTargetAccess (toyWorld (toyProject FEDERATION False) [] None None) REGISTRY_WRITE
       = Inr ()
   \<and> getProject (toyWorld (toyProject FEDERATION False) [] None None)
       = Inr (toyProject FEDERATION False)
   \<and> \<not> isUsingLegacyRegistryModel (toyProject FEDERATION False)
   \<and> createdServiceNames
        (fst (SchemaManager_createVersion toyEnv (toyWorld (toyProject FEDERATION False) [] None None)
                (toyCreateVersionArgs (Some ''PingService''))))
       = [Some ''PingService'']"
proof -
  let ?legacy = "toyWorld (toyProject FEDERATION True) [] None None"
  let ?modern = "toyWorld (toyProject FEDERATION False) [] None None"
  have access: "ensureTargetAccess ?legacy REGISTRY_WRITE = Inr ()"
    "ensureTargetAccess ?modern REGISTRY_WRITE = Inr ()"
    by (simp_all add: toyWorld_def)
  have loaded: "getProject ?legacy = Inr (toyProject FEDERATION True)"
    "getProject ?modern = Inr (toyProject FEDERATION False)"
    by (simp_all add: toyWorld_def)
  have model: "isUsingLegacyRegistryModel (toyProject FEDERATION True)"
    "\<not> isUsingLegacyRegistryModel (toyProject FEDERATION False)"
    by (simp_all add: toyProject_def)
  have service: "arg_service (toyCreateVersionArgs (Some ''PingService'')) = Some ''PingService''"
    by (simp add: toyCreateVersionArgs_def)
  have lower: "toLowerCase toyEnv ''PingService'' = ''pingservice''"
    by code_simp
  have "createdServiceNames
          (fst (SchemaManager_createVersion toyEnv ?legacy (toyCreateVersionArgs (Some ''PingService''))))
          = [Some ''pingservice'']"
    using createVersion_service_name [OF access(1) loaded(1),
        of "toyCreateVersionArgs (Some ''PingService'')" "''PingService''" toyEnv]
      model(1) service lower
    by simp
  moreover have "createdServiceNames
          (fst (SchemaManager_createVersion toyEnv ?modern (toyCreateVersionArgs (Some ''PingService''))))
          = [Some ''PingService'']"
    using createVersion_service_name [OF access(2) loaded(2),
        of "toyCreateVersionArgs (Some ''PingService'')" "''PingService''" toyEnv]
      model(2) service
    by simp
  ultimately show ?thesis
    using access loaded model by blast
qed

section \<open>Deleting on a single-schema project\<close>

lemma publisher_delete_not_composite:
  assumes "getProject W = Inr proj"
    and "\<not> (project_type proj = FEDERATION \<or> project_type proj = STITCHING)"
  shows "fst (SchemaPublisher_delete E W federation stitching input) = []"
    and "isl (snd (SchemaPublisher_delete E W federation stitching input))"
    and "ensureTargetAccess W REGISTRY_WRITE = Inr () \<Longrightarrow>
         ensureTargetAccess W REGISTRY_READ = Inr () \<Longrightarrow>
         storage_getLatestSchemas W = Inr latest \<Longrightarrow>
         snd (SchemaPublisher_delete E W federation stitching input) =
           Inl (Thrown HiveErrorC
                  (''Deleting schemas is not available for ''
                     @ ProjectType_string (project_type proj) @ ''-type projects''))"
proof -
  let ?load = "Promise_all2 (leftSettlesFirst E) (lift (getProject W))
                 (SchemaManager_getLatestSchemas W)"
  have quiet: "fst ?load = []"
    by (simp add: fst_Promise_all2 SchemaManager_getLatestSchemas_def fst_io_bind
        split: sum.splits)
  have loaded: "snd ?load = Inr r \<Longrightarrow> fst r = proj" for r
    using assms(1) by (auto simp: snd_Promise_all2_Inr)
  show "fst (SchemaPublisher_delete E W federation stitching input) = []"
    using quiet loaded assms(2)
    by (auto simp: SchemaPublisher_delete_def fst_io_bind split: sum.splits prod.splits)
  show "isl (snd (SchemaPublisher_delete E W federation stitching input))"
    using loaded assms(2)
    by (auto simp: SchemaPublisher_delete_def snd_io_bind split: sum.splits prod.splits)
  show "snd (SchemaPublisher_delete E W federation stitching input) =
          Inl (Thrown HiveErrorC
                 (''Deleting schemas is not available for ''
                    @ ProjectType_string (project_type proj) @ ''-type projects''))"
    if "ensureTargetAccess W REGISTRY_WRITE = Inr ()"
      and "ensureTargetAccess W REGISTRY_READ = Inr ()"
      and "storage_getLatestSchemas W = Inr latest"
  proof -
    have "snd ?load = Inr (proj, latest)"
      using assms(1) that
      by (simp add: Promise_all2_def SchemaManager_getLatestSchemas_def snd_io_bind)
    then show ?thesis
      using that(1) assms(2)
      by (simp add: SchemaPublisher_delete_def snd_io_bind)
  qed
qed

text \<open>
  Claim C8, amended. \<open>SingleModel.delete\<close> always fails, with the message
  \<open>Deleting schemas is not supported for single-schema projects\<close>. A delete request
  (\<open>SchemaPublisher.delete\<close>) that targets a project of type \<open>SINGLE\<close> always fails too
  and writes nothing, without reaching \<open>SingleModel.delete\<close>: with the error of
  the access check or of the loading when one of them fails, and otherwise with the
  message \<open>Deleting schemas is not available for SINGLE-type projects\<close>.
\<close>

theorem delete_on_single_project_fails:
  assumes "getProject W = Inr proj"
    and "project_type proj = SINGLE"
  shows "SingleModel_delete input proj currentSchemas = ([], Inl (Thrown HiveErrorC singleDeleteMessage))
       \<and> fst (SchemaPublisher_delete E W federation stitching input) = []
       \<and> isl (snd (SchemaPublisher_delete E W federation stitching input))
       \<and> (ensureTargetAccess W REGISTRY_WRITE = Inr ()
            \<and> ensureTargetAccess W REGISTRY_READ = Inr ()
            \<and> storage_getLatestSchemas W = Inr latest \<longrightarrow>
          snd (SchemaPublisher_delete E W federation stitching input) =
            Inl (Thrown HiveErrorC ''Deleting schemas is not available for SINGLE-type projects''))"
proof -
  have single: "\<not> (project_type proj = FEDERATION \<or> project_type proj = STITCHING)"
    using assms(2) by simp
  show ?thesis
    using publisher_delete_not_composite [OF assms(1) single] assms(2)
    by (simp add: SingleModel_delete_def throw_def singleDeleteMessage_def)
qed

theorem delete_on_single_project_fails_witness:
  "getProject (toyWorld (toyProject SINGLE False) [] None None) = Inr (toyProject SINGLE False)
   \<and> project_type (toyProject SINGLE False) = SINGLE
   \<and> SingleModel_delete (toyDeleteInput ''ping'' None) (toyProject SINGLE False) []
       = ([], Inl (Thrown HiveErrorC singleDeleteMessage))
   \<and> fst (SchemaPublisher_delete toyEnv (toyWorld (toyProject SINGLE False) [] None None)
        (toyOrchestrator FEDERATION) (toyOrchestrator STITCHING) (toyDeleteInput ''ping'' None)) = []
   \<and> snd (SchemaPublisher_delete toyEnv (toyWorld (toyProject SINGLE False) [] None None)
        (toyOrchestrator FEDERATION) (toyOrchestrator STITCHING) (toyDeleteInput ''ping'' None))
       = Inl (Thrown HiveErrorC ''Deleting schemas is not available for SINGLE-type projects'')"
proof -
  let ?W = "toyWorld (toyProject SINGLE False) [] None None"
  have loaded: "getProject ?W = Inr (toyProject SINGLE False)"
    by (simp add: toyWorld_def)
  have single: "project_type (toyProject SINGLE False) = SINGLE"
    by (simp add: toyProject_def)
  have granted: "ensureTargetAccess ?W REGISTRY_WRITE = Inr ()"
    "ensureTargetAccess ?W REGISTRY_READ = Inr ()"
    "storage_getLatestSchemas ?W = Inr ([], None)"
    by (simp_all add: toyWorld_def)
  show ?thesis
    using loaded single granted
      delete_on_single_project_fails [OF loaded single, of "toyDeleteInput ''ping'' None" "[]"
        toyEnv "toyOrchestrator FEDERATION" "toyOrchestrator STITCHING" "([], None)"]
    by simp
qed

text \<open>
  The claim as it was stated fails for the request: on a project of type \<open>SINGLE\<close> it
  fails with another message than the one of \<open>SingleModel.delete\<close>.
\<close>

theorem delete_on_single_project_counterexample:
  "project_type (toyProject SINGLE False) = SINGLE
   \<and> snd (SchemaPublisher_delete toyEnv (toyWorld (toyProject SINGLE False) [] None None)
        (toyOrchestrator FEDERATION) (toyOrchestrator STITCHING) (toyDeleteInput ''ping'' None))
       = Inl (Thrown HiveErrorC ''Deleting schemas is not available for SINGLE-type projects'')
   \<and> snd (SchemaPublisher_delete toyEnv (toyWorld (toyProject SINGLE False) [] None None)
        (toyOrchestrator FEDERATION) (toyOrchestrator STITCHING) (toyDeleteInput ''ping'' None))
       \<noteq> Inl (Thrown HiveErrorC ''Deleting schemas is not supported for single-schema projects'')"
  by code_simp

section \<open>Deleting a service of a composite project\<close>

lemma find_filter: "find P (filter Q xs) = find (\<lambda>x. Q x \<and> P x) xs"
  by (induction xs) simp_all

lemma allActiveServices_live: "allActiveServices schemas = liveServices schemas"
  unfolding allActiveServices_def liveServices_def
  by (rule filter_cong) (simp_all add: isAddedOrModified_def isAdded_def isModified_def)

lemma futureServices_remaining: "futureServices deleted schemas = remaining deleted schemas"
  by (simp add: futureServices_def remaining_def allActiveServices_live)

lemma serviceToDelete_live:
  "serviceToDelete input schemas = find (liveService (delete_serviceName input)) schemas"
proof -
  have "(\<lambda>x. isAddedOrModified x \<and> service_name x = Some (delete_serviceName input))
          = liveService (delete_serviceName input)"
    by (auto simp: liveService_def isAddedOrModified_def isAdded_def isModified_def)
  then show ?thesis
    by (simp add: serviceToDelete_def allActiveServices_def find_filter)
qed

lemma no_live_service:
  "find (liveService name) schemas = None \<longleftrightarrow> \<not> list_ex (liveService name) schemas"
  by (auto simp: find_None_iff list_ex_iff)

lemma filter_active [simp]:
  "filter isAddedOrModified (allActiveServices schemas) = allActiveServices schemas"
  "filter isAddedOrModified (futureServices deleted schemas) = futureServices deleted schemas"
  by (auto simp: allActiveServices_def futureServices_def intro!: filter_cong)

lemma remaining_remove1:
  assumes "find (liveService name) schemas = Some deleted"
    and "distinct (map schema_id (liveServices schemas))"
  shows "remaining deleted schemas = remove1 deleted (liveServices schemas)"
proof -
  have "deleted \<in> set schemas" "liveService name deleted"
    using assms(1) by (auto simp: find_Some_iff)
  then have member: "deleted \<in> set (liveServices schemas)"
    by (simp add: liveServices_def liveService_def)
  have "distinct (map schema_id xs) \<Longrightarrow> deleted \<in> set xs \<Longrightarrow>
          filter (\<lambda>service. schema_id service \<noteq> schema_id deleted) xs = remove1 deleted xs" for xs
  proof (induction xs)
    case Nil
    then show ?case by simp
  next
    case (Cons x xs)
    show ?case
    proof (cases "x = deleted")
      case True
      then have "\<forall>y \<in> set xs. schema_id y \<noteq> schema_id deleted"
        using Cons.prems(1) by (force simp: image_iff)
      then show ?thesis
        using True by (simp add: filter_True)
    next
      case False
      then have "schema_id x \<noteq> schema_id deleted"
        using Cons.prems by (auto simp: image_iff)
      then show ?thesis
        using False Cons by auto
    qed
  qed
  then show ?thesis
    using assms(2) member by (simp add: remaining_def)
qed

lemma revalidate_live:
  "revalidate E W orchestrator input proj schemas deleted =
     io_bind (fetchBaseSchema W proj) (\<lambda>baseSchema.
     io_bind (lift (mapM (createSchemaObject E) (liveServices schemas))) (\<lambda>before.
     io_bind (lift (mapM (createSchemaObject E) (remaining deleted schemas))) (\<lambda>after.
     io_bind (SchemaValidator_validate E orchestrator (delete_selector input) None False
                baseSchema before after (delete_force input = Some True) proj)
       (\<lambda>result. ret (baseSchema, result)))))"
  by (simp add: revalidate_def allActiveServices_live [symmetric]
      futureServices_remaining [symmetric])

lemma revalidate_result:
  "snd (revalidate E W orchestrator input proj schemas deleted) = Inr (baseSchema, result) \<longleftrightarrow>
     (\<exists>before after.
        snd (fetchBaseSchema W proj) = Inr baseSchema
          \<and> mapM (createSchemaObject E) (liveServices schemas) = Inr before
          \<and> mapM (createSchemaObject E) (remaining deleted schemas) = Inr after
          \<and> snd (SchemaValidator_validate E orchestrator (delete_selector input) None False
                    baseSchema before after (delete_force input = Some True) proj) = Inr result)"
  unfolding revalidate_live by (auto simp: snd_io_bind_Inr)

lemma revalidate_failure:
  "snd (revalidate E W orchestrator input proj schemas deleted) = Inl e \<longleftrightarrow>
     (snd (fetchBaseSchema W proj) = Inl e
        \<or> (\<exists>baseSchema. snd (fetchBaseSchema W proj) = Inr baseSchema
              \<and> (mapM (createSchemaObject E) (liveServices schemas) = Inl e
                   \<or> (\<exists>before. mapM (createSchemaObject E) (liveServices schemas) = Inr before
                         \<and> (mapM (createSchemaObject E) (remaining deleted schemas) = Inl e
                              \<or> (\<exists>after.
                                    mapM (createSchemaObject E) (remaining deleted schemas)
                                      = Inr after
                                    \<and> snd (SchemaValidator_validate E orchestrator
                                              (delete_selector input) None False baseSchema
                                              before after (delete_force input = Some True)
                                              proj) = Inl e))))))"
proof -
  let ?before = "mapM (createSchemaObject E) (liveServices schemas)"
  let ?after = "mapM (createSchemaObject E) (remaining deleted schemas)"
  show ?thesis
    unfolding revalidate_live
    by (cases "snd (fetchBaseSchema W proj)"; cases ?before; cases ?after)
       (simp_all add: snd_io_bind split: sum.splits)
qed

lemma delete_found:
  assumes "serviceToDelete input schemas = Some deleted"
  shows "snd (CompositeModel_delete E W federation stitching input proj schemas) = Inr out \<longleftrightarrow>
           (\<exists>baseSchema result.
              snd (revalidate E W (if project_type proj = FEDERATION then federation else stitching)
                     input proj schemas deleted) = Inr (baseSchema, result)
                \<and> out = Deletion (deletion input deleted baseSchema result))"
  using assms
  by (auto simp: CompositeModel_delete_def snd_io_bind_Inr deletion_def deleteConclusion_def)

lemma delete_found_failure:
  assumes "serviceToDelete input schemas = Some deleted"
  shows "snd (CompositeModel_delete E W federation stitching input proj schemas) = Inl e \<longleftrightarrow>
           snd (revalidate E W (if project_type proj = FEDERATION then federation else stitching)
                  input proj schemas deleted) = Inl e"
  using assms
  by (auto simp: CompositeModel_delete_def snd_io_bind split: sum.splits prod.splits)

text \<open>
  Claim C3, amended. When no live (\<open>ADD\<close> or \<open>MODIFY\<close>) service has the service name
  asked for, \<open>delete\<close> returns \<open>Reject\<close> with the one error \<open>Service '<name>' not
  found.\<close>, and does nothing else. Otherwise the first live service of that name is the
  one to delete, and the live services are validated against the live services of
  another id (the live set minus that service, when ids are distinct), with
  \<open>acceptBreakingChanges = force\<close>. When that validation returns a result, \<open>delete\<close>
  returns the deletion of that service, with the conclusion \<open>Publish\<close> iff \<open>force\<close> or
  (\<open>isComposable\<close> and not \<open>hasBreakingChanges\<close>), and \<open>Reject\<close> otherwise. When the
  loading of the base schema, the parsing of an SDL or the validation fails, \<open>delete\<close>
  fails with that error and has no conclusion, forced or not.
\<close>

theorem composite_delete_conclusion:
  "(\<not> list_ex (liveService (delete_serviceName input)) schemas \<longrightarrow>
      CompositeModel_delete E W federation stitching input proj schemas
        = ([], Inr (ServiceNotFound Reject [serviceNotFound (delete_serviceName input)])))
   \<and> (list_ex (liveService (delete_serviceName input)) schemas \<longrightarrow>
        find (liveService (delete_serviceName input)) schemas \<noteq> None)
   \<and> (find (liveService (delete_serviceName input)) schemas = Some deleted \<longrightarrow>
        (snd (CompositeModel_delete E W federation stitching input proj schemas) = Inr out \<longleftrightarrow>
           (\<exists>baseSchema before after result.
              snd (fetchBaseSchema W proj) = Inr baseSchema
                \<and> mapM (createSchemaObject E) (liveServices schemas) = Inr before
                \<and> mapM (createSchemaObject E) (remaining deleted schemas) = Inr after
                \<and> snd (SchemaValidator_validate E
                          (if project_type proj = FEDERATION then federation else stitching)
                          (delete_selector input) None False baseSchema before after
                          (delete_force input = Some True) proj) = Inr result
                \<and> out = Deletion (deletion input deleted baseSchema result)))
        \<and> (snd (CompositeModel_delete E W federation stitching input proj schemas) = Inl e \<longleftrightarrow>
             (snd (fetchBaseSchema W proj) = Inl e
                \<or> (\<exists>baseSchema. snd (fetchBaseSchema W proj) = Inr baseSchema
                      \<and> (mapM (createSchemaObject E) (liveServices schemas) = Inl e
                           \<or> (\<exists>before.
                                 mapM (createSchemaObject E) (liveServices schemas) = Inr before
                                 \<and> (mapM (createSchemaObject E) (remaining deleted schemas)
                                      = Inl e
                                      \<or> (\<exists>after.
                                            mapM (createSchemaObject E)
                                              (remaining deleted schemas) = Inr after
                                            \<and> snd (SchemaValidator_validate E
                                                      (if project_type proj = FEDERATION
                                                       then federation else stitching)
                                                      (delete_selector input) None False
                                                      baseSchema before after
                                                      (delete_force input = Some True) proj)
                                                = Inl e)))))))
        \<and> (distinct (map schema_id (liveServices schemas)) \<longrightarrow>
             remaining deleted schemas = remove1 deleted (liveServices schemas)))"
proof (intro conjI impI)
  assume "\<not> list_ex (liveService (delete_serviceName input)) schemas"
  then have "serviceToDelete input schemas = None"
    by (simp add: serviceToDelete_live no_live_service)
  then show "CompositeModel_delete E W federation stitching input proj schemas
               = ([], Inr (ServiceNotFound Reject [serviceNotFound (delete_serviceName input)]))"
    by (simp add: CompositeModel_delete_def ret_def serviceNotFound_def)
next
  assume "list_ex (liveService (delete_serviceName input)) schemas"
  then show "find (liveService (delete_serviceName input)) schemas \<noteq> None"
    by (simp add: no_live_service)
next
  assume first: "find (liveService (delete_serviceName input)) schemas = Some deleted"
  then have found: "serviceToDelete input schemas = Some deleted"
    by (simp add: serviceToDelete_live)
  show "snd (CompositeModel_delete E W federation stitching input proj schemas) = Inr out \<longleftrightarrow>
          (\<exists>baseSchema before after result.
             snd (fetchBaseSchema W proj) = Inr baseSchema
               \<and> mapM (createSchemaObject E) (liveServices schemas) = Inr before
               \<and> mapM (createSchemaObject E) (remaining deleted schemas) = Inr after
               \<and> snd (SchemaValidator_validate E
                         (if project_type proj = FEDERATION then federation else stitching)
                         (delete_selector input) None False baseSchema before after
                         (delete_force input = Some True) proj) = Inr result
               \<and> out = Deletion (deletion input deleted baseSchema result))"
    unfolding delete_found [OF found] revalidate_result by blast
  show "snd (CompositeModel_delete E W federation stitching input proj schemas) = Inl e \<longleftrightarrow>
          (snd (fetchBaseSchema W proj) = Inl e
             \<or> (\<exists>baseSchema. snd (fetchBaseSchema W proj) = Inr baseSchema
                   \<and> (mapM (createSchemaObject E) (liveServices schemas) = Inl e
                        \<or> (\<exists>before.
                              mapM (createSchemaObject E) (liveServices schemas) = Inr before
                              \<and> (mapM (createSchemaObject E) (remaining deleted schemas)
                                   = Inl e
                                   \<or> (\<exists>after.
                                         mapM (createSchemaObject E)
                                           (remaining deleted schemas) = Inr after
                                         \<and> snd (SchemaValidator_validate E
                                                   (if project_type proj = FEDERATION
                                                    then federation else stitching)
                                                   (delete_selector input) None False
                                                   baseSchema before after
                                                   (delete_force input = Some True) proj)
                                             = Inl e))))))"
    unfolding delete_found_failure [OF found] by (rule revalidate_failure)
  show "remaining deleted schemas = remove1 deleted (liveServices schemas)"
    if "distinct (map schema_id (liveServices schemas))"
    using remaining_remove1 [OF first that] .
qed

theorem composite_delete_conclusion_witness:
  "\<not> list_ex (liveService (delete_serviceName (toyDeleteInput ''pang'' None)))
        [toyPing, toyPongModified]
   \<and> CompositeModel_delete toyEnv (toyStitching None) (toyOrchestrator FEDERATION)
         (toyOrchestrator STITCHING) (toyDeleteInput ''pang'' None) (toyProject STITCHING False)
         [toyPing, toyPongModified]
       = ([], Inr (ServiceNotFound Reject
                     [serviceNotFound (delete_serviceName (toyDeleteInput ''pang'' None))]))
   \<and> list_ex (liveService (delete_serviceName (toyDeleteInput ''pong'' None)))
        [toyPing, toyPongModified]
   \<and> find (liveService (delete_serviceName (toyDeleteInput ''pong'' None)))
        [toyPing, toyPongModified] = Some toyPongModified
   \<and> schema_action toyPongModified = MODIFY
   \<and> distinct (map schema_id (liveServices [toyPing, toyPongModified]))
   \<and> remaining toyPongModified [toyPing, toyPongModified]
       = remove1 toyPongModified (liveServices [toyPing, toyPongModified])
   \<and> (\<exists>baseSchema before after result.
         snd (fetchBaseSchema (toyStitching None) (toyProject STITCHING False)) = Inr baseSchema
           \<and> mapM (createSchemaObject toyEnv) (liveServices [toyPing, toyPongModified])
               = Inr before
           \<and> mapM (createSchemaObject toyEnv) (remaining toyPongModified [toyPing, toyPongModified])
               = Inr after
           \<and> snd (SchemaValidator_validate toyEnv
                     (if project_type (toyProject STITCHING False) = FEDERATION
                      then toyOrchestrator FEDERATION else toyOrchestrator STITCHING)
                     (delete_selector (toyDeleteInput ''pong'' None)) None False baseSchema
                     before after (delete_force (toyDeleteInput ''pong'' None) = Some True)
                     (toyProject STITCHING False)) = Inr result
           \<and> Deletion
                \<lparr> delete_conclusion = Reject, delete_isComposable = True,
                  delete_hasBreakingChanges = True,
                  delete_errors = [\<lparr> message = ''Breaking Change: Schema changed'', path = None \<rparr>],
                  delete_service = toyPongModified, delete_baseSchema = None \<rparr>
               = Deletion (deletion (toyDeleteInput ''pong'' None) toyPongModified baseSchema
                             result))
   \<and> snd (CompositeModel_delete toyEnv (toyStitching (Some ''!'')) (toyOrchestrator FEDERATION)
             (toyOrchestrator STITCHING) (toyDeleteInput ''pong'' (Some True))
             (toyProject STITCHING False) [toyPing, toyPongModified])
       = Inl (Thrown GraphQLErrorC ''Syntax Error'')
   \<and> (\<exists>baseSchema before after.
         snd (fetchBaseSchema (toyStitching (Some ''!'')) (toyProject STITCHING False))
           = Inr baseSchema
           \<and> mapM (createSchemaObject toyEnv) (liveServices [toyPing, toyPongModified])
               = Inr before
           \<and> mapM (createSchemaObject toyEnv) (remaining toyPongModified [toyPing, toyPongModified])
               = Inr after
           \<and> snd (SchemaValidator_validate toyEnv
                     (if project_type (toyProject STITCHING False) = FEDERATION
                      then toyOrchestrator FEDERATION else toyOrchestrator STITCHING)
                     (delete_selector (toyDeleteInput ''pong'' (Some True))) None False
                     baseSchema before after
                     (delete_force (toyDeleteInput ''pong'' (Some True)) = Some True)
                     (toyProject STITCHING False))
               = Inl (Thrown GraphQLErrorC ''Syntax Error''))"
proof -
  let ?project = "toyProject STITCHING False"
  let ?live = "[toyPing, toyPongModified]"
  let ?out = "Deletion
                \<lparr> delete_conclusion = Reject, delete_isComposable = True,
                  delete_hasBreakingChanges = True,
                  delete_errors = [\<lparr> message = ''Breaking Change: Schema changed'', path = None \<rparr>],
                  delete_service = toyPongModified, delete_baseSchema = None \<rparr>"
  let ?error = "Thrown GraphQLErrorC ''Syntax Error''"
  have missing: "\<not> list_ex (liveService (delete_serviceName (toyDeleteInput ''pang'' None))) ?live"
    by code_simp
  have present: "list_ex (liveService (delete_serviceName (toyDeleteInput ''pong'' None))) ?live"
    by code_simp
  have first: "find (liveService (delete_serviceName (toyDeleteInput ''pong'' None))) ?live
                 = Some toyPongModified"
    by code_simp
  have forced: "find (liveService (delete_serviceName (toyDeleteInput ''pong'' (Some True)))) ?live
                  = Some toyPongModified"
    by code_simp
  have modified: "schema_action toyPongModified = MODIFY"
    by code_simp
  have ids: "distinct (map schema_id (liveServices ?live))"
    by code_simp
  have run: "snd (CompositeModel_delete toyEnv (toyStitching None) (toyOrchestrator FEDERATION)
                    (toyOrchestrator STITCHING) (toyDeleteInput ''pong'' None) ?project ?live)
               = Inr ?out"
    by code_simp
  have failed: "snd (CompositeModel_delete toyEnv (toyStitching (Some ''!''))
                       (toyOrchestrator FEDERATION) (toyOrchestrator STITCHING)
                       (toyDeleteInput ''pong'' (Some True)) ?project ?live)
                  = Inl ?error"
    by code_simp
  have loaded: "snd (fetchBaseSchema (toyStitching (Some ''!'')) ?project) = Inr (Some ''!'')"
    by code_simp
  have before: "\<not> isl (mapM (createSchemaObject toyEnv) (liveServices ?live))"
    by code_simp
  have after: "\<not> isl (mapM (createSchemaObject toyEnv) (remaining toyPongModified ?live))"
    by code_simp
  note absent = composite_delete_conclusion [of "toyDeleteInput ''pang'' None" ?live toyEnv
      "toyStitching None" "toyOrchestrator FEDERATION" "toyOrchestrator STITCHING" ?project
      toyPongModified ?out ?error]
  note deleted = composite_delete_conclusion [of "toyDeleteInput ''pong'' None" ?live toyEnv
      "toyStitching None" "toyOrchestrator FEDERATION" "toyOrchestrator STITCHING" ?project
      toyPongModified ?out ?error]
  note thrown = composite_delete_conclusion [of "toyDeleteInput ''pong'' (Some True)" ?live
      toyEnv "toyStitching (Some ''!'')" "toyOrchestrator FEDERATION"
      "toyOrchestrator STITCHING" ?project toyPongModified ?out ?error]
  have r1: "CompositeModel_delete toyEnv (toyStitching None) (toyOrchestrator FEDERATION)
              (toyOrchestrator STITCHING) (toyDeleteInput ''pang'' None) ?project ?live
            = ([], Inr (ServiceNotFound Reject
                          [serviceNotFound (delete_serviceName (toyDeleteInput ''pang'' None))]))"
    using absent missing by blast
  have r2: "remaining toyPongModified ?live = remove1 toyPongModified (liveServices ?live)"
    using deleted first ids by blast
  have r3: "\<exists>baseSchema before after result.
         snd (fetchBaseSchema (toyStitching None) ?project) = Inr baseSchema
           \<and> mapM (createSchemaObject toyEnv) (liveServices ?live) = Inr before
           \<and> mapM (createSchemaObject toyEnv) (remaining toyPongModified ?live) = Inr after
           \<and> snd (SchemaValidator_validate toyEnv
                     (if project_type ?project = FEDERATION
                      then toyOrchestrator FEDERATION else toyOrchestrator STITCHING)
                     (delete_selector (toyDeleteInput ''pong'' None)) None False baseSchema
                     before after (delete_force (toyDeleteInput ''pong'' None) = Some True)
                     ?project) = Inr result
           \<and> ?out = Deletion (deletion (toyDeleteInput ''pong'' None) toyPongModified baseSchema
                                result)"
    using deleted first run by blast
  have "snd (fetchBaseSchema (toyStitching (Some ''!'')) ?project) = Inl ?error
          \<or> (\<exists>baseSchema. snd (fetchBaseSchema (toyStitching (Some ''!'')) ?project)
                              = Inr baseSchema
                \<and> (mapM (createSchemaObject toyEnv) (liveServices ?live) = Inl ?error
                     \<or> (\<exists>before.
                           mapM (createSchemaObject toyEnv) (liveServices ?live) = Inr before
                           \<and> (mapM (createSchemaObject toyEnv) (remaining toyPongModified ?live)
                                = Inl ?error
                                \<or> (\<exists>after.
                                      mapM (createSchemaObject toyEnv)
                                        (remaining toyPongModified ?live) = Inr after
                                      \<and> snd (SchemaValidator_validate toyEnv
                                                (if project_type ?project = FEDERATION
                                                 then toyOrchestrator FEDERATION
                                                 else toyOrchestrator STITCHING)
                                                (delete_selector
                                                   (toyDeleteInput ''pong'' (Some True)))
                                                None False baseSchema before after
                                                (delete_force
                                                   (toyDeleteInput ''pong'' (Some True))
                                                 = Some True)
                                                ?project) = Inl ?error)))))"
    using thrown forced failed by blast
  then have r4: "\<exists>baseSchema before after.
         snd (fetchBaseSchema (toyStitching (Some ''!'')) ?project) = Inr baseSchema
           \<and> mapM (createSchemaObject toyEnv) (liveServices ?live) = Inr before
           \<and> mapM (createSchemaObject toyEnv) (remaining toyPongModified ?live) = Inr after
           \<and> snd (SchemaValidator_validate toyEnv
                     (if project_type ?project = FEDERATION
                      then toyOrchestrator FEDERATION else toyOrchestrator STITCHING)
                     (delete_selector (toyDeleteInput ''pong'' (Some True))) None False
                     baseSchema before after
                     (delete_force (toyDeleteInput ''pong'' (Some True)) = Some True)
                     ?project) = Inl ?error"
    using loaded before after by (metis isl_def sum.distinct(1))
  show ?thesis
    using missing present first modified ids r1 r2 r3 failed r4 by blast
qed

text \<open>
  The claim as it was stated fails for a call whose validation does not return: on a
  stitching project whose base schema does not parse, the forced delete of a live
  service has no conclusion; it fails with the \<open>GraphQLError\<close> of the base schema.
\<close>

theorem composite_delete_counterexample:
  "list_ex (liveService (delete_serviceName (toyDeleteInput ''ping'' (Some True))))
     [toyPing, toyPongModified]
   \<and> delete_force (toyDeleteInput ''ping'' (Some True)) = Some True
   \<and> CompositeModel_delete toyEnv (toyStitching (Some ''!'')) (toyOrchestrator FEDERATION)
         (toyOrchestrator STITCHING) (toyDeleteInput ''ping'' (Some True))
         (toyProject STITCHING False) [toyPing, toyPongModified]
       = ([], Inl (Thrown GraphQLErrorC ''Syntax Error''))"
proof -
  have run: "CompositeModel_delete toyEnv (toyStitching (Some ''!'')) (toyOrchestrator FEDERATION)
               (toyOrchestrator STITCHING) (toyDeleteInput ''ping'' (Some True))
               (toyProject STITCHING False) [toyPing, toyPongModified]
             = ([], Inl (Thrown GraphQLErrorC ''Syntax Error''))"
    by code_simp
  have "list_ex (liveService (delete_serviceName (toyDeleteInput ''ping'' (Some True))))
          [toyPing, toyPongModified]"
    and "delete_force (toyDeleteInput ''ping'' (Some True)) = Some True"
    by code_simp+
  then show ?thesis
    using run by simp
qed

section \<open>What a check does outside\<close>

lemma quiet_effects [simp]:
  "fst (fetchBaseSchema W proj) = []"
  "fst (SchemaManager_getBaseSchema W) = []"
  "fst (SchemaManager_getLatestSchemas W) = []"
  by (auto simp: fetchBaseSchema_def SchemaManager_getBaseSchema_def
      SchemaManager_getLatestSchemas_def fst_io_bind split: sum.splits)

lemma compareSchemas_effects:
  "list_all checkEffect
     (fst (compareSchemas E orchestrator selector before after accept proj compositionErrors))"
  unfolding compareSchemas_def
  by (intro effects_io_bind effects_Promise_all2)
     (auto simp: fst_io_bind split: option.splits sum.splits prod.splits)

lemma validate_effects:
  "list_all checkEffect
     (fst (SchemaValidator_validate E orchestrator selector compare initial baseSchema
             before after accept proj))"
proof -
  have compared: "list_all checkEffect
      (fst (try_catch
              (compareSchemas E orchestrator selector before after accept proj compositionErrors)
              h))"
    if "\<And>e. fst (h e) = []" for compositionErrors h
    by (intro effects_try_catch compareSchemas_effects) (simp add: that)
  show ?thesis
    unfolding SchemaValidator_validate_def
    by (intro effects_io_bind) (auto intro!: effects_io_bind compared split: prod.splits)
qed

lemma composite_check_effects:
  "list_all checkEffect
     (fst (CompositeModel_check E W federation stitching input accept proj currentSchemas))"
  unfolding CompositeModel_check_def Let_def
  by (intro effects_io_bind) (auto intro!: effects_io_bind validate_effects split: prod.splits)

lemma single_check_effects:
  "list_all checkEffect (fst (SingleModel_check E W single input proj currentSchemas accept))"
  unfolding SingleModel_check_def Let_def
  by (intro effects_io_bind) (auto intro!: effects_io_bind validate_effects)

lemma dispatchCheck_effects:
  "list_all checkEffect
     (fst (dispatchCheck E W federation stitching single input proj currentSchemas))"
  unfolding dispatchCheck_def
  by (auto intro!: effects_io_bind composite_check_effects single_check_effects)

lemma respondToCheck_effects:
  "list_all checkEffect (fst (respondToCheck E W input proj result initial))"
  unfolding respondToCheck_def Let_def
  by (auto intro!: effects_try_catch effects_io_bind split: option.splits)

lemma check_effects:
  "list_all checkEffect (fst (SchemaPublisher_check E W federation stitching single input))"
  unfolding SchemaPublisher_check_def
  by (intro effects_io_bind effects_Promise_all2)
     (auto simp: SchemaManager_completeGetStartedCheck_def
           intro!: effects_io_bind dispatchCheck_effects respondToCheck_effects
           split: prod.splits)

lemma checkEffect_kinds:
  "checkEffect eff \<Longrightarrow> \<not> isVersionWrite eff \<and> \<not> isCdnPublish eff \<and> \<not> isIdempotentRun eff"
  by (cases eff) auto

lemma check_completes_step:
  assumes "ensureTargetAccess W REGISTRY_READ = Inr ()"
    and "getProject W = Inr proj"
    and "storage_getLatestSchemas W = Inr latest"
  shows "\<exists>rest. fst (SchemaPublisher_check E W federation stitching single input)
           = StorageCompleteGetStartedStep (orgId proj) checkingSchema # rest"
proof -
  have loaded: "Promise_all2 (leftSettlesFirst E) (lift (getProject W))
                  (SchemaManager_getLatestSchemas W) = ([], Inr (proj, latest))"
    using assms
    by (simp add: Promise_all2_def SchemaManager_getLatestSchemas_def lift_def io_bind_def)
  show ?thesis
    using assms(1) loaded
    by (simp add: SchemaPublisher_check_def fst_io_bind
        SchemaManager_completeGetStartedCheck_def)
qed

text \<open>
  Claim C7, amended. Whatever its outcome, \<open>SchemaPublisher.check\<close> creates or deletes
  no version, publishes nothing to the CDN and acquires no idempotency key: all it
  does outside is call an orchestrator, complete the \<open>checkingSchema\<close> get-started
  step of the organization, and create a GitHub check-run. It does write to the
  storage: once the access is granted and the project and the latest schemas are
  loaded, its first effect is \<open>storage.completeGetStartedStep\<close> for the step
  \<open>checkingSchema\<close>.
\<close>

theorem check_writes_no_version:
  "list_all checkEffect (fst (SchemaPublisher_check E W federation stitching single input))
   \<and> \<not> list_ex isVersionWrite (fst (SchemaPublisher_check E W federation stitching single input))
   \<and> \<not> list_ex isCdnPublish (fst (SchemaPublisher_check E W federation stitching single input))
   \<and> \<not> list_ex isIdempotentRun (fst (SchemaPublisher_check E W federation stitching single input))
   \<and> (ensureTargetAccess W REGISTRY_READ = Inr () \<and> getProject W = Inr proj
         \<and> storage_getLatestSchemas W = Inr latest \<longrightarrow>
       (\<exists>rest. fst (SchemaPublisher_check E W federation stitching single input)
          = StorageCompleteGetStartedStep (orgId proj) checkingSchema # rest))"
proof -
  let ?effects = "fst (SchemaPublisher_check E W federation stitching single input)"
  have allowed: "list_all checkEffect ?effects"
    by (rule check_effects)
  then have each: "\<forall>eff \<in> set ?effects.
      \<not> isVersionWrite eff \<and> \<not> isCdnPublish eff \<and> \<not> isIdempotentRun eff"
    using checkEffect_kinds by (auto simp: list_all_iff)
  have "\<not> list_ex isVersionWrite ?effects" "\<not> list_ex isCdnPublish ?effects"
    "\<not> list_ex isIdempotentRun ?effects"
    using each by (auto simp: list_ex_iff)
  then show ?thesis
    using allowed check_completes_step [of W proj latest E federation stitching single input]
    by blast
qed

theorem check_writes_no_version_witness:
  "ensureTargetAccess (toyWorld (toyProject FEDERATION False) [toyPing] (Some ''v1'') None)
       REGISTRY_READ = Inr ()
   \<and> getProject (toyWorld (toyProject FEDERATION False) [toyPing] (Some ''v1'') None)
       = Inr (toyProject FEDERATION False)
   \<and> storage_getLatestSchemas (toyWorld (toyProject FEDERATION False) [toyPing] (Some ''v1'') None)
       = Inr ([toyPing], Some ''v1'')
   \<and> list_all checkEffect
        (fst (SchemaPublisher_check toyEnv
                (toyWorld (toyProject FEDERATION False) [toyPing] (Some ''v1'') None)
                (toyOrchestrator FEDERATION) (toyOrchestrator STITCHING) (toyOrchestrator SINGLE)
                (toyCheckInput (Some ''pong'') ''type Pong'')))
   \<and> \<not> list_ex isVersionWrite
        (fst (SchemaPublisher_check toyEnv
                (toyWorld (toyProject FEDERATION False) [toyPing] (Some ''v1'') None)
                (toyOrchestrator FEDERATION) (toyOrchestrator STITCHING) (toyOrchestrator SINGLE)
                (toyCheckInput (Some ''pong'') ''type Pong'')))
   \<and> (\<exists>rest. fst (SchemaPublisher_check toyEnv
                (toyWorld (toyProject FEDERATION False) [toyPing] (Some ''v1'') None)
                (toyOrchestrator FEDERATION) (toyOrchestrator STITCHING) (toyOrchestrator SINGLE)
                (toyCheckInput (Some ''pong'') ''type Pong''))
          = StorageCompleteGetStartedStep (orgId (toyProject FEDERATION False)) checkingSchema
              # rest)"
proof -
  let ?W = "toyWorld (toyProject FEDERATION False) [toyPing] (Some ''v1'') None"
  have granted: "ensureTargetAccess ?W REGISTRY_READ = Inr ()"
    and loaded: "getProject ?W = Inr (toyProject FEDERATION False)"
    and latest: "storage_getLatestSchemas ?W = Inr ([toyPing], Some ''v1'')"
    by (simp_all add: toyWorld_def)
  show ?thesis
    using granted loaded latest
      check_writes_no_version [of toyEnv ?W "toyOrchestrator FEDERATION"
        "toyOrchestrator STITCHING" "toyOrchestrator SINGLE"
        "toyCheckInput (Some ''pong'') ''type Pong''" "toyProject FEDERATION False"
        "([toyPing], Some ''v1'')"]
    by blast
qed

text \<open>
  The claim as it was stated fails: a check of a new service against a federation
  project with one live service writes to the storage, before and besides its three
  calls of the orchestrator.
\<close>

theorem check_read_only_counterexample:
  "fst (SchemaPublisher_check toyEnv
          (toyWorld (toyProject FEDERATION False) [toyPing] (Some ''v1'') None)
          (toyOrchestrator FEDERATION) (toyOrchestrator STITCHING) (toyOrchestrator SINGLE)
          (toyCheckInput (Some ''pong'') ''type Pong''))
     = [StorageCompleteGetStartedStep ''o1'' checkingSchema,
        OrchestratorCall FEDERATION Validate
          [toyObject ''ping'' ''type Ping'' \<lparr> url := Some ''https://ping.com'' \<rparr>,
           toyObject ''pong'' ''type Pong'' \<lparr> url := Some ''temp'' \<rparr>],
        OrchestratorCall FEDERATION Build
          [toyObject ''ping'' ''type Ping'' \<lparr> url := Some ''https://ping.com'' \<rparr>],
        OrchestratorCall FEDERATION Build
          [toyObject ''ping'' ''type Ping'' \<lparr> url := Some ''https://ping.com'' \<rparr>,
           toyObject ''pong'' ''type Pong'' \<lparr> url := Some ''temp'' \<rparr>]]
   \<and> list_ex isStorageWrite
        (fst (SchemaPublisher_check toyEnv
                (toyWorld (toyProject FEDERATION False) [toyPing] (Some ''v1'') None)
                (toyOrchestrator FEDERATION) (toyOrchestrator STITCHING) (toyOrchestrator SINGLE)
                (toyCheckInput (Some ''pong'') ''type Pong'')))
   \<and> \<not> readOnly
        (fst (SchemaPublisher_check toyEnv
                (toyWorld (toyProject FEDERATION False) [toyPing] (Some ''v1'') None)
                (toyOrchestrator FEDERATION) (toyOrchestrator STITCHING) (toyOrchestrator SINGLE)
                (toyCheckInput (Some ''pong'') ''type Pong'')))"
  by code_simp

section \<open>A publish that modifies nothing\<close>



lemma set_insert_sorted: "set (insert_sorted cmp x ys) = insert x (set ys)"
  by (induction ys) auto

lemma set_sort_with: "set (sort_with cmp xs) = set xs"
  unfolding sort_with_def by (induction xs) (simp_all add: set_insert_sorted)



lemma mapM_self:
  "mapM f xs = Inr ys \<Longrightarrow> (\<And>x y. f x = Inr y \<Longrightarrow> y = x \<and> P x) \<Longrightarrow> ys = xs \<and> (\<forall>x \<in> set xs. P x)"
proof (induction xs arbitrary: ys)
  case Nil
  then show ?case by simp
next
  case (Cons x xs)
  from Cons.prems(1) obtain y zs where parts: "f x = Inr y" "mapM f xs = Inr zs" "ys = y # zs"
    by (auto split: sum.splits)
  from Cons.IH [OF parts(2) Cons.prems(2)] Cons.prems(2) [OF parts(1)] parts(3)
  show ?case by simp
qed

lemma ensureCompositeSchemas_Inr:
  assumes "ensureCompositeSchemas E schemas = Inr parsed"
  shows "parsed = schemas"
    and "\<forall>s \<in> set schemas. isAddedOrModified s \<and> sdl s \<noteq> None \<and> service_name s \<noteq> None"
proof -
  have each: "y = x \<and> isAddedOrModified x \<and> sdl x \<noteq> None \<and> service_name x \<noteq> None"
    if "CompositeSchemaModel_parse E x = Inr y" for x y
    using that
    by (cases "schema_action x")
       (simp_all add: CompositeSchemaModel_parse_def isAddedOrModified_def isAdded_def
          isModified_def split: if_splits)
  have parsed: "mapM (CompositeSchemaModel_parse E) schemas = Inr parsed"
    using assms by (simp add: ensureCompositeSchemas_def)
  from mapM_self [OF parsed each]
  show "parsed = schemas"
    and "\<forall>s \<in> set schemas. isAddedOrModified s \<and> sdl s \<noteq> None \<and> service_name s \<noteq> None"
    by blast+
qed


lemma createChecksum_Inr:
  "(\<exists>c. createChecksum E s = Inr c) \<longleftrightarrow> (\<exists>obj. createSchemaObject E s = Inr obj)"
  by (auto simp: createChecksum_def split: sum.splits)

lemma createSchemaObject_sdl:
  "sdl a = sdl b \<Longrightarrow> createSchemaObject E a = Inr x \<Longrightarrow> \<exists>y. createSchemaObject E b = Inr y"
  by (auto simp: createSchemaObject_def split: option.splits sum.splits)

lemma joinedChecksums_Inr:
  assumes "\<forall>s \<in> set schemas. \<exists>obj. createSchemaObject E s = Inr obj"
  shows "\<exists>c. joinedChecksums E schemas = Inr c"
proof -
  have "\<forall>s \<in> set (sortSchemas E schemas). \<exists>c. createChecksum E s = Inr c"
    using assms by (simp add: sortSchemas_def set_sort_with createChecksum_Inr)
  then obtain cs where "mapM (createChecksum E) (sortSchemas E schemas) = Inr cs"
    using mapM_Inr_iff [of "createChecksum E" "sortSchemas E schemas"] by blast
  then show ?thesis by (simp add: joinedChecksums_def)
qed


lemma composite_check_Inr:
  assumes "snd (CompositeModel_check E W federation stitching input accept proj currentSchemas)
             = Inr chk"
  shows "\<exists>baseSchema before after incomingObject existingObject.
           ensureCompositeSchemas E currentSchemas = Inr currentSchemas
         \<and> snd (fetchBaseSchema W proj) = Inr baseSchema
         \<and> mapM (createSchemaObject E) (filter isAddedOrModified currentSchemas) = Inr before
         \<and> mapM (createSchemaObject E)
              (filter isAddedOrModified
                 (fst (swapServices currentSchemas (checkIncoming E input currentSchemas))))
             = Inr after
         \<and> createSchemaObject E (checkIncoming E input currentSchemas) = Inr incomingObject
         \<and> (case snd (swapServices currentSchemas (checkIncoming E input currentSchemas)) of
               None \<Rightarrow> Inr None
             | Some ex \<Rightarrow> map_sum (\<lambda>e. e) Some (createSchemaObject E ex)) = Inr existingObject
         \<and> snd (SchemaValidator_validate E
                   (if project_type proj = FEDERATION then federation else stitching)
                   (check_selector input)
                   (Some \<lparr> incoming = incomingObject, existing = existingObject \<rparr>)
                   (currentSchemas = []) baseSchema before after accept proj)
             = Inr (validationResult chk)
         \<and> chk = \<lparr> validationResult = validationResult chk,
                   isInitial = (currentSchemas = []),
                   previousService =
                     snd (swapServices currentSchemas (checkIncoming E input currentSchemas)),
                   schemaObjects_before = before, schemaObjects_after = after,
                   schemas_before = currentSchemas,
                   schemas_after =
                     fst (swapServices currentSchemas (checkIncoming E input currentSchemas)) \<rparr>"
proof -
  from assms obtain schemas where
    parsed: "ensureCompositeSchemas E currentSchemas = Inr schemas"
    by (auto simp: CompositeModel_check_def Let_def snd_io_bind_Inr)
  then have same: "schemas = currentSchemas"
    by (rule ensureCompositeSchemas_Inr(1))
  show ?thesis
    using assms parsed
    unfolding same
    by (cases "swapServices currentSchemas (checkIncoming E input currentSchemas)")
       (auto simp: CompositeModel_check_def Let_def snd_io_bind_Inr)
qed

lemma swapServices_members:
  "set (fst (swapServices schemas newSchema)) \<subseteq> insert newSchema (set schemas)"
  by (auto simp: swapServices_def Let_def)

lemma withIncoming_members:
  "set (withIncoming incomingSchema schemas) \<subseteq> insert incomingSchema (set schemas)"
  by (auto simp: withIncoming_def)


lemma composite_check_objects:
  assumes "snd (CompositeModel_check E W federation stitching input accept proj currentSchemas)
             = Inr chk"
  shows "\<forall>s \<in> set (schemas_before chk). \<exists>obj. createSchemaObject E s = Inr obj"
    and "\<forall>s \<in> set (schemas_after chk). \<exists>obj. createSchemaObject E s = Inr obj"
    and "\<forall>s \<in> set (schemas_before chk). isAddedOrModified s"
    and "\<forall>s \<in> set (schemas_after chk). isAddedOrModified s"
    and "\<exists>obj. createSchemaObject E (checkIncoming E input currentSchemas) = Inr obj"
proof -
  let ?incoming = "checkIncoming E input currentSchemas"
  let ?after = "fst (swapServices currentSchemas ?incoming)"
  from composite_check_Inr [OF assms] obtain before after incomingObject where
    parsed: "ensureCompositeSchemas E currentSchemas = Inr currentSchemas"
    and before: "mapM (createSchemaObject E) (filter isAddedOrModified currentSchemas) = Inr before"
    and after: "mapM (createSchemaObject E) (filter isAddedOrModified ?after) = Inr after"
    and incoming: "createSchemaObject E ?incoming = Inr incomingObject"
    and sb: "schemas_before chk = currentSchemas"
    and sa: "schemas_after chk = ?after"
    by (metis CompositeCheck.select_convs(6,7))
  have live: "\<forall>s \<in> set currentSchemas. isAddedOrModified s"
    using ensureCompositeSchemas_Inr(2) [OF parsed] by blast
  have "isAddedOrModified ?incoming"
    by (simp add: checkIncoming_def isAddedOrModified_def isAdded_def isModified_def)
  then have next_live: "\<forall>s \<in> set ?after. isAddedOrModified s"
    using live swapServices_members [of currentSchemas ?incoming] by blast
  have "filter isAddedOrModified currentSchemas = currentSchemas"
    using live by (simp add: filter_True)
  then show "\<forall>s \<in> set (schemas_before chk). \<exists>obj. createSchemaObject E s = Inr obj"
    using before mapM_Inr_iff [of "createSchemaObject E" currentSchemas] sb by auto
  have "filter isAddedOrModified ?after = ?after"
    using next_live by (simp add: filter_True)
  then show "\<forall>s \<in> set (schemas_after chk). \<exists>obj. createSchemaObject E s = Inr obj"
    using after mapM_Inr_iff [of "createSchemaObject E" ?after] sa by auto
  show "\<forall>s \<in> set (schemas_before chk). isAddedOrModified s"
    using live sb by simp
  show "\<forall>s \<in> set (schemas_after chk). isAddedOrModified s"
    using next_live sa by simp
  show "\<exists>obj. createSchemaObject E ?incoming = Inr obj"
    using incoming by blast
qed


lemma single_check_Inr:
  assumes "snd (SingleModel_check E W single input proj currentSchemas accept) = Inr chk"
    and "\<not> single_isInitial chk"
  shows "\<exists>ex. single_schema_before chk = Some ex \<and> currentSchemas = [ex]
           \<and> (\<exists>obj. createSchemaObject E ex = Inr obj)"
    and "\<exists>obj. createSchemaObject E
                 \<lparr> schema_id = temp E, author = temp E, date = now E, commit = temp E,
                   schema_target = target (check_selector input), sdl = Some (check_sdl input),
                   service_name = None, service_url = None, schema_action = NA,
                   metadata = None \<rparr> = Inr obj"
proof -
  from assms obtain existingSchema existingObject incomingObject where
    one: "\<not> length currentSchemas > 1"
    and ex: "(case currentSchemas of
                [s] \<Rightarrow> map_sum (\<lambda>e. e) Some (ensureSchemaWithSDL s)
              | _ \<Rightarrow> Inr None) = Inr existingSchema"
    and obj: "(case existingSchema of
                 None \<Rightarrow> Inr None
               | Some ex \<Rightarrow>
                   (case SingleSchemaModel_parse E ex of
                      Inl e \<Rightarrow> Inl e
                    | Inr parsed \<Rightarrow> map_sum (\<lambda>e. e) Some (createSchemaObject E parsed)))
              = Inr existingObject"
    and inc: "createSchemaObject E
                 \<lparr> schema_id = temp E, author = temp E, date = now E, commit = temp E,
                   schema_target = target (check_selector input), sdl = Some (check_sdl input),
                   service_name = None, service_url = None, schema_action = NA,
                   metadata = None \<rparr> = Inr incomingObject"
    and before: "single_schema_before chk = existingSchema"
    and initial: "single_isInitial chk = (existingSchema = None)"
    by (auto simp: SingleModel_check_def Let_def snd_io_bind_Inr split: if_splits)
  from assms(2) initial obtain s where s: "existingSchema = Some s"
    by auto
  have only: "currentSchemas = [s]"
    using ex s
    by (cases currentSchemas; cases "tl currentSchemas")
       (auto simp: ensureSchemaWithSDL_def split: if_splits)
  obtain parsed parsedObject where
    "SingleSchemaModel_parse E s = Inr parsed" "createSchemaObject E parsed = Inr parsedObject"
    using obj s by (cases "SingleSchemaModel_parse E s"; cases "createSchemaObject E (projr (SingleSchemaModel_parse E s))") auto
  moreover from this(1) have "sdl parsed = sdl s"
    by (auto simp: SingleSchemaModel_parse_def split: if_splits)
  ultimately have "\<exists>obj. createSchemaObject E s = Inr obj"
    using createSchemaObject_sdl by blast
  then show "\<exists>ex. single_schema_before chk = Some ex \<and> currentSchemas = [ex]
               \<and> (\<exists>obj. createSchemaObject E ex = Inr obj)"
    using before s only by simp
  show "\<exists>obj. createSchemaObject E
                 \<lparr> schema_id = temp E, author = temp E, date = now E, commit = temp E,
                   schema_target = target (check_selector input), sdl = Some (check_sdl input),
                   service_name = None, service_url = None, schema_action = NA,
                   metadata = None \<rparr> = Inr obj"
    using inc by blast
qed


section \<open>The conclusion of a publish\<close>

lemma cdnBundle_returns:
  "snd (cdnBundle orchestrator proj after objs) = Inr b \<Longrightarrow> b \<noteq> None"
  by (auto simp: cdnBundle_def snd_io_bind split: sum.splits if_splits)

lemma composite_conclude_conclusion:
  assumes "snd (CompositeModel_conclude orchestrator input proj chk incomingSchema before after
                  objs newUrl) = Inr r"
  shows "\<exists>d. r = Decision d
           \<and> conclusion d = specConclusion proj input (validationResult chk)"
proof (cases "isUsingLegacyRegistryModel proj")
  case True
  then obtain uploaded where
    "r = Decision
           \<lparr> typename = typename_of (legacyConclusion (validationResult chk) (input_force input = Some True)),
             conclusion = legacyConclusion (validationResult chk) (input_force input = Some True),
             decision_isComposable =
               (isComposable (validationResult chk) \<and> \<not> hasBreakingChanges (validationResult chk)),
             decision_changes = changes (validationResult chk),
             decision_errors = errors (validationResult chk),
             updates = urlUpdates newUrl (previousService chk) incomingSchema,
             decision_schema_before = previousService chk,
             decision_schema_after = incomingSchema,
             decision_schemas_before = filter isAddedOrModified before,
             decision_schemas_after = filter isAddedOrModified after,
             cdn = uploaded, decision_isInitial = isInitial chk \<rparr>"
    using assms
    by (simp add: CompositeModel_conclude_def Let_def legacyConclusion_def snd_io_bind_Inr) blast
  then show ?thesis
    using True by (simp add: specConclusion_def)
next
  case False
  then obtain uploaded where
    "r = Decision
           \<lparr> typename = typename_of (modernConclusion (validationResult chk)),
             conclusion = modernConclusion (validationResult chk),
             decision_isComposable = isComposable (validationResult chk),
             decision_changes = changes (validationResult chk),
             decision_errors = errors (validationResult chk),
             updates = urlUpdates newUrl (previousService chk) incomingSchema,
             decision_schema_before = previousService chk,
             decision_schema_after = incomingSchema,
             decision_schemas_before = filter isAddedOrModified before,
             decision_schemas_after = filter isAddedOrModified after,
             cdn = uploaded, decision_isInitial = isInitial chk \<rparr>"
    using assms
    by (simp add: CompositeModel_conclude_def Let_def modernConclusion_def snd_io_bind_Inr) blast
  then show ?thesis
    using False by (simp add: specConclusion_def)
qed

lemma composite_decide_conclusion:
  assumes "snd (CompositeModel_decide E orchestrator input proj version chk incomingSchema)
             = Inr (Decision d)"
  shows "conclusion d = specConclusion proj input (validationResult chk)"
  using assms
  by (auto simp: CompositeModel_decide_def Let_def snd_io_bind_Inr split: if_splits
      dest!: composite_conclude_conclusion)

lemma composite_publish_conclusion:
  assumes "snd (CompositeModel_publish E W federation stitching input proj tgt currentSchemas version)
             = Inr (Decision d)"
  shows "\<exists>chk. snd (CompositeModel_publishCheck E W federation stitching input proj currentSchemas)
                  = Inr chk
             \<and> conclusion d = specConclusion proj input (validationResult chk)"
  using assms
  by (auto simp: CompositeModel_publish_def snd_io_bind_Inr split: if_splits
      dest: composite_decide_conclusion)

lemma single_conclude_conclusion:
  assumes "snd (SingleModel_conclude input proj chk incomingSchema) = Inr r"
  shows "\<exists>d. r = Decision d
           \<and> conclusion d = specConclusion proj input (single_validationResult chk)"
proof (cases "isUsingLegacyRegistryModel proj")
  case True
  then have "r = Decision
           \<lparr> typename = typename_of (legacyConclusion (single_validationResult chk) (input_force input = Some True)),
             conclusion = legacyConclusion (single_validationResult chk) (input_force input = Some True),
             decision_isComposable =
               (isComposable (single_validationResult chk)
                  \<and> \<not> hasBreakingChanges (single_validationResult chk)),
             decision_changes = changes (single_validationResult chk),
             decision_errors = errors (single_validationResult chk),
             updates = [], decision_schema_before = single_schema_before chk,
             decision_schema_after = incomingSchema,
             decision_schemas_before =
               (case single_schema_before chk of None \<Rightarrow> [] | Some b \<Rightarrow> [b]),
             decision_schemas_after = [incomingSchema],
             cdn = (if isComposable (single_validationResult chk)
                        \<and> \<not> hasBreakingChanges (single_validationResult chk)
                    then Some ([incomingSchema], None) else None),
             decision_isInitial = single_isInitial chk \<rparr>"
    using assms
    by (simp add: SingleModel_conclude_def Let_def legacyConclusion_def)
  then show ?thesis
    using True by (simp add: specConclusion_def)
next
  case False
  then have "r = Decision
           \<lparr> typename = typename_of (modernConclusion (single_validationResult chk)),
             conclusion = modernConclusion (single_validationResult chk),
             decision_isComposable = isComposable (single_validationResult chk),
             decision_changes = changes (single_validationResult chk),
             decision_errors = errors (single_validationResult chk),
             updates = [], decision_schema_before = single_schema_before chk,
             decision_schema_after = incomingSchema,
             decision_schemas_before =
               (case single_schema_before chk of None \<Rightarrow> [] | Some b \<Rightarrow> [b]),
             decision_schemas_after = [incomingSchema],
             cdn = (if modernConclusion (single_validationResult chk) = Publish
                    then Some ([incomingSchema], None) else None),
             decision_isInitial = single_isInitial chk \<rparr>"
    using assms
    by (simp add: SingleModel_conclude_def Let_def modernConclusion_def)
  then show ?thesis
    using False by (simp add: specConclusion_def)
qed

lemma single_decide_conclusion:
  assumes "snd (SingleModel_decide E input proj version chk incomingSchema) = Inr (Decision d)"
  shows "conclusion d = specConclusion proj input (single_validationResult chk)"
  using assms
  by (auto simp: SingleModel_decide_def Let_def snd_io_bind_Inr split: if_splits
      dest!: single_conclude_conclusion)

lemma single_publish_conclusion:
  assumes "snd (SingleModel_publish E W single input proj tgt currentSchemas version)
             = Inr (Decision d)"
  shows "\<exists>chk. snd (SingleModel_publishCheck E W single input proj currentSchemas) = Inr chk
             \<and> conclusion d = specConclusion proj input (single_validationResult chk)"
  using assms
  by (auto simp: SingleModel_publish_def snd_io_bind_Inr dest: single_decide_conclusion)

section \<open>A publish that is initial or modifies something reaches a conclusion\<close>

lemma composite_decide_value:
  assumes check: "snd (CompositeModel_publishCheck E W federation stitching input proj currentSchemas)
                    = Inr chk"
    and body: "sdl incomingSchema = Some (input_sdl input)"
    and live: "isAddedOrModified incomingSchema"
  shows "CompositeModel_decide E orchestrator input proj version chk incomingSchema
           = (if \<not> compositeIsModified E version chk incomingSchema \<and> \<not> isInitial chk
              then ([], Inr neutral)
              else CompositeModel_conclude orchestrator input proj chk incomingSchema
                     (afterComparison E version (previousService chk) (schemas_before chk))
                     (afterComparison E version (previousService chk)
                        (withIncoming incomingSchema (schemas_after chk)))
                     (nextObjects E chk incomingSchema)
                     (hasNewUrl version (previousService chk) incomingSchema))"
proof -
  let ?input = "\<lparr> check_service = input_service input, check_sdl = input_sdl input,
                   check_github = None, check_selector = input_selector input \<rparr>"
  let ?after = "withIncoming incomingSchema (schemas_after chk)"
  have checked: "snd (CompositeModel_check E W federation stitching ?input
                        (acceptsBreakingChanges input proj) proj currentSchemas) = Inr chk"
    using check by (simp add: CompositeModel_publishCheck_def try_asHiveError_Inr)
  note objects = composite_check_objects [OF checked]
  have "sdl (checkIncoming E ?input currentSchemas) = sdl incomingSchema"
    by (simp add: checkIncoming_def body)
  then have incoming: "\<exists>obj. createSchemaObject E incomingSchema = Inr obj"
    using objects(5) createSchemaObject_sdl by blast
  have next_objects: "\<forall>s \<in> set ?after. \<exists>obj. createSchemaObject E s = Inr obj"
    using objects(2) incoming withIncoming_members [of incomingSchema "schemas_after chk"]
    by blast
  have next_live: "\<forall>s \<in> set ?after. isAddedOrModified s"
    using objects(4) live withIncoming_members [of incomingSchema "schemas_after chk"]
    by blast
  then have "filter isAddedOrModified ?after = ?after"
    by (simp add: filter_True)
  then obtain objs where objs:
    "mapM (createSchemaObject E) (filter isAddedOrModified ?after) = Inr objs"
    using next_objects mapM_Inr_iff [of "createSchemaObject E" ?after] by auto
  then have next_set: "nextObjects E chk incomingSchema = objs"
    by (simp add: nextObjects_def)
  obtain c where before: "joinedChecksums E (schemas_before chk) = Inr c"
    using joinedChecksums_Inr [OF objects(1)] by blast
  obtain c' where after: "joinedChecksums E ?after = Inr c'"
    using joinedChecksums_Inr [OF next_objects] by blast
  have different:
    "compositeHasDifferentChecksum E version (previousService chk) (schemas_before chk) ?after
       = ([], Inr (truthy version \<and> previousService chk \<noteq> None \<and> c \<noteq> c'))"
    using before after
    by (simp add: compositeHasDifferentChecksum_def io_bind_def lift_def ret_def)
  show ?thesis
    using objs different before after
    by (auto simp: CompositeModel_decide_def Let_def io_bind_def lift_def ret_def neutral_def
        compositeIsModified_def next_set)
qed

lemma cdnBundle_value:
  "snd (cdnBundle orchestrator proj after objs)
     = (if project_type proj = FEDERATION
        then map_sum (\<lambda>e. e) (\<lambda>sg. Some (filter isAddedOrModified after, sg))
               (supergraph orchestrator objs proj)
        else Inr (Some (filter isAddedOrModified after, None)))"
  by (cases "supergraph orchestrator objs proj")
     (simp_all add: cdnBundle_def supportsSupergraph_def snd_io_bind)

lemma composite_conclude_returns:
  assumes "\<not> (asksSupergraph proj (validationResult chk) \<and> isl (supergraph orchestrator objs proj))"
  shows "\<exists>d. snd (CompositeModel_conclude orchestrator input proj chk incomingSchema before
                     after objs newUrl) = Inr (Decision d)
            \<and> conclusion d = specConclusion proj input (validationResult chk)"
proof -
  have "\<exists>b. snd (cdnBundle orchestrator proj after objs) = Inr b"
    if "asksSupergraph proj (validationResult chk)"
    using that assms
    by (cases "supergraph orchestrator objs proj") (auto simp: cdnBundle_value asksSupergraph_def)
  then have "\<exists>r. snd (CompositeModel_conclude orchestrator input proj chk incomingSchema before
                         after objs newUrl) = Inr r"
    by (auto simp: CompositeModel_conclude_def Let_def snd_io_bind_Inr asksSupergraph_def
        cdnBundle_value)
  then show ?thesis
    using composite_conclude_conclusion by blast
qed

lemma composite_conclude_fails:
  assumes "asksSupergraph proj (validationResult chk)"
    and "supergraph orchestrator objs proj = Inl e"
  shows "snd (CompositeModel_conclude orchestrator input proj chk incomingSchema before
                after objs newUrl) = Inl e"
  using assms
  by (auto simp: CompositeModel_conclude_def Let_def snd_io_bind asksSupergraph_def
      cdnBundle_value)

lemma single_decide_value:
  assumes check: "snd (SingleModel_publishCheck E W single input proj currentSchemas) = Inr chk"
    and body: "sdl incomingSchema = Some (input_sdl input)"
  shows "SingleModel_decide E input proj version chk incomingSchema
           = (if \<not> singleIsModified E version chk incomingSchema \<and> \<not> single_isInitial chk
              then ([], Inr (neutralSingle (single_validationResult chk)))
              else SingleModel_conclude input proj chk incomingSchema)"
proof (cases "single_isInitial chk")
  case True
  let ?input = "\<lparr> check_service = None, check_sdl = input_sdl input,
                   check_github = None, check_selector = input_selector input \<rparr>"
  have checked: "snd (SingleModel_check E W single ?input proj currentSchemas
                        (acceptsBreakingChanges input proj)) = Inr chk"
    using check by (simp add: SingleModel_publishCheck_def try_asHiveError_Inr)
  then have "single_schema_before chk = None"
    using True
    by (auto simp: SingleModel_check_def Let_def snd_io_bind_Inr split: if_splits)
  then have "singleHasDifferentChecksum E version (single_schema_before chk) incomingSchema
               = ([], Inr False)"
    by (simp add: singleHasDifferentChecksum_def ret_def)
  then show ?thesis
    using True by (simp add: SingleModel_decide_def Let_def io_bind_def)
next
  case False
  let ?input = "\<lparr> check_service = None, check_sdl = input_sdl input,
                   check_github = None, check_selector = input_selector input \<rparr>"
  have checked: "snd (SingleModel_check E W single ?input proj currentSchemas
                        (acceptsBreakingChanges input proj)) = Inr chk"
    using check by (simp add: SingleModel_publishCheck_def try_asHiveError_Inr)
  from single_check_Inr [OF checked False] obtain ex obj obj' where
    ex: "single_schema_before chk = Some ex" "createSchemaObject E ex = Inr obj"
    and inc: "createSchemaObject E
                 \<lparr> schema_id = temp E, author = temp E, date = now E, commit = temp E,
                   schema_target = target (check_selector ?input), sdl = Some (check_sdl ?input),
                   service_name = None, service_url = None, schema_action = NA,
                   metadata = None \<rparr> = Inr obj'"
    by blast
  obtain c where c: "createChecksum E ex = Inr c"
    using ex(2) createChecksum_Inr by blast
  have "\<exists>y. createSchemaObject E incomingSchema = Inr y"
    by (rule createSchemaObject_sdl [OF _ inc]) (simp add: body)
  then obtain c' where c': "createChecksum E incomingSchema = Inr c'"
    using createChecksum_Inr by blast
  have "singleHasDifferentChecksum E version (single_schema_before chk) incomingSchema
          = ([], Inr (truthy version \<and> c \<noteq> c'))"
    using ex(1) c c'
    by (simp add: singleHasDifferentChecksum_def io_bind_def lift_def ret_def)
  then show ?thesis
    using False ex(1) c c'
    by (auto simp: SingleModel_decide_def Let_def io_bind_def ret_def neutralSingle_def
        singleIsModified_def)
qed

lemma single_conclude_returns:
  "\<exists>d. snd (SingleModel_conclude input proj chk incomingSchema) = Inr (Decision d)
       \<and> conclusion d = specConclusion proj input (single_validationResult chk)"
proof -
  have "\<exists>r. snd (SingleModel_conclude input proj chk incomingSchema) = Inr r"
    by (simp add: SingleModel_conclude_def Let_def)
  then show ?thesis
    using single_conclude_conclusion by blast
qed

text \<open>
  Claim C1. A publish of the composite or of the single model that returns a decision
  (not the missing-input error, not the no-op) has run its check, and its conclusion is
  the one of the specification for the validation result of that check: on the legacy
  model \<open>Publish\<close> iff (\<open>isComposable\<close> and not \<open>hasBreakingChanges\<close>) or \<open>force\<close>, on
  the modern model \<open>Publish\<close> iff \<open>isComposable\<close>, and \<open>Reject\<close> otherwise. And the
  decision is reached: once the inputs are there, the check has returned and the
  metadata is read, a publish that is initial or modifies something returns a decision
  with that conclusion (for a federation project that updates the CDN: unless the
  orchestrator fails to give the supergraph, which is then the failure of the
  publish), and only a publish that is neither initial nor a modification returns the
  no-op.
\<close>

theorem publish_conclusion:
  "(snd (CompositeModel_publish E W federation stitching input proj tgt currentSchemas version)
      = Inr (Decision d) \<longrightarrow>
    (\<exists>chk. snd (CompositeModel_publishCheck E W federation stitching input proj currentSchemas)
              = Inr chk
         \<and> conclusion d = specConclusion proj input (validationResult chk)))
   \<and> (snd (SingleModel_publish E W single input proj tgt currentSchemas version)
         = Inr (Decision d') \<longrightarrow>
       (\<exists>chk. snd (SingleModel_publishCheck E W single input proj currentSchemas) = Inr chk
            \<and> conclusion d' = specConclusion proj input (single_validationResult chk)))
   \<and> (\<not> blank E (input_service input) \<and> \<not> (requiresServiceUrl proj \<and> blank E (input_url input))
        \<and> snd (CompositeModel_publishCheck E W federation stitching input proj currentSchemas)
            = Inr chk
        \<and> (if supportsMetadata proj then ensureJSONMetadata E (input_metadata input)
            else Inr None) = Inr meta
      \<longrightarrow> (if \<not> isInitial chk
               \<and> \<not> compositeIsModified E version chk
                     (compositeIncoming E input tgt (previousService chk) meta)
           then snd (CompositeModel_publish E W federation stitching input proj tgt
                       currentSchemas version) = Inr neutral
           else if asksSupergraph proj (validationResult chk)
                 \<and> isl (supergraph (if project_type proj = FEDERATION then federation
                                      else stitching)
                          (nextObjects E chk
                             (compositeIncoming E input tgt (previousService chk) meta)) proj)
           then snd (CompositeModel_publish E W federation stitching input proj tgt
                       currentSchemas version)
                  = Inl (projl (supergraph (if project_type proj = FEDERATION then federation
                                            else stitching)
                                  (nextObjects E chk
                                     (compositeIncoming E input tgt (previousService chk) meta))
                                  proj))
           else (\<exists>decision.
                   snd (CompositeModel_publish E W federation stitching input proj tgt
                          currentSchemas version) = Inr (Decision decision)
                     \<and> conclusion decision
                         = specConclusion proj input (validationResult chk))))
   \<and> (snd (SingleModel_publishCheck E W single input proj currentSchemas) = Inr singleChk
        \<and> ensureJSONMetadata E (input_metadata input) = Inr singleMeta
      \<longrightarrow> (if \<not> single_isInitial singleChk
               \<and> \<not> singleIsModified E version singleChk (singleIncoming E input tgt singleMeta)
           then snd (SingleModel_publish E W single input proj tgt currentSchemas version)
                  = Inr (neutralSingle (single_validationResult singleChk))
           else (\<exists>decision.
                   snd (SingleModel_publish E W single input proj tgt currentSchemas version)
                     = Inr (Decision decision)
                     \<and> conclusion decision
                         = specConclusion proj input (single_validationResult singleChk))))"
proof (intro conjI impI; (elim conjE)?)
  show "\<exists>chk. snd (CompositeModel_publishCheck E W federation stitching input proj currentSchemas)
                 = Inr chk
            \<and> conclusion d = specConclusion proj input (validationResult chk)"
    if "snd (CompositeModel_publish E W federation stitching input proj tgt currentSchemas version)
          = Inr (Decision d)"
    using that by (rule composite_publish_conclusion)
  show "\<exists>chk. snd (SingleModel_publishCheck E W single input proj currentSchemas) = Inr chk
            \<and> conclusion d' = specConclusion proj input (single_validationResult chk)"
    if "snd (SingleModel_publish E W single input proj tgt currentSchemas version)
          = Inr (Decision d')"
    using that by (rule single_publish_conclusion)
next
  let ?orchestrator = "if project_type proj = FEDERATION then federation else stitching"
  let ?incoming = "compositeIncoming E input tgt (previousService chk) meta"
  let ?publish = "CompositeModel_publish E W federation stitching input proj tgt currentSchemas
                    version"
  assume named: "\<not> blank E (input_service input)"
    and located: "\<not> (requiresServiceUrl proj \<and> blank E (input_url input))"
    and check: "snd (CompositeModel_publishCheck E W federation stitching input proj currentSchemas)
                  = Inr chk"
    and meta: "(if supportsMetadata proj then ensureJSONMetadata E (input_metadata input)
                else Inr None) = Inr meta"
  have fields: "sdl ?incoming = Some (input_sdl input)" "isAddedOrModified ?incoming"
    by (simp_all add: compositeIncoming_def isAddedOrModified_def isAdded_def isModified_def)
  have publish: "snd ?publish
                   = snd (CompositeModel_decide E ?orchestrator input proj version chk ?incoming)"
    using named located check meta
    by (auto simp: CompositeModel_publish_def snd_io_bind)
  note decide = composite_decide_value [OF check fields, of ?orchestrator version]
  show "if \<not> isInitial chk \<and> \<not> compositeIsModified E version chk ?incoming
        then snd ?publish = Inr neutral
        else if asksSupergraph proj (validationResult chk)
                  \<and> isl (supergraph ?orchestrator (nextObjects E chk ?incoming) proj)
        then snd ?publish
               = Inl (projl (supergraph ?orchestrator (nextObjects E chk ?incoming) proj))
        else (\<exists>decision. snd ?publish = Inr (Decision decision)
                \<and> conclusion decision = specConclusion proj input (validationResult chk))"
  proof (cases "\<not> isInitial chk \<and> \<not> compositeIsModified E version chk ?incoming")
    case True
    then show ?thesis
      using publish decide by simp
  next
    case False
    then have concluded: "snd ?publish
        = snd (CompositeModel_conclude ?orchestrator input proj chk ?incoming
                 (afterComparison E version (previousService chk) (schemas_before chk))
                 (afterComparison E version (previousService chk)
                    (withIncoming ?incoming (schemas_after chk)))
                 (nextObjects E chk ?incoming)
                 (hasNewUrl version (previousService chk) ?incoming))"
      using publish decide by auto
    show ?thesis
    proof (cases "asksSupergraph proj (validationResult chk)
                    \<and> isl (supergraph ?orchestrator (nextObjects E chk ?incoming) proj)")
      case True
      then obtain e where
        "supergraph ?orchestrator (nextObjects E chk ?incoming) proj = Inl e"
        by (cases "supergraph ?orchestrator (nextObjects E chk ?incoming) proj") auto
      then show ?thesis
        using True False concluded composite_conclude_fails [of proj chk ?orchestrator
            "nextObjects E chk ?incoming" e]
        by auto
    next
      case unasked: False
      from composite_conclude_returns [OF unasked] concluded
      have "\<exists>decision. snd ?publish = Inr (Decision decision)
              \<and> conclusion decision = specConclusion proj input (validationResult chk)"
        by simp
      then show ?thesis
        using False unasked by auto
    qed
  qed
next
  let ?incoming = "singleIncoming E input tgt singleMeta"
  let ?publish = "SingleModel_publish E W single input proj tgt currentSchemas version"
  assume check: "snd (SingleModel_publishCheck E W single input proj currentSchemas) = Inr singleChk"
    and meta: "ensureJSONMetadata E (input_metadata input) = Inr singleMeta"
  have body: "sdl ?incoming = Some (input_sdl input)"
    by (simp add: singleIncoming_def)
  have publish: "snd ?publish = snd (SingleModel_decide E input proj version singleChk ?incoming)"
    using check meta by (simp add: SingleModel_publish_def snd_io_bind)
  note decide = single_decide_value [OF check body, of version]
  show "if \<not> single_isInitial singleChk \<and> \<not> singleIsModified E version singleChk ?incoming
        then snd ?publish = Inr (neutralSingle (single_validationResult singleChk))
        else (\<exists>decision. snd ?publish = Inr (Decision decision)
                \<and> conclusion decision
                    = specConclusion proj input (single_validationResult singleChk))"
    using publish decide single_conclude_returns [of input proj singleChk ?incoming]
    by auto
qed

theorem publish_conclusion_witness:
  "(\<exists>chk d. \<not> blank toyEnv (input_service (toyBreaking (Some True))) \<and> \<not>
      (requiresServiceUrl (toyProject FEDERATION True) \<and> blank toyEnv (input_url
      (toyBreaking (Some True)))) \<and> snd (CompositeModel_publishCheck toyEnv toyLegacy
      (toyOrchestrator FEDERATION) (toyOrchestrator STITCHING) (toyBreaking (Some True))
      (toyProject FEDERATION True) [toyPing, toyPong]) = Inr chk \<and> (if supportsMetadata
      (toyProject FEDERATION True) then ensureJSONMetadata toyEnv (input_metadata (toyBreaking
      (Some True))) else Inr None) = Inr None \<and> \<not> (\<not> isInitial chk \<and> \<not>
      compositeIsModified toyEnv (Some ''v1'') chk (compositeIncoming toyEnv (toyBreaking (Some
      True)) toyTarget (previousService chk) None)) \<and> \<not> (asksSupergraph (toyProject
      FEDERATION True) (validationResult chk) \<and> isl (supergraph (if project_type
      (toyProject FEDERATION True) = FEDERATION then (toyOrchestrator FEDERATION) else
      (toyOrchestrator STITCHING)) (nextObjects toyEnv chk (compositeIncoming toyEnv
      (toyBreaking (Some True)) toyTarget (previousService chk) None)) (toyProject FEDERATION
      True))) \<and> specConclusion (toyProject FEDERATION True) (toyBreaking (Some True))
      (validationResult chk) = Publish \<and> hasBreakingChanges (validationResult chk) \<and>
      input_force (toyBreaking (Some True)) = Some True \<and> snd (CompositeModel_publish
      toyEnv toyLegacy (toyOrchestrator FEDERATION) (toyOrchestrator STITCHING) (toyBreaking
      (Some True)) (toyProject FEDERATION True) toyTarget [toyPing, toyPong] (Some ''v1'')) =
      Inr (Decision d) \<and> conclusion d = Publish)
   \<and> (\<exists>chk d. \<not> blank toyEnv (input_service (toyBreaking None)) \<and> \<not>
       (requiresServiceUrl (toyProject FEDERATION True) \<and> blank toyEnv (input_url
       (toyBreaking None))) \<and> snd (CompositeModel_publishCheck toyEnv toyLegacy
       (toyOrchestrator FEDERATION) (toyOrchestrator STITCHING) (toyBreaking None) (toyProject
       FEDERATION True) [toyPing, toyPong]) = Inr chk \<and> (if supportsMetadata (toyProject
       FEDERATION True) then ensureJSONMetadata toyEnv (input_metadata (toyBreaking None)) else
       Inr None) = Inr None \<and> \<not> (\<not> isInitial chk \<and> \<not>
       compositeIsModified toyEnv (Some ''v1'') chk (compositeIncoming toyEnv (toyBreaking None)
       toyTarget (previousService chk) None)) \<and> \<not> (asksSupergraph (toyProject
       FEDERATION True) (validationResult chk) \<and> isl (supergraph (if project_type
       (toyProject FEDERATION True) = FEDERATION then (toyOrchestrator FEDERATION) else
       (toyOrchestrator STITCHING)) (nextObjects toyEnv chk (compositeIncoming toyEnv
       (toyBreaking None) toyTarget (previousService chk) None)) (toyProject FEDERATION True)))
       \<and> specConclusion (toyProject FEDERATION True) (toyBreaking None) (validationResult
       chk) = Reject \<and> hasBreakingChanges (validationResult chk) \<and> snd
       (CompositeModel_publish toyEnv toyLegacy (toyOrchestrator FEDERATION) (toyOrchestrator
       STITCHING) (toyBreaking None) (toyProject FEDERATION True) toyTarget [toyPing, toyPong]
       (Some ''v1'')) = Inr (Decision d) \<and> conclusion d = Reject)
   \<and> (\<exists>chk d. \<not> blank toyEnv (input_service toyNewService) \<and> \<not>
       (requiresServiceUrl (toyProject FEDERATION False) \<and> blank toyEnv (input_url
       toyNewService)) \<and> snd (CompositeModel_publishCheck toyEnv toyModern (toyOrchestrator
       FEDERATION) (toyOrchestrator STITCHING) toyNewService (toyProject FEDERATION False)
       [toyPing]) = Inr chk \<and> (if supportsMetadata (toyProject FEDERATION False) then
       ensureJSONMetadata toyEnv (input_metadata toyNewService) else Inr None) = Inr None \<and>
       \<not> (\<not> isInitial chk \<and> \<not> compositeIsModified toyEnv (Some ''v1'') chk
       (compositeIncoming toyEnv toyNewService toyTarget (previousService chk) None)) \<and>
       \<not> (asksSupergraph (toyProject FEDERATION False) (validationResult chk) \<and> isl
       (supergraph (if project_type (toyProject FEDERATION False) = FEDERATION then
       (toyOrchestrator FEDERATION) else (toyOrchestrator STITCHING)) (nextObjects toyEnv chk
       (compositeIncoming toyEnv toyNewService toyTarget (previousService chk) None))
       (toyProject FEDERATION False))) \<and> specConclusion (toyProject FEDERATION False)
       toyNewService (validationResult chk) = Publish \<and> isComposable (validationResult chk)
       \<and> asksSupergraph (toyProject FEDERATION False) (validationResult chk) \<and> snd
       (CompositeModel_publish toyEnv toyModern (toyOrchestrator FEDERATION) (toyOrchestrator
       STITCHING) toyNewService (toyProject FEDERATION False) toyTarget [toyPing] (Some ''v1''))
       = Inr (Decision d) \<and> conclusion d = Publish)
   \<and> (\<exists>chk. \<not> blank toyEnv (input_service toyNewService) \<and> \<not>
       (requiresServiceUrl (toyProject FEDERATION False) \<and> blank toyEnv (input_url
       toyNewService)) \<and> snd (CompositeModel_publishCheck toyEnv toyModern toyFailing
       (toyOrchestrator STITCHING) toyNewService (toyProject FEDERATION False) [toyPing]) = Inr
       chk \<and> (if supportsMetadata (toyProject FEDERATION False) then ensureJSONMetadata
       toyEnv (input_metadata toyNewService) else Inr None) = Inr None \<and> \<not> (\<not>
       isInitial chk \<and> \<not> compositeIsModified toyEnv (Some ''v1'') chk
       (compositeIncoming toyEnv toyNewService toyTarget (previousService chk) None)) \<and>
       asksSupergraph (toyProject FEDERATION False) (validationResult chk) \<and> isl
       (supergraph (if project_type (toyProject FEDERATION False) = FEDERATION then toyFailing
       else (toyOrchestrator STITCHING)) (nextObjects toyEnv chk (compositeIncoming toyEnv
       toyNewService toyTarget (previousService chk) None)) (toyProject FEDERATION False))
       \<and> projl (supergraph (if project_type (toyProject FEDERATION False) = FEDERATION then
       toyFailing else (toyOrchestrator STITCHING)) (nextObjects toyEnv chk (compositeIncoming
       toyEnv toyNewService toyTarget (previousService chk) None)) (toyProject FEDERATION
       False)) = Thrown ExternalErrorC ''unavailable'' \<and> snd (CompositeModel_publish toyEnv
       toyModern toyFailing (toyOrchestrator STITCHING) toyNewService (toyProject FEDERATION
       False) toyTarget [toyPing] (Some ''v1'')) = Inl (Thrown ExternalErrorC ''unavailable''))
   \<and> (\<exists>chk. \<not> blank toyEnv (input_service toyAgain) \<and> \<not>
       (requiresServiceUrl (toyProject FEDERATION False) \<and> blank toyEnv (input_url
       toyAgain)) \<and> snd (CompositeModel_publishCheck toyEnv toyFederation (toyOrchestrator
       FEDERATION) (toyOrchestrator STITCHING) toyAgain (toyProject FEDERATION False) [toyPing,
       toyPong]) = Inr chk \<and> (if supportsMetadata (toyProject FEDERATION False) then
       ensureJSONMetadata toyEnv (input_metadata toyAgain) else Inr None) = Inr None \<and>
       \<not> isInitial chk \<and> \<not> compositeIsModified toyEnv (Some ''v1'') chk
       (compositeIncoming toyEnv toyAgain toyTarget (previousService chk) None) \<and> snd
       (CompositeModel_publish toyEnv toyFederation (toyOrchestrator FEDERATION)
       (toyOrchestrator STITCHING) toyAgain (toyProject FEDERATION False) toyTarget [toyPing,
       toyPong] (Some ''v1'')) = Inr neutral)
   \<and> (\<exists>chk d. snd (SingleModel_publishCheck toyEnv toySingleLegacy (toyOrchestrator
       SINGLE) toySingleChange (toyProject SINGLE True) [toySingle]) = Inr chk \<and>
       ensureJSONMetadata toyEnv (input_metadata toySingleChange) = Inr None \<and> \<not>
       (\<not> single_isInitial chk \<and> \<not> singleIsModified toyEnv (Some ''v1'') chk
       (singleIncoming toyEnv toySingleChange toyTarget None)) \<and> specConclusion (toyProject
       SINGLE True) toySingleChange (single_validationResult chk) = Reject \<and>
       hasBreakingChanges (single_validationResult chk) \<and> snd (SingleModel_publish toyEnv
       toySingleLegacy (toyOrchestrator SINGLE) toySingleChange (toyProject SINGLE True)
       toyTarget [toySingle] (Some ''v1'')) = Inr (Decision d) \<and> conclusion d = Reject)
   \<and> (\<exists>chk d. snd (SingleModel_publishCheck toyEnv toySingleWorld (toyOrchestrator
       SINGLE) toySingleChange (toyProject SINGLE False) [toySingle]) = Inr chk \<and>
       ensureJSONMetadata toyEnv (input_metadata toySingleChange) = Inr None \<and> \<not>
       (\<not> single_isInitial chk \<and> \<not> singleIsModified toyEnv (Some ''v1'') chk
       (singleIncoming toyEnv toySingleChange toyTarget None)) \<and> specConclusion (toyProject
       SINGLE False) toySingleChange (single_validationResult chk) = Publish \<and> isComposable
       (single_validationResult chk) \<and> snd (SingleModel_publish toyEnv toySingleWorld
       (toyOrchestrator SINGLE) toySingleChange (toyProject SINGLE False) toyTarget [toySingle]
       (Some ''v1'')) = Inr (Decision d) \<and> conclusion d = Publish)
   \<and> (\<exists>chk. snd (SingleModel_publishCheck toyEnv toySingleWorld (toyOrchestrator
       SINGLE) toySingleAgain (toyProject SINGLE False) [toySingle]) = Inr chk \<and>
       ensureJSONMetadata toyEnv (input_metadata toySingleAgain) = Inr None \<and> \<not>
       single_isInitial chk \<and> \<not> singleIsModified toyEnv (Some ''v1'') chk
       (singleIncoming toyEnv toySingleAgain toyTarget None) \<and> snd (SingleModel_publish
       toyEnv toySingleWorld (toyOrchestrator SINGLE) toySingleAgain (toyProject SINGLE False)
       toyTarget [toySingle] (Some ''v1'')) = Inr (neutralSingle (single_validationResult chk)))"
proof -
  have forced_p0:
    "\<not> blank toyEnv (input_service (toyBreaking (Some True)))"
    by code_simp
  have forced_p1:
    "\<not> (requiresServiceUrl (toyProject FEDERATION True) \<and> blank toyEnv (input_url
        (toyBreaking (Some True))))"
    by code_simp
  have forced_p2:
    "(if supportsMetadata (toyProject FEDERATION True) then ensureJSONMetadata toyEnv
        (input_metadata (toyBreaking (Some True))) else Inr None) = Inr None"
    by code_simp
  have forced_run:
    "case snd (CompositeModel_publishCheck toyEnv toyLegacy (toyOrchestrator FEDERATION)
        (toyOrchestrator STITCHING) (toyBreaking (Some True)) (toyProject FEDERATION True)
        [toyPing, toyPong]) of Inr c \<Rightarrow> (\<not> (\<not> isInitial c \<and> \<not>
        compositeIsModified toyEnv (Some ''v1'') c (compositeIncoming toyEnv (toyBreaking (Some
        True)) toyTarget (previousService c) None))) \<and> (\<not> (asksSupergraph (toyProject
        FEDERATION True) (validationResult c) \<and> isl (supergraph (if project_type
        (toyProject FEDERATION True) = FEDERATION then (toyOrchestrator FEDERATION) else
        (toyOrchestrator STITCHING)) (nextObjects toyEnv c (compositeIncoming toyEnv
        (toyBreaking (Some True)) toyTarget (previousService c) None)) (toyProject FEDERATION
        True)))) \<and> (specConclusion (toyProject FEDERATION True) (toyBreaking (Some True))
        (validationResult c) = Publish) \<and> (hasBreakingChanges (validationResult c)) \<and>
        (input_force (toyBreaking (Some True)) = Some True) | Inl e \<Rightarrow> False"
    by code_simp
  obtain forced_chk where forced_check:
    "snd (CompositeModel_publishCheck toyEnv toyLegacy (toyOrchestrator FEDERATION)
        (toyOrchestrator STITCHING) (toyBreaking (Some True)) (toyProject FEDERATION True)
        [toyPing, toyPong]) = Inr forced_chk"
    using forced_run by (cases "snd (CompositeModel_publishCheck toyEnv toyLegacy
        (toyOrchestrator FEDERATION) (toyOrchestrator STITCHING) (toyBreaking (Some True))
        (toyProject FEDERATION True) [toyPing, toyPong])") simp_all
  have forced_q:
    "(\<not> (\<not> isInitial forced_chk \<and> \<not> compositeIsModified toyEnv (Some ''v1'')
        forced_chk (compositeIncoming toyEnv (toyBreaking (Some True)) toyTarget
        (previousService forced_chk) None))) \<and> (\<not> (asksSupergraph (toyProject
        FEDERATION True) (validationResult forced_chk) \<and> isl (supergraph (if project_type
        (toyProject FEDERATION True) = FEDERATION then (toyOrchestrator FEDERATION) else
        (toyOrchestrator STITCHING)) (nextObjects toyEnv forced_chk (compositeIncoming toyEnv
        (toyBreaking (Some True)) toyTarget (previousService forced_chk) None)) (toyProject
        FEDERATION True)))) \<and> (specConclusion (toyProject FEDERATION True) (toyBreaking
        (Some True)) (validationResult forced_chk) = Publish) \<and> (hasBreakingChanges
        (validationResult forced_chk)) \<and> (input_force (toyBreaking (Some True)) = Some
        True)"
    by (rule forced_run [unfolded forced_check sum.case])
  have forced_q0:
    "\<not> (\<not> isInitial forced_chk \<and> \<not> compositeIsModified toyEnv (Some ''v1'')
        forced_chk (compositeIncoming toyEnv (toyBreaking (Some True)) toyTarget
        (previousService forced_chk) None))"
    by (rule forced_q [THEN conjunct1])
  have forced_q1:
    "\<not> (asksSupergraph (toyProject FEDERATION True) (validationResult forced_chk) \<and>
        isl (supergraph (if project_type (toyProject FEDERATION True) = FEDERATION then
        (toyOrchestrator FEDERATION) else (toyOrchestrator STITCHING)) (nextObjects toyEnv
        forced_chk (compositeIncoming toyEnv (toyBreaking (Some True)) toyTarget
        (previousService forced_chk) None)) (toyProject FEDERATION True)))"
    by (rule forced_q [THEN conjunct2, THEN conjunct1])
  have forced_q2:
    "specConclusion (toyProject FEDERATION True) (toyBreaking (Some True)) (validationResult
        forced_chk) = Publish"
    by (rule forced_q [THEN conjunct2, THEN conjunct2, THEN conjunct1])
  have forced_q3:
    "hasBreakingChanges (validationResult forced_chk)"
    by (rule forced_q [THEN conjunct2, THEN conjunct2, THEN conjunct2, THEN conjunct1])
  have forced_q4:
    "input_force (toyBreaking (Some True)) = Some True"
    by (rule forced_q [THEN conjunct2, THEN conjunct2, THEN conjunct2, THEN conjunct2])
  note forced_claim = publish_conclusion
    [where E = toyEnv and W = toyLegacy and federation = "toyOrchestrator FEDERATION"
       and stitching = "toyOrchestrator STITCHING" and proj = "toyProject FEDERATION True"
       and input = "toyBreaking (Some True)" and currentSchemas = "[toyPing, toyPong]" and tgt = toyTarget
       and version = "Some ''v1''" and chk = forced_chk and meta = None,
     THEN conjunct2, THEN conjunct2, THEN conjunct1, rule_format]
  have forced_result:
    "\<exists>d. snd (CompositeModel_publish toyEnv toyLegacy (toyOrchestrator FEDERATION)
        (toyOrchestrator STITCHING) (toyBreaking (Some True)) (toyProject FEDERATION True)
        toyTarget [toyPing, toyPong] (Some ''v1'')) = Inr (Decision d) \<and> conclusion d =
        Publish"
    using forced_claim [unfolded if_not_P [OF forced_q0] if_not_P [OF forced_q1]] forced_p0 forced_p1 forced_check forced_p2
    unfolding forced_q2 by blast
  have refused_p0:
    "\<not> blank toyEnv (input_service (toyBreaking None))"
    by code_simp
  have refused_p1:
    "\<not> (requiresServiceUrl (toyProject FEDERATION True) \<and> blank toyEnv (input_url
        (toyBreaking None)))"
    by code_simp
  have refused_p2:
    "(if supportsMetadata (toyProject FEDERATION True) then ensureJSONMetadata toyEnv
        (input_metadata (toyBreaking None)) else Inr None) = Inr None"
    by code_simp
  have refused_run:
    "case snd (CompositeModel_publishCheck toyEnv toyLegacy (toyOrchestrator FEDERATION)
        (toyOrchestrator STITCHING) (toyBreaking None) (toyProject FEDERATION True) [toyPing,
        toyPong]) of Inr c \<Rightarrow> (\<not> (\<not> isInitial c \<and> \<not>
        compositeIsModified toyEnv (Some ''v1'') c (compositeIncoming toyEnv (toyBreaking None)
        toyTarget (previousService c) None))) \<and> (\<not> (asksSupergraph (toyProject
        FEDERATION True) (validationResult c) \<and> isl (supergraph (if project_type
        (toyProject FEDERATION True) = FEDERATION then (toyOrchestrator FEDERATION) else
        (toyOrchestrator STITCHING)) (nextObjects toyEnv c (compositeIncoming toyEnv
        (toyBreaking None) toyTarget (previousService c) None)) (toyProject FEDERATION True))))
        \<and> (specConclusion (toyProject FEDERATION True) (toyBreaking None) (validationResult
        c) = Reject) \<and> (hasBreakingChanges (validationResult c)) | Inl e \<Rightarrow>
        False"
    by code_simp
  obtain refused_chk where refused_check:
    "snd (CompositeModel_publishCheck toyEnv toyLegacy (toyOrchestrator FEDERATION)
        (toyOrchestrator STITCHING) (toyBreaking None) (toyProject FEDERATION True) [toyPing,
        toyPong]) = Inr refused_chk"
    using refused_run by (cases "snd (CompositeModel_publishCheck toyEnv toyLegacy
        (toyOrchestrator FEDERATION) (toyOrchestrator STITCHING) (toyBreaking None) (toyProject
        FEDERATION True) [toyPing, toyPong])") simp_all
  have refused_q:
    "(\<not> (\<not> isInitial refused_chk \<and> \<not> compositeIsModified toyEnv (Some
        ''v1'') refused_chk (compositeIncoming toyEnv (toyBreaking None) toyTarget
        (previousService refused_chk) None))) \<and> (\<not> (asksSupergraph (toyProject
        FEDERATION True) (validationResult refused_chk) \<and> isl (supergraph (if project_type
        (toyProject FEDERATION True) = FEDERATION then (toyOrchestrator FEDERATION) else
        (toyOrchestrator STITCHING)) (nextObjects toyEnv refused_chk (compositeIncoming toyEnv
        (toyBreaking None) toyTarget (previousService refused_chk) None)) (toyProject FEDERATION
        True)))) \<and> (specConclusion (toyProject FEDERATION True) (toyBreaking None)
        (validationResult refused_chk) = Reject) \<and> (hasBreakingChanges (validationResult
        refused_chk))"
    by (rule refused_run [unfolded refused_check sum.case])
  have refused_q0:
    "\<not> (\<not> isInitial refused_chk \<and> \<not> compositeIsModified toyEnv (Some ''v1'')
        refused_chk (compositeIncoming toyEnv (toyBreaking None) toyTarget (previousService
        refused_chk) None))"
    by (rule refused_q [THEN conjunct1])
  have refused_q1:
    "\<not> (asksSupergraph (toyProject FEDERATION True) (validationResult refused_chk) \<and>
        isl (supergraph (if project_type (toyProject FEDERATION True) = FEDERATION then
        (toyOrchestrator FEDERATION) else (toyOrchestrator STITCHING)) (nextObjects toyEnv
        refused_chk (compositeIncoming toyEnv (toyBreaking None) toyTarget (previousService
        refused_chk) None)) (toyProject FEDERATION True)))"
    by (rule refused_q [THEN conjunct2, THEN conjunct1])
  have refused_q2:
    "specConclusion (toyProject FEDERATION True) (toyBreaking None) (validationResult
        refused_chk) = Reject"
    by (rule refused_q [THEN conjunct2, THEN conjunct2, THEN conjunct1])
  have refused_q3:
    "hasBreakingChanges (validationResult refused_chk)"
    by (rule refused_q [THEN conjunct2, THEN conjunct2, THEN conjunct2])
  note refused_claim = publish_conclusion
    [where E = toyEnv and W = toyLegacy and federation = "toyOrchestrator FEDERATION"
       and stitching = "toyOrchestrator STITCHING" and proj = "toyProject FEDERATION True"
       and input = "toyBreaking None" and currentSchemas = "[toyPing, toyPong]" and tgt = toyTarget
       and version = "Some ''v1''" and chk = refused_chk and meta = None,
     THEN conjunct2, THEN conjunct2, THEN conjunct1, rule_format]
  have refused_result:
    "\<exists>d. snd (CompositeModel_publish toyEnv toyLegacy (toyOrchestrator FEDERATION)
        (toyOrchestrator STITCHING) (toyBreaking None) (toyProject FEDERATION True) toyTarget
        [toyPing, toyPong] (Some ''v1'')) = Inr (Decision d) \<and> conclusion d = Reject"
    using refused_claim [unfolded if_not_P [OF refused_q0] if_not_P [OF refused_q1]] refused_p0 refused_p1 refused_check refused_p2
    unfolding refused_q2 by blast
  have added_p0:
    "\<not> blank toyEnv (input_service toyNewService)"
    by code_simp
  have added_p1:
    "\<not> (requiresServiceUrl (toyProject FEDERATION False) \<and> blank toyEnv (input_url
        toyNewService))"
    by code_simp
  have added_p2:
    "(if supportsMetadata (toyProject FEDERATION False) then ensureJSONMetadata toyEnv
        (input_metadata toyNewService) else Inr None) = Inr None"
    by code_simp
  have added_run:
    "case snd (CompositeModel_publishCheck toyEnv toyModern (toyOrchestrator FEDERATION)
        (toyOrchestrator STITCHING) toyNewService (toyProject FEDERATION False) [toyPing]) of
        Inr c \<Rightarrow> (\<not> (\<not> isInitial c \<and> \<not> compositeIsModified toyEnv
        (Some ''v1'') c (compositeIncoming toyEnv toyNewService toyTarget (previousService c)
        None))) \<and> (\<not> (asksSupergraph (toyProject FEDERATION False) (validationResult
        c) \<and> isl (supergraph (if project_type (toyProject FEDERATION False) = FEDERATION
        then (toyOrchestrator FEDERATION) else (toyOrchestrator STITCHING)) (nextObjects toyEnv
        c (compositeIncoming toyEnv toyNewService toyTarget (previousService c) None))
        (toyProject FEDERATION False)))) \<and> (specConclusion (toyProject FEDERATION False)
        toyNewService (validationResult c) = Publish) \<and> (isComposable (validationResult c))
        \<and> (asksSupergraph (toyProject FEDERATION False) (validationResult c)) | Inl e
        \<Rightarrow> False"
    by code_simp
  obtain added_chk where added_check:
    "snd (CompositeModel_publishCheck toyEnv toyModern (toyOrchestrator FEDERATION)
        (toyOrchestrator STITCHING) toyNewService (toyProject FEDERATION False) [toyPing]) = Inr
        added_chk"
    using added_run by (cases "snd (CompositeModel_publishCheck toyEnv toyModern
        (toyOrchestrator FEDERATION) (toyOrchestrator STITCHING) toyNewService (toyProject
        FEDERATION False) [toyPing])") simp_all
  have added_q:
    "(\<not> (\<not> isInitial added_chk \<and> \<not> compositeIsModified toyEnv (Some ''v1'')
        added_chk (compositeIncoming toyEnv toyNewService toyTarget (previousService added_chk)
        None))) \<and> (\<not> (asksSupergraph (toyProject FEDERATION False) (validationResult
        added_chk) \<and> isl (supergraph (if project_type (toyProject FEDERATION False) =
        FEDERATION then (toyOrchestrator FEDERATION) else (toyOrchestrator STITCHING))
        (nextObjects toyEnv added_chk (compositeIncoming toyEnv toyNewService toyTarget
        (previousService added_chk) None)) (toyProject FEDERATION False)))) \<and>
        (specConclusion (toyProject FEDERATION False) toyNewService (validationResult added_chk)
        = Publish) \<and> (isComposable (validationResult added_chk)) \<and> (asksSupergraph
        (toyProject FEDERATION False) (validationResult added_chk))"
    by (rule added_run [unfolded added_check sum.case])
  have added_q0:
    "\<not> (\<not> isInitial added_chk \<and> \<not> compositeIsModified toyEnv (Some ''v1'')
        added_chk (compositeIncoming toyEnv toyNewService toyTarget (previousService added_chk)
        None))"
    by (rule added_q [THEN conjunct1])
  have added_q1:
    "\<not> (asksSupergraph (toyProject FEDERATION False) (validationResult added_chk) \<and>
        isl (supergraph (if project_type (toyProject FEDERATION False) = FEDERATION then
        (toyOrchestrator FEDERATION) else (toyOrchestrator STITCHING)) (nextObjects toyEnv
        added_chk (compositeIncoming toyEnv toyNewService toyTarget (previousService added_chk)
        None)) (toyProject FEDERATION False)))"
    by (rule added_q [THEN conjunct2, THEN conjunct1])
  have added_q2:
    "specConclusion (toyProject FEDERATION False) toyNewService (validationResult added_chk) =
        Publish"
    by (rule added_q [THEN conjunct2, THEN conjunct2, THEN conjunct1])
  have added_q3:
    "isComposable (validationResult added_chk)"
    by (rule added_q [THEN conjunct2, THEN conjunct2, THEN conjunct2, THEN conjunct1])
  have added_q4:
    "asksSupergraph (toyProject FEDERATION False) (validationResult added_chk)"
    by (rule added_q [THEN conjunct2, THEN conjunct2, THEN conjunct2, THEN conjunct2])
  note added_claim = publish_conclusion
    [where E = toyEnv and W = toyModern and federation = "toyOrchestrator FEDERATION"
       and stitching = "toyOrchestrator STITCHING" and proj = "toyProject FEDERATION False"
       and input = "toyNewService" and currentSchemas = "[toyPing]" and tgt = toyTarget
       and version = "Some ''v1''" and chk = added_chk and meta = None,
     THEN conjunct2, THEN conjunct2, THEN conjunct1, rule_format]
  have added_result:
    "\<exists>d. snd (CompositeModel_publish toyEnv toyModern (toyOrchestrator FEDERATION)
        (toyOrchestrator STITCHING) toyNewService (toyProject FEDERATION False) toyTarget
        [toyPing] (Some ''v1'')) = Inr (Decision d) \<and> conclusion d = Publish"
    using added_claim [unfolded if_not_P [OF added_q0] if_not_P [OF added_q1]] added_p0 added_p1 added_check added_p2
    unfolding added_q2 by blast
  have down_p0:
    "\<not> blank toyEnv (input_service toyNewService)"
    by code_simp
  have down_p1:
    "\<not> (requiresServiceUrl (toyProject FEDERATION False) \<and> blank toyEnv (input_url
        toyNewService))"
    by code_simp
  have down_p2:
    "(if supportsMetadata (toyProject FEDERATION False) then ensureJSONMetadata toyEnv
        (input_metadata toyNewService) else Inr None) = Inr None"
    by code_simp
  have down_run:
    "case snd (CompositeModel_publishCheck toyEnv toyModern toyFailing (toyOrchestrator
        STITCHING) toyNewService (toyProject FEDERATION False) [toyPing]) of Inr c \<Rightarrow>
        (\<not> (\<not> isInitial c \<and> \<not> compositeIsModified toyEnv (Some ''v1'') c
        (compositeIncoming toyEnv toyNewService toyTarget (previousService c) None))) \<and>
        (asksSupergraph (toyProject FEDERATION False) (validationResult c) \<and> isl
        (supergraph (if project_type (toyProject FEDERATION False) = FEDERATION then toyFailing
        else (toyOrchestrator STITCHING)) (nextObjects toyEnv c (compositeIncoming toyEnv
        toyNewService toyTarget (previousService c) None)) (toyProject FEDERATION False)))
        \<and> (projl (supergraph (if project_type (toyProject FEDERATION False) = FEDERATION
        then toyFailing else (toyOrchestrator STITCHING)) (nextObjects toyEnv c
        (compositeIncoming toyEnv toyNewService toyTarget (previousService c) None)) (toyProject
        FEDERATION False)) = Thrown ExternalErrorC ''unavailable'') | Inl e \<Rightarrow> False"
    by code_simp
  obtain down_chk where down_check:
    "snd (CompositeModel_publishCheck toyEnv toyModern toyFailing (toyOrchestrator STITCHING)
        toyNewService (toyProject FEDERATION False) [toyPing]) = Inr down_chk"
    using down_run by (cases "snd (CompositeModel_publishCheck toyEnv toyModern toyFailing
        (toyOrchestrator STITCHING) toyNewService (toyProject FEDERATION False) [toyPing])")
        simp_all
  have down_q:
    "(\<not> (\<not> isInitial down_chk \<and> \<not> compositeIsModified toyEnv (Some ''v1'')
        down_chk (compositeIncoming toyEnv toyNewService toyTarget (previousService down_chk)
        None))) \<and> (asksSupergraph (toyProject FEDERATION False) (validationResult down_chk)
        \<and> isl (supergraph (if project_type (toyProject FEDERATION False) = FEDERATION then
        toyFailing else (toyOrchestrator STITCHING)) (nextObjects toyEnv down_chk
        (compositeIncoming toyEnv toyNewService toyTarget (previousService down_chk) None))
        (toyProject FEDERATION False))) \<and> (projl (supergraph (if project_type (toyProject
        FEDERATION False) = FEDERATION then toyFailing else (toyOrchestrator STITCHING))
        (nextObjects toyEnv down_chk (compositeIncoming toyEnv toyNewService toyTarget
        (previousService down_chk) None)) (toyProject FEDERATION False)) = Thrown ExternalErrorC
        ''unavailable'')"
    by (rule down_run [unfolded down_check sum.case])
  have down_q0:
    "\<not> (\<not> isInitial down_chk \<and> \<not> compositeIsModified toyEnv (Some ''v1'')
        down_chk (compositeIncoming toyEnv toyNewService toyTarget (previousService down_chk)
        None))"
    by (rule down_q [THEN conjunct1])
  have down_q1:
    "asksSupergraph (toyProject FEDERATION False) (validationResult down_chk) \<and> isl
        (supergraph (if project_type (toyProject FEDERATION False) = FEDERATION then toyFailing
        else (toyOrchestrator STITCHING)) (nextObjects toyEnv down_chk (compositeIncoming toyEnv
        toyNewService toyTarget (previousService down_chk) None)) (toyProject FEDERATION
        False))"
    by (rule down_q [THEN conjunct2, THEN conjunct1])
  have down_q2:
    "projl (supergraph (if project_type (toyProject FEDERATION False) = FEDERATION then
        toyFailing else (toyOrchestrator STITCHING)) (nextObjects toyEnv down_chk
        (compositeIncoming toyEnv toyNewService toyTarget (previousService down_chk) None))
        (toyProject FEDERATION False)) = Thrown ExternalErrorC ''unavailable''"
    by (rule down_q [THEN conjunct2, THEN conjunct2])
  note down_claim = publish_conclusion
    [where E = toyEnv and W = toyModern and federation = "toyFailing"
       and stitching = "toyOrchestrator STITCHING" and proj = "toyProject FEDERATION False"
       and input = "toyNewService" and currentSchemas = "[toyPing]" and tgt = toyTarget
       and version = "Some ''v1''" and chk = down_chk and meta = None,
     THEN conjunct2, THEN conjunct2, THEN conjunct1, rule_format]
  have down_result:
    "snd (CompositeModel_publish toyEnv toyModern toyFailing (toyOrchestrator STITCHING)
        toyNewService (toyProject FEDERATION False) toyTarget [toyPing] (Some ''v1'')) = Inl
        (Thrown ExternalErrorC ''unavailable'')"
    using down_claim [unfolded if_not_P [OF down_q0] if_P [OF down_q1] down_q2] down_p0 down_p1 down_check down_p2
    by blast
  have again_p0:
    "\<not> blank toyEnv (input_service toyAgain)"
    by code_simp
  have again_p1:
    "\<not> (requiresServiceUrl (toyProject FEDERATION False) \<and> blank toyEnv (input_url
        toyAgain))"
    by code_simp
  have again_p2:
    "(if supportsMetadata (toyProject FEDERATION False) then ensureJSONMetadata toyEnv
        (input_metadata toyAgain) else Inr None) = Inr None"
    by code_simp
  have again_run:
    "case snd (CompositeModel_publishCheck toyEnv toyFederation (toyOrchestrator FEDERATION)
        (toyOrchestrator STITCHING) toyAgain (toyProject FEDERATION False) [toyPing, toyPong])
        of Inr c \<Rightarrow> (\<not> isInitial c \<and> \<not> compositeIsModified toyEnv
        (Some ''v1'') c (compositeIncoming toyEnv toyAgain toyTarget (previousService c) None))
        | Inl e \<Rightarrow> False"
    by code_simp
  obtain again_chk where again_check:
    "snd (CompositeModel_publishCheck toyEnv toyFederation (toyOrchestrator FEDERATION)
        (toyOrchestrator STITCHING) toyAgain (toyProject FEDERATION False) [toyPing, toyPong]) =
        Inr again_chk"
    using again_run by (cases "snd (CompositeModel_publishCheck toyEnv toyFederation
        (toyOrchestrator FEDERATION) (toyOrchestrator STITCHING) toyAgain (toyProject FEDERATION
        False) [toyPing, toyPong])") simp_all
  have again_q:
    "(\<not> isInitial again_chk \<and> \<not> compositeIsModified toyEnv (Some ''v1'')
        again_chk (compositeIncoming toyEnv toyAgain toyTarget (previousService again_chk)
        None))"
    by (rule again_run [unfolded again_check sum.case])
  have again_q0:
    "\<not> isInitial again_chk \<and> \<not> compositeIsModified toyEnv (Some ''v1'') again_chk
        (compositeIncoming toyEnv toyAgain toyTarget (previousService again_chk) None)"
    by (rule again_q)
  note again_claim = publish_conclusion
    [where E = toyEnv and W = toyFederation and federation = "toyOrchestrator FEDERATION"
       and stitching = "toyOrchestrator STITCHING" and proj = "toyProject FEDERATION False"
       and input = "toyAgain" and currentSchemas = "[toyPing, toyPong]" and tgt = toyTarget
       and version = "Some ''v1''" and chk = again_chk and meta = None,
     THEN conjunct2, THEN conjunct2, THEN conjunct1, rule_format]
  have again_result:
    "snd (CompositeModel_publish toyEnv toyFederation (toyOrchestrator FEDERATION)
        (toyOrchestrator STITCHING) toyAgain (toyProject FEDERATION False) toyTarget [toyPing,
        toyPong] (Some ''v1'')) = Inr neutral"
    using again_claim [unfolded if_P [OF again_q0]] again_p0 again_p1 again_check again_p2
    by blast
  have single_refused_p0:
    "ensureJSONMetadata toyEnv (input_metadata toySingleChange) = Inr None"
    by code_simp
  have single_refused_run:
    "case snd (SingleModel_publishCheck toyEnv toySingleLegacy (toyOrchestrator SINGLE)
        toySingleChange (toyProject SINGLE True) [toySingle]) of Inr c \<Rightarrow> (\<not>
        (\<not> single_isInitial c \<and> \<not> singleIsModified toyEnv (Some ''v1'') c
        (singleIncoming toyEnv toySingleChange toyTarget None))) \<and> (specConclusion
        (toyProject SINGLE True) toySingleChange (single_validationResult c) = Reject) \<and>
        (hasBreakingChanges (single_validationResult c)) | Inl e \<Rightarrow> False"
    by code_simp
  obtain single_refused_chk where single_refused_check:
    "snd (SingleModel_publishCheck toyEnv toySingleLegacy (toyOrchestrator SINGLE)
        toySingleChange (toyProject SINGLE True) [toySingle]) = Inr single_refused_chk"
    using single_refused_run by (cases "snd (SingleModel_publishCheck toyEnv toySingleLegacy
        (toyOrchestrator SINGLE) toySingleChange (toyProject SINGLE True) [toySingle])")
        simp_all
  have single_refused_q:
    "(\<not> (\<not> single_isInitial single_refused_chk \<and> \<not> singleIsModified toyEnv
        (Some ''v1'') single_refused_chk (singleIncoming toyEnv toySingleChange toyTarget
        None))) \<and> (specConclusion (toyProject SINGLE True) toySingleChange
        (single_validationResult single_refused_chk) = Reject) \<and> (hasBreakingChanges
        (single_validationResult single_refused_chk))"
    by (rule single_refused_run [unfolded single_refused_check sum.case])
  have single_refused_q0:
    "\<not> (\<not> single_isInitial single_refused_chk \<and> \<not> singleIsModified toyEnv
        (Some ''v1'') single_refused_chk (singleIncoming toyEnv toySingleChange toyTarget
        None))"
    by (rule single_refused_q [THEN conjunct1])
  have single_refused_q1:
    "specConclusion (toyProject SINGLE True) toySingleChange (single_validationResult
        single_refused_chk) = Reject"
    by (rule single_refused_q [THEN conjunct2, THEN conjunct1])
  have single_refused_q2:
    "hasBreakingChanges (single_validationResult single_refused_chk)"
    by (rule single_refused_q [THEN conjunct2, THEN conjunct2])
  note single_refused_claim = publish_conclusion
    [where E = toyEnv and W = toySingleLegacy and single = "toyOrchestrator SINGLE"
       and proj = "toyProject SINGLE True" and input = "toySingleChange" and currentSchemas = "[toySingle]"
       and tgt = toyTarget and version = "Some ''v1''" and singleChk = single_refused_chk
       and singleMeta = None,
     THEN conjunct2, THEN conjunct2, THEN conjunct2, rule_format]
  have single_refused_result:
    "\<exists>d. snd (SingleModel_publish toyEnv toySingleLegacy (toyOrchestrator SINGLE)
        toySingleChange (toyProject SINGLE True) toyTarget [toySingle] (Some ''v1'')) = Inr
        (Decision d) \<and> conclusion d = Reject"
    using single_refused_claim [unfolded if_not_P [OF single_refused_q0]] single_refused_check single_refused_p0
    unfolding single_refused_q1 by blast
  have single_accepted_p0:
    "ensureJSONMetadata toyEnv (input_metadata toySingleChange) = Inr None"
    by code_simp
  have single_accepted_run:
    "case snd (SingleModel_publishCheck toyEnv toySingleWorld (toyOrchestrator SINGLE)
        toySingleChange (toyProject SINGLE False) [toySingle]) of Inr c \<Rightarrow> (\<not>
        (\<not> single_isInitial c \<and> \<not> singleIsModified toyEnv (Some ''v1'') c
        (singleIncoming toyEnv toySingleChange toyTarget None))) \<and> (specConclusion
        (toyProject SINGLE False) toySingleChange (single_validationResult c) = Publish) \<and>
        (isComposable (single_validationResult c)) | Inl e \<Rightarrow> False"
    by code_simp
  obtain single_accepted_chk where single_accepted_check:
    "snd (SingleModel_publishCheck toyEnv toySingleWorld (toyOrchestrator SINGLE)
        toySingleChange (toyProject SINGLE False) [toySingle]) = Inr single_accepted_chk"
    using single_accepted_run by (cases "snd (SingleModel_publishCheck toyEnv toySingleWorld
        (toyOrchestrator SINGLE) toySingleChange (toyProject SINGLE False) [toySingle])")
        simp_all
  have single_accepted_q:
    "(\<not> (\<not> single_isInitial single_accepted_chk \<and> \<not> singleIsModified toyEnv
        (Some ''v1'') single_accepted_chk (singleIncoming toyEnv toySingleChange toyTarget
        None))) \<and> (specConclusion (toyProject SINGLE False) toySingleChange
        (single_validationResult single_accepted_chk) = Publish) \<and> (isComposable
        (single_validationResult single_accepted_chk))"
    by (rule single_accepted_run [unfolded single_accepted_check sum.case])
  have single_accepted_q0:
    "\<not> (\<not> single_isInitial single_accepted_chk \<and> \<not> singleIsModified toyEnv
        (Some ''v1'') single_accepted_chk (singleIncoming toyEnv toySingleChange toyTarget
        None))"
    by (rule single_accepted_q [THEN conjunct1])
  have single_accepted_q1:
    "specConclusion (toyProject SINGLE False) toySingleChange (single_validationResult
        single_accepted_chk) = Publish"
    by (rule single_accepted_q [THEN conjunct2, THEN conjunct1])
  have single_accepted_q2:
    "isComposable (single_validationResult single_accepted_chk)"
    by (rule single_accepted_q [THEN conjunct2, THEN conjunct2])
  note single_accepted_claim = publish_conclusion
    [where E = toyEnv and W = toySingleWorld and single = "toyOrchestrator SINGLE"
       and proj = "toyProject SINGLE False" and input = "toySingleChange" and currentSchemas = "[toySingle]"
       and tgt = toyTarget and version = "Some ''v1''" and singleChk = single_accepted_chk
       and singleMeta = None,
     THEN conjunct2, THEN conjunct2, THEN conjunct2, rule_format]
  have single_accepted_result:
    "\<exists>d. snd (SingleModel_publish toyEnv toySingleWorld (toyOrchestrator SINGLE)
        toySingleChange (toyProject SINGLE False) toyTarget [toySingle] (Some ''v1'')) = Inr
        (Decision d) \<and> conclusion d = Publish"
    using single_accepted_claim [unfolded if_not_P [OF single_accepted_q0]] single_accepted_check single_accepted_p0
    unfolding single_accepted_q1 by blast
  have single_again_p0:
    "ensureJSONMetadata toyEnv (input_metadata toySingleAgain) = Inr None"
    by code_simp
  have single_again_run:
    "case snd (SingleModel_publishCheck toyEnv toySingleWorld (toyOrchestrator SINGLE)
        toySingleAgain (toyProject SINGLE False) [toySingle]) of Inr c \<Rightarrow> (\<not>
        single_isInitial c \<and> \<not> singleIsModified toyEnv (Some ''v1'') c (singleIncoming
        toyEnv toySingleAgain toyTarget None)) | Inl e \<Rightarrow> False"
    by code_simp
  obtain single_again_chk where single_again_check:
    "snd (SingleModel_publishCheck toyEnv toySingleWorld (toyOrchestrator SINGLE) toySingleAgain
        (toyProject SINGLE False) [toySingle]) = Inr single_again_chk"
    using single_again_run by (cases "snd (SingleModel_publishCheck toyEnv toySingleWorld
        (toyOrchestrator SINGLE) toySingleAgain (toyProject SINGLE False) [toySingle])")
        simp_all
  have single_again_q:
    "(\<not> single_isInitial single_again_chk \<and> \<not> singleIsModified toyEnv (Some
        ''v1'') single_again_chk (singleIncoming toyEnv toySingleAgain toyTarget None))"
    by (rule single_again_run [unfolded single_again_check sum.case])
  have single_again_q0:
    "\<not> single_isInitial single_again_chk \<and> \<not> singleIsModified toyEnv (Some
        ''v1'') single_again_chk (singleIncoming toyEnv toySingleAgain toyTarget None)"
    by (rule single_again_q)
  note single_again_claim = publish_conclusion
    [where E = toyEnv and W = toySingleWorld and single = "toyOrchestrator SINGLE"
       and proj = "toyProject SINGLE False" and input = "toySingleAgain" and currentSchemas = "[toySingle]"
       and tgt = toyTarget and version = "Some ''v1''" and singleChk = single_again_chk
       and singleMeta = None,
     THEN conjunct2, THEN conjunct2, THEN conjunct2, rule_format]
  have single_again_result:
    "snd (SingleModel_publish toyEnv toySingleWorld (toyOrchestrator SINGLE) toySingleAgain
        (toyProject SINGLE False) toyTarget [toySingle] (Some ''v1'')) = Inr (neutralSingle
        (single_validationResult single_again_chk))"
    using single_again_claim [unfolded if_P [OF single_again_q0]] single_again_check single_again_p0
    by blast
  have forced_shown:
    "(\<exists>chk d. \<not> blank toyEnv (input_service (toyBreaking (Some True))) \<and>
        \<not> (requiresServiceUrl (toyProject FEDERATION True) \<and> blank toyEnv (input_url
        (toyBreaking (Some True)))) \<and> snd (CompositeModel_publishCheck toyEnv toyLegacy
        (toyOrchestrator FEDERATION) (toyOrchestrator STITCHING) (toyBreaking (Some True))
        (toyProject FEDERATION True) [toyPing, toyPong]) = Inr chk \<and> (if supportsMetadata
        (toyProject FEDERATION True) then ensureJSONMetadata toyEnv (input_metadata (toyBreaking
        (Some True))) else Inr None) = Inr None \<and> \<not> (\<not> isInitial chk \<and>
        \<not> compositeIsModified toyEnv (Some ''v1'') chk (compositeIncoming toyEnv
        (toyBreaking (Some True)) toyTarget (previousService chk) None)) \<and> \<not>
        (asksSupergraph (toyProject FEDERATION True) (validationResult chk) \<and> isl
        (supergraph (if project_type (toyProject FEDERATION True) = FEDERATION then
        (toyOrchestrator FEDERATION) else (toyOrchestrator STITCHING)) (nextObjects toyEnv chk
        (compositeIncoming toyEnv (toyBreaking (Some True)) toyTarget (previousService chk)
        None)) (toyProject FEDERATION True))) \<and> specConclusion (toyProject FEDERATION True)
        (toyBreaking (Some True)) (validationResult chk) = Publish \<and> hasBreakingChanges
        (validationResult chk) \<and> input_force (toyBreaking (Some True)) = Some True \<and>
        snd (CompositeModel_publish toyEnv toyLegacy (toyOrchestrator FEDERATION)
        (toyOrchestrator STITCHING) (toyBreaking (Some True)) (toyProject FEDERATION True)
        toyTarget [toyPing, toyPong] (Some ''v1'')) = Inr (Decision d) \<and> conclusion d =
        Publish)"
    using forced_p0 forced_p1 forced_p2 forced_check forced_q0 forced_q1 forced_q2 forced_q3 forced_q4 forced_result by blast
  have refused_shown:
    "(\<exists>chk d. \<not> blank toyEnv (input_service (toyBreaking None)) \<and> \<not>
        (requiresServiceUrl (toyProject FEDERATION True) \<and> blank toyEnv (input_url
        (toyBreaking None))) \<and> snd (CompositeModel_publishCheck toyEnv toyLegacy
        (toyOrchestrator FEDERATION) (toyOrchestrator STITCHING) (toyBreaking None) (toyProject
        FEDERATION True) [toyPing, toyPong]) = Inr chk \<and> (if supportsMetadata (toyProject
        FEDERATION True) then ensureJSONMetadata toyEnv (input_metadata (toyBreaking None)) else
        Inr None) = Inr None \<and> \<not> (\<not> isInitial chk \<and> \<not>
        compositeIsModified toyEnv (Some ''v1'') chk (compositeIncoming toyEnv (toyBreaking
        None) toyTarget (previousService chk) None)) \<and> \<not> (asksSupergraph (toyProject
        FEDERATION True) (validationResult chk) \<and> isl (supergraph (if project_type
        (toyProject FEDERATION True) = FEDERATION then (toyOrchestrator FEDERATION) else
        (toyOrchestrator STITCHING)) (nextObjects toyEnv chk (compositeIncoming toyEnv
        (toyBreaking None) toyTarget (previousService chk) None)) (toyProject FEDERATION True)))
        \<and> specConclusion (toyProject FEDERATION True) (toyBreaking None) (validationResult
        chk) = Reject \<and> hasBreakingChanges (validationResult chk) \<and> snd
        (CompositeModel_publish toyEnv toyLegacy (toyOrchestrator FEDERATION) (toyOrchestrator
        STITCHING) (toyBreaking None) (toyProject FEDERATION True) toyTarget [toyPing, toyPong]
        (Some ''v1'')) = Inr (Decision d) \<and> conclusion d = Reject)"
    using refused_p0 refused_p1 refused_p2 refused_check refused_q0 refused_q1 refused_q2 refused_q3 refused_result by blast
  have added_shown:
    "(\<exists>chk d. \<not> blank toyEnv (input_service toyNewService) \<and> \<not>
        (requiresServiceUrl (toyProject FEDERATION False) \<and> blank toyEnv (input_url
        toyNewService)) \<and> snd (CompositeModel_publishCheck toyEnv toyModern
        (toyOrchestrator FEDERATION) (toyOrchestrator STITCHING) toyNewService (toyProject
        FEDERATION False) [toyPing]) = Inr chk \<and> (if supportsMetadata (toyProject
        FEDERATION False) then ensureJSONMetadata toyEnv (input_metadata toyNewService) else Inr
        None) = Inr None \<and> \<not> (\<not> isInitial chk \<and> \<not> compositeIsModified
        toyEnv (Some ''v1'') chk (compositeIncoming toyEnv toyNewService toyTarget
        (previousService chk) None)) \<and> \<not> (asksSupergraph (toyProject FEDERATION False)
        (validationResult chk) \<and> isl (supergraph (if project_type (toyProject FEDERATION
        False) = FEDERATION then (toyOrchestrator FEDERATION) else (toyOrchestrator STITCHING))
        (nextObjects toyEnv chk (compositeIncoming toyEnv toyNewService toyTarget
        (previousService chk) None)) (toyProject FEDERATION False))) \<and> specConclusion
        (toyProject FEDERATION False) toyNewService (validationResult chk) = Publish \<and>
        isComposable (validationResult chk) \<and> asksSupergraph (toyProject FEDERATION False)
        (validationResult chk) \<and> snd (CompositeModel_publish toyEnv toyModern
        (toyOrchestrator FEDERATION) (toyOrchestrator STITCHING) toyNewService (toyProject
        FEDERATION False) toyTarget [toyPing] (Some ''v1'')) = Inr (Decision d) \<and>
        conclusion d = Publish)"
    using added_p0 added_p1 added_p2 added_check added_q0 added_q1 added_q2 added_q3 added_q4 added_result by blast
  have down_shown:
    "(\<exists>chk. \<not> blank toyEnv (input_service toyNewService) \<and> \<not>
        (requiresServiceUrl (toyProject FEDERATION False) \<and> blank toyEnv (input_url
        toyNewService)) \<and> snd (CompositeModel_publishCheck toyEnv toyModern toyFailing
        (toyOrchestrator STITCHING) toyNewService (toyProject FEDERATION False) [toyPing]) = Inr
        chk \<and> (if supportsMetadata (toyProject FEDERATION False) then ensureJSONMetadata
        toyEnv (input_metadata toyNewService) else Inr None) = Inr None \<and> \<not> (\<not>
        isInitial chk \<and> \<not> compositeIsModified toyEnv (Some ''v1'') chk
        (compositeIncoming toyEnv toyNewService toyTarget (previousService chk) None)) \<and>
        asksSupergraph (toyProject FEDERATION False) (validationResult chk) \<and> isl
        (supergraph (if project_type (toyProject FEDERATION False) = FEDERATION then toyFailing
        else (toyOrchestrator STITCHING)) (nextObjects toyEnv chk (compositeIncoming toyEnv
        toyNewService toyTarget (previousService chk) None)) (toyProject FEDERATION False))
        \<and> projl (supergraph (if project_type (toyProject FEDERATION False) = FEDERATION
        then toyFailing else (toyOrchestrator STITCHING)) (nextObjects toyEnv chk
        (compositeIncoming toyEnv toyNewService toyTarget (previousService chk) None))
        (toyProject FEDERATION False)) = Thrown ExternalErrorC ''unavailable'' \<and> snd
        (CompositeModel_publish toyEnv toyModern toyFailing (toyOrchestrator STITCHING)
        toyNewService (toyProject FEDERATION False) toyTarget [toyPing] (Some ''v1'')) = Inl
        (Thrown ExternalErrorC ''unavailable''))"
    using down_p0 down_p1 down_p2 down_check down_q0 down_q1 down_q2 down_result by blast
  have again_shown:
    "(\<exists>chk. \<not> blank toyEnv (input_service toyAgain) \<and> \<not>
        (requiresServiceUrl (toyProject FEDERATION False) \<and> blank toyEnv (input_url
        toyAgain)) \<and> snd (CompositeModel_publishCheck toyEnv toyFederation (toyOrchestrator
        FEDERATION) (toyOrchestrator STITCHING) toyAgain (toyProject FEDERATION False) [toyPing,
        toyPong]) = Inr chk \<and> (if supportsMetadata (toyProject FEDERATION False) then
        ensureJSONMetadata toyEnv (input_metadata toyAgain) else Inr None) = Inr None \<and>
        \<not> isInitial chk \<and> \<not> compositeIsModified toyEnv (Some ''v1'') chk
        (compositeIncoming toyEnv toyAgain toyTarget (previousService chk) None) \<and> snd
        (CompositeModel_publish toyEnv toyFederation (toyOrchestrator FEDERATION)
        (toyOrchestrator STITCHING) toyAgain (toyProject FEDERATION False) toyTarget [toyPing,
        toyPong] (Some ''v1'')) = Inr neutral)"
    using again_p0 again_p1 again_p2 again_check again_q0 again_result by blast
  have single_refused_shown:
    "(\<exists>chk d. snd (SingleModel_publishCheck toyEnv toySingleLegacy (toyOrchestrator
        SINGLE) toySingleChange (toyProject SINGLE True) [toySingle]) = Inr chk \<and>
        ensureJSONMetadata toyEnv (input_metadata toySingleChange) = Inr None \<and> \<not>
        (\<not> single_isInitial chk \<and> \<not> singleIsModified toyEnv (Some ''v1'') chk
        (singleIncoming toyEnv toySingleChange toyTarget None)) \<and> specConclusion
        (toyProject SINGLE True) toySingleChange (single_validationResult chk) = Reject \<and>
        hasBreakingChanges (single_validationResult chk) \<and> snd (SingleModel_publish toyEnv
        toySingleLegacy (toyOrchestrator SINGLE) toySingleChange (toyProject SINGLE True)
        toyTarget [toySingle] (Some ''v1'')) = Inr (Decision d) \<and> conclusion d = Reject)"
    using single_refused_p0 single_refused_check single_refused_q0 single_refused_q1 single_refused_q2 single_refused_result by blast
  have single_accepted_shown:
    "(\<exists>chk d. snd (SingleModel_publishCheck toyEnv toySingleWorld (toyOrchestrator
        SINGLE) toySingleChange (toyProject SINGLE False) [toySingle]) = Inr chk \<and>
        ensureJSONMetadata toyEnv (input_metadata toySingleChange) = Inr None \<and> \<not>
        (\<not> single_isInitial chk \<and> \<not> singleIsModified toyEnv (Some ''v1'') chk
        (singleIncoming toyEnv toySingleChange toyTarget None)) \<and> specConclusion
        (toyProject SINGLE False) toySingleChange (single_validationResult chk) = Publish \<and>
        isComposable (single_validationResult chk) \<and> snd (SingleModel_publish toyEnv
        toySingleWorld (toyOrchestrator SINGLE) toySingleChange (toyProject SINGLE False)
        toyTarget [toySingle] (Some ''v1'')) = Inr (Decision d) \<and> conclusion d = Publish)"
    using single_accepted_p0 single_accepted_check single_accepted_q0 single_accepted_q1 single_accepted_q2 single_accepted_result by blast
  have single_again_shown:
    "(\<exists>chk. snd (SingleModel_publishCheck toyEnv toySingleWorld (toyOrchestrator SINGLE)
        toySingleAgain (toyProject SINGLE False) [toySingle]) = Inr chk \<and>
        ensureJSONMetadata toyEnv (input_metadata toySingleAgain) = Inr None \<and> \<not>
        single_isInitial chk \<and> \<not> singleIsModified toyEnv (Some ''v1'') chk
        (singleIncoming toyEnv toySingleAgain toyTarget None) \<and> snd (SingleModel_publish
        toyEnv toySingleWorld (toyOrchestrator SINGLE) toySingleAgain (toyProject SINGLE False)
        toyTarget [toySingle] (Some ''v1'')) = Inr (neutralSingle (single_validationResult
        chk)))"
    using single_again_p0 single_again_check single_again_q0 single_again_result by blast
  show ?thesis
    using forced_shown refused_shown added_shown down_shown again_shown single_refused_shown single_accepted_shown single_again_shown
    by blast
qed

section \<open>What a publish that is a no-op does outside\<close>











section \<open>Publishing again what the target holds\<close>












end
